theory Spec2Isabelle
  imports Complex_Main "HOL-Library.Word" "HOL-Library.Char_ord" "HOL-Library.List_Lexorder"
    "HOL-Library.AList"
begin

unbundle bit_operations_syntax

chapter \<open>The model\<close>

section \<open>JavaScript values\<close>

text \<open>
  The management controller is written in JavaScript.  The values that flow through the
  functions verified here are modelled by one datatype.  A number is an integer (the
  code below only prints and compares them), an object is an association list whose
  keys are pairwise distinct, in enumeration order.
\<close>

datatype jsval =
    JUndefined
  | JNull
  | JBool bool
  | JNum int
  | JStr string
  | JObj "(string \<times> jsval) list"

datatype error =
    TypeError
  | Error string

text \<open>Truthiness, as \<^verbatim>\<open>if (v)\<close> and \<^verbatim>\<open>v ? a : b\<close> read a value.\<close>

fun truthy :: "jsval \<Rightarrow> bool" where
  "truthy JUndefined = False"
| "truthy JNull = False"
| "truthy (JBool b) = b"
| "truthy (JNum n) = (n \<noteq> 0)"
| "truthy (JStr s) = (s \<noteq> [])"
| "truthy (JObj kvs) = True"

definition digit_char :: "nat \<Rightarrow> char" where
  "digit_char d = char_of (48 + d)"

function show_nat :: "nat \<Rightarrow> string" where
  "show_nat n = (if n < 10 then [digit_char n] else show_nat (n div 10) @ [digit_char (n mod 10)])"
  by pat_completeness auto
termination
  by (relation "measure (\<lambda>n. n)") auto

declare show_nat.simps [simp del]

definition show_int :: "int \<Rightarrow> string" where
  "show_int i = (if i < 0 then CHR ''-'' # show_nat (nat (- i)) else show_nat (nat i))"

text \<open>\<^verbatim>\<open>String(v)\<close>, which is what \<^verbatim>\<open>'' + v\<close> and \<^verbatim>\<open>v.toString()\<close> produce.\<close>

fun js_to_string :: "jsval \<Rightarrow> string" where
  "js_to_string JUndefined = ''undefined''"
| "js_to_string JNull = ''null''"
| "js_to_string (JBool b) = (if b then ''true'' else ''false'')"
| "js_to_string (JNum n) = show_int n"
| "js_to_string (JStr s) = s"
| "js_to_string (JObj kvs) = ''[object Object]''"

text \<open>Property read \<^verbatim>\<open>obj[key]\<close> on an object: a missing key reads as undefined.\<close>

definition js_get :: "(string \<times> jsval) list \<Rightarrow> string \<Rightarrow> jsval" where
  "js_get kvs key = (case map_of kvs key of None \<Rightarrow> JUndefined | Some v \<Rightarrow> v)"

section \<open>SHA-1 (the digest behind \<^verbatim>\<open>createHash('sha1')\<close>)\<close>

text \<open>
  \<^verbatim>\<open>createHash\<close> comes from the runtime's crypto library.  It is modelled by the
  SHA-1 algorithm of FIPS 180-4 on the bytes of the text.
\<close>

type_synonym u8 = "8 word"
type_synonym u32 = "32 word"

definition be64 :: "nat \<Rightarrow> u8 list" where
  "be64 n = map (\<lambda>i. ucast (drop_bit (8 * (7 - i)) (of_nat n :: 64 word))) [0..<8]"

definition sha1_pad :: "u8 list \<Rightarrow> u8 list" where
  "sha1_pad msg =
     msg @ [0x80] @ replicate ((119 - length msg mod 64) mod 64) 0 @ be64 (8 * length msg)"

fun be32 :: "u8 list \<Rightarrow> u32" where
  "be32 [] = 0"
| "be32 (b # bs) = push_bit (8 * length bs) (ucast b) OR be32 bs"

function chunks :: "nat \<Rightarrow> 'a list \<Rightarrow> 'a list list" where
  "chunks n xs = (if n = 0 \<or> xs = [] then [] else take n xs # chunks n (drop n xs))"
  by pat_completeness auto
termination
  by (relation "measure (\<lambda>(n, xs). length xs)") auto

declare chunks.simps [simp del]

definition sha1_schedule :: "u32 list \<Rightarrow> u32 list" where
  "sha1_schedule ws =
     foldl (\<lambda>w t. w @ [word_rotl 1 (w ! (t - 3) XOR w ! (t - 8) XOR w ! (t - 14) XOR w ! (t - 16))])
       ws [16..<80]"

definition sha1_f :: "nat \<Rightarrow> u32 \<Rightarrow> u32 \<Rightarrow> u32 \<Rightarrow> u32" where
  "sha1_f t b c d =
     (if t < 20 then (b AND c) OR (NOT b AND d)
      else if t < 40 then b XOR c XOR d
      else if t < 60 then (b AND c) OR (b AND d) OR (c AND d)
      else b XOR c XOR d)"

definition sha1_k :: "nat \<Rightarrow> u32" where
  "sha1_k t =
     (if t < 20 then 0x5A827999
      else if t < 40 then 0x6ED9EBA1
      else if t < 60 then 0x8F1BBCDC
      else 0xCA62C1D6)"

type_synonym sha1_state = "u32 \<times> u32 \<times> u32 \<times> u32 \<times> u32"

definition sha1_round :: "u32 list \<Rightarrow> sha1_state \<Rightarrow> nat \<Rightarrow> sha1_state" where
  "sha1_round w s t =
     (case s of (a, b, c, d, e) \<Rightarrow>
        (word_rotl 5 a + sha1_f t b c d + e + sha1_k t + w ! t, a, word_rotl 30 b, c, d))"

definition sha1_block :: "sha1_state \<Rightarrow> u8 list \<Rightarrow> sha1_state" where
  "sha1_block h block =
     (let w = sha1_schedule (map be32 (chunks 4 block))
      in case (h, foldl (sha1_round w) h [0..<80]) of
           ((h0, h1, h2, h3, h4), (a, b, c, d, e)) \<Rightarrow> (h0 + a, h1 + b, h2 + c, h3 + d, h4 + e))"

definition sha1_init :: sha1_state where
  "sha1_init = (0x67452301, 0xEFCDAB89, 0x98BADCFE, 0x10325476, 0xC3D2E1F0)"

definition hex_char :: "nat \<Rightarrow> char" where
  "hex_char d = (if d < 10 then char_of (48 + d) else char_of (87 + d))"

definition hex32 :: "u32 \<Rightarrow> string" where
  "hex32 w = map (\<lambda>i. hex_char (unat (drop_bit (4 * (7 - i)) w AND 15))) [0..<8]"

definition sha1_hex :: "string \<Rightarrow> string" where
  "sha1_hex text =
     (case foldl sha1_block sha1_init (chunks 64 (sha1_pad (map of_char text))) of
        (h0, h1, h2, h3, h4) \<Rightarrow> hex32 h0 @ hex32 h1 @ hex32 h2 @ hex32 h3 @ hex32 h4)"

section \<open>Hash of a data map (site-templates.js)\<close>

text \<open>
  \<^verbatim>\<open>
  export function HashOfData(data) {
      let text = '';
      let keys = Object.keys(data);
      keys.sort();
      for (const key of keys) {
          text += key + data[key];
      }
      return createHash('sha1').update(text).digest('hex');
  }
  \<close>
  \<^verbatim>\<open>keys.sort()\<close> without a comparator orders strings by their code units.
\<close>

definition Object_keys :: "(string \<times> jsval) list \<Rightarrow> string list" where
  "Object_keys data = map fst data"

definition HashOfData_text :: "(string \<times> jsval) list \<Rightarrow> string" where
  "HashOfData_text data =
     foldl (\<lambda>text key. text @ key @ js_to_string (js_get data key)) [] (sort (Object_keys data))"

definition HashOfData :: "(string \<times> jsval) list \<Rightarrow> string" where
  "HashOfData data = sha1_hex (HashOfData_text data)"

section \<open>The database (db-setup.sql)\<close>

text \<open>
  Rows are records whose fields are the columns the verified code reads or writes; a
  nullable column is an option.  A table is the list of its rows, in the order the
  database returns them.  Every row type extends \<open>row\<close>, so that \<^verbatim>\<open>row.id\<close> of the
  source is \<open>id' r\<close> on every table.  A UUID is the text the driver hands to
  JavaScript, a timestamp is a number of milliseconds.
\<close>

type_synonym uuid = string
type_synonym timestamp = int

datatype lifecycle =
    LC_partial | LC_new | LC_skx_cr_created | LC_cm_cert_created | LC_cm_issuer_created
  | LC_ready | LC_active | LC_expired | LC_failed

datatype deployment_state = DS_not_ready | DS_ready_bootstrap | DS_ready_automatic | DS_deployed

datatype access_point_type = AP_claim | AP_peer | AP_member | AP_manage | AP_van

datatype certificate_request_type =
    CR_mgmtController | CR_backboneCA | CR_interiorRouter | CR_accessPoint | CR_vanCA
  | CR_vanCredential | CR_memberClaim | CR_vanSite

record row =
  id' :: uuid

record lifecycle_row = row +
  lifecycle :: "lifecycle option"

record entity = lifecycle_row +
  name :: "string option"
  certificate :: "uuid option"

record interior_site = entity +
  deploymentstate :: "deployment_state option"
  backbone :: "uuid option"

record access_point = entity +
  hostname :: "string option"
  port :: "string option"
  kind :: "access_point_type option"
  interiorsite :: "uuid option"

record inter_router_link = row +
  accesspoint :: "uuid option"
  connectinginteriorsite :: "uuid option"

text \<open>An interval as the driver delivers it: an object of unit names and quantities.\<close>

type_synonym interval = "(string \<times> int) list"

record application_network = entity +
  van_backbone :: "uuid option"
  vanid :: "string option"
  starttime :: "timestamp option"
  endtime :: "timestamp option"
  deletedelay :: "interval option"

record network_credential = entity +
  nc_memberof :: "uuid option"

record member_invitation = entity +
  joindeadline :: "timestamp option"
  memberclasses :: "string list option"
  memberof :: "uuid option"
  instancelimit :: "int option"
  instancecount :: "int option"

record member_site = entity +
  ms_memberof :: "uuid option"
  invitation :: "uuid option"
  siteclasses :: "string list option"
  metadata :: "jsval option"

record tls_certificate = row +
  isca :: "bool option"
  objectname :: "string option"
  signedby :: "uuid option"
  expiration :: "timestamp option"
  renewaltime :: "timestamp option"
  label :: "string option"

record certificate_request = lifecycle_row +
  requesttype :: "certificate_request_type option"
  issuer :: "uuid option"
  cr_hostname :: "string option"
  createdtime :: "timestamp option"
  requesttime :: "timestamp option"
  durationhours :: "rat option"
  managementcontroller :: "uuid option"
  cr_backbone :: "uuid option"
  cr_interiorsite :: "uuid option"
  cr_accesspoint :: "uuid option"
  applicationnetwork :: "uuid option"
  networkcredential :: "uuid option"
  cr_invitation :: "uuid option"
  cr_site :: "uuid option"

record database =
  ManagementControllers :: "entity list"
  Backbones :: "entity list"
  InteriorSites :: "interior_site list"
  BackboneAccessPoints :: "access_point list"
  InterRouterLinks :: "inter_router_link list"
  ApplicationNetworks :: "application_network list"
  NetworkCredentials :: "network_credential list"
  MemberInvitations :: "member_invitation list"
  MemberSites :: "member_site list"
  TlsCertificates :: "tls_certificate list"
  CertificateRequests :: "certificate_request list"

text \<open>
  The write statements the verified functions issue, as they reach the database.  A
  function that talks to the database returns the new database together with the
  statements it sent, so that a suppressed write is visible as a missing entry.
\<close>

datatype statement =
    UPDATE_InteriorSites_DeploymentState deployment_state uuid

section \<open>Deployment state of interior sites (site-deployment-state.js)\<close>

text \<open>
  \<^verbatim>\<open>
  const evaluateSingleSite_TX = async function (client, site) {
      let state = 'not-ready';
      if (site.lifecycle == 'active') {
          state = 'deployed';
      } else if (site.lifecycle == 'ready') {
          const peerResult = await client.query("SELECT InterRouterLinks.Id FROM InterRouterLinks " +
              "JOIN BackboneAccessPoints ON AccessPoint = BackboneAccessPoints.Id " +
              "JOIN InteriorSites ON BackboneAccessPoints.InteriorSite = InteriorSites.Id " +
              "WHERE InterRouterLinks.ConnectingInteriorSite = $1 AND InteriorSites.DeploymentState = 'deployed'", [site.id]);
          if (peerResult.rowCount > 0) {
              state = 'ready-automatic';
          } else {
              const apResult = await client.query("SELECT Id FROM BackboneAccessPoints WHERE Kind = 'manage' AND InteriorSite = $1", [site.id]);
              if (apResult.rowCount > 0) {
                  state = 'ready-bootstrap';
              }
          }
      }
      if (state != site.deploymentstate) {
          await client.query("UPDATE InteriorSites SET DeploymentState = $1 WHERE Id = $2", [state, site.id]);
      }
  }
  \<close>
\<close>

definition peerResult :: "database \<Rightarrow> uuid \<Rightarrow> uuid list" where
  "peerResult db site_id =
     [id' l. l \<leftarrow> InterRouterLinks db, ap \<leftarrow> BackboneAccessPoints db, s \<leftarrow> InteriorSites db,
        accesspoint l = Some (id' ap),
        interiorsite ap = Some (id' s),
        connectinginteriorsite l = Some site_id \<and> deploymentstate s = Some DS_deployed]"

definition apResult :: "database \<Rightarrow> uuid \<Rightarrow> uuid list" where
  "apResult db site_id =
     [id' ap. ap \<leftarrow> BackboneAccessPoints db, kind ap = Some AP_manage \<and> interiorsite ap = Some site_id]"

definition evaluate_state :: "database \<Rightarrow> interior_site \<Rightarrow> deployment_state" where
  "evaluate_state db site =
     (if lifecycle site = Some LC_active then DS_deployed
      else if lifecycle site = Some LC_ready then
        (if length (peerResult db (id' site)) > 0 then DS_ready_automatic
         else if length (apResult db (id' site)) > 0 then DS_ready_bootstrap
         else DS_not_ready)
      else DS_not_ready)"

definition update_DeploymentState :: "deployment_state \<Rightarrow> uuid \<Rightarrow> database \<Rightarrow> database" where
  "update_DeploymentState state site_id db =
     db\<lparr>InteriorSites :=
          map (\<lambda>s. if id' s = site_id then s\<lparr>deploymentstate := Some state\<rparr> else s)
            (InteriorSites db)\<rparr>"

definition evaluateSingleSite_TX :: "database \<Rightarrow> interior_site \<Rightarrow> database \<times> statement list" where
  "evaluateSingleSite_TX db site =
     (let state = evaluate_state db site
      in if Some state \<noteq> deploymentstate site
         then (update_DeploymentState state (id' site) db,
               [UPDATE_InteriorSites_DeploymentState state (id' site)])
         else (db, []))"

text \<open>
  The rules of the deployment-state evaluator as the specification words them (section
  4.6), to be compared with \<open>evaluate_state\<close>.
\<close>

definition spec_DeploymentState :: "database \<Rightarrow> interior_site \<Rightarrow> deployment_state" where
  "spec_DeploymentState db s =
     (if lifecycle s = Some LC_active then DS_deployed
      else if lifecycle s = Some LC_ready \<and>
              (\<exists>l \<in> set (InterRouterLinks db). connectinginteriorsite l = Some (id' s) \<and>
                 (\<exists>ap \<in> set (BackboneAccessPoints db). accesspoint l = Some (id' ap) \<and>
                    (\<exists>t \<in> set (InteriorSites db). interiorsite ap = Some (id' t) \<and>
                       deploymentstate t = Some DS_deployed)))
      then DS_ready_automatic
      else if lifecycle s = Some LC_ready \<and>
              (\<exists>ap \<in> set (BackboneAccessPoints db). kind ap = Some AP_manage \<and>
                 interiorsite ap = Some (id' s))
      then DS_ready_bootstrap
      else DS_not_ready)"

text \<open>An example backbone: \<open>s1\<close> is deployed and listens on \<open>ap1\<close>; \<open>s2\<close> is ready and links to \<open>ap1\<close>.\<close>

definition empty_db :: database where
  "empty_db = \<lparr>ManagementControllers = [], Backbones = [], InteriorSites = [],
     BackboneAccessPoints = [], InterRouterLinks = [], ApplicationNetworks = [],
     NetworkCredentials = [], MemberInvitations = [], MemberSites = [], TlsCertificates = [],
     CertificateRequests = []\<rparr>"

definition site_s1 :: interior_site where
  "site_s1 = \<lparr>id' = ''s1'', lifecycle = Some LC_active, name = Some ''s1'', certificate = None,
     deploymentstate = Some DS_deployed, backbone = Some ''bb1''\<rparr>"

definition site_s2 :: interior_site where
  "site_s2 = \<lparr>id' = ''s2'', lifecycle = Some LC_ready, name = Some ''s2'', certificate = None,
     deploymentstate = Some DS_not_ready, backbone = Some ''bb1''\<rparr>"

definition ap1 :: access_point where
  "ap1 = \<lparr>id' = ''ap1'', lifecycle = Some LC_ready, name = Some ''ap1'', certificate = None,
     hostname = Some ''ap.example.com'', port = Some ''55671'', kind = Some AP_peer,
     interiorsite = Some ''s1''\<rparr>"

definition link1 :: inter_router_link where
  "link1 = \<lparr>id' = ''l1'', accesspoint = Some ''ap1'', connectinginteriorsite = Some ''s2''\<rparr>"

definition backbone_db :: database where
  "backbone_db = empty_db\<lparr>InteriorSites := [site_s1, site_s2], BackboneAccessPoints := [ap1],
     InterRouterLinks := [link1]\<rparr>"

section \<open>Claim server (claim-server.js)\<close>

subsection \<open>The completion slot\<close>

text \<open>
  \<^verbatim>\<open>
  var memberCompletions = {};   // memberId => {handler: completion-function, result: undefined || {}, error: undefined || ERROR }
  \<close>
  The result of a completion is the pair \<^verbatim>\<open>[outgoingLinks, siteClient]\<close>.  The
  \<open>callback\<close> field holds a closure over the promise that \<^verbatim>\<open>blockForCompletion\<close>
  returned; the model records whether it is installed and keeps the state of that
  promise, per member id, in \<open>waiting\<close>.
\<close>

type_synonym claim_result = "jsval \<times> jsval"

record completion =
  result :: "claim_result option"
  error :: "error option"
  callback :: bool

datatype promise = Pending | Resolved claim_result | Rejected error

record claim_server =
  memberCompletions :: "uuid \<rightharpoonup> completion"
  waiting :: "uuid \<rightharpoonup> promise"

text \<open>Settling a promise: only a pending promise changes state.\<close>

definition settle :: "uuid \<Rightarrow> promise \<Rightarrow> claim_server \<Rightarrow> claim_server" where
  "settle memberId outcome st =
     (if waiting st memberId = Some Pending
      then st\<lparr>waiting := (waiting st)(memberId \<mapsto> outcome)\<rparr> else st)"

text \<open>
  \<^verbatim>\<open>
  memberCompletions[memberId].callback = () => {
      const completion = memberCompletions[memberId];
      delete memberCompletions[memberId];
      if (completion.result) {
          resolve(completion.result);
      } else if (completion.error) {
          reject(completion.error);
      } else {
          reject(new Error(`ERROR:ClaimServer - Spurious callback for memberId ${memberId}`));
      }
  };
  \<close>
  The callback is only ever reached through the slot that holds it, so the slot exists
  when it runs; the model leaves the state alone otherwise.
\<close>

definition completion_callback :: "uuid \<Rightarrow> claim_server \<Rightarrow> claim_server" where
  "completion_callback memberId st =
     (case memberCompletions st memberId of
        None \<Rightarrow> st
      | Some completion' \<Rightarrow>
          (let st' = st\<lparr>memberCompletions := (memberCompletions st)(memberId := None)\<rparr>
           in case result completion' of
                Some r \<Rightarrow> settle memberId (Resolved r) st'
              | None \<Rightarrow>
                  (case error completion' of
                     Some e \<Rightarrow> settle memberId (Rejected e) st'
                   | None \<Rightarrow>
                       settle memberId
                         (Rejected (Error (''ERROR:ClaimServer - Spurious callback for memberId '' @ memberId)))
                         st')))"

text \<open>
  \<^verbatim>\<open>
  const blockForCompletion = function(memberId) {
      return new Promise((resolve, reject) => {
          memberCompletions[memberId].callback = () => { ... };
          if (memberCompletions[memberId].result || memberCompletions[memberId].error) {
              memberCompletions[memberId].callback();
          }
      });
  }
  \<close>
  Without a slot the executor throws a TypeError, which rejects the promise.
\<close>

definition blockForCompletion :: "uuid \<Rightarrow> claim_server \<Rightarrow> claim_server" where
  "blockForCompletion memberId st =
     (case memberCompletions st memberId of
        None \<Rightarrow> st\<lparr>waiting := (waiting st)(memberId \<mapsto> Rejected TypeError)\<rparr>
      | Some slot \<Rightarrow>
          (let st' = st\<lparr>waiting := (waiting st)(memberId \<mapsto> Pending),
                         memberCompletions := (memberCompletions st)(memberId \<mapsto> slot\<lparr>callback := True\<rparr>)\<rparr>
           in if result slot \<noteq> None \<or> error slot \<noteq> None
              then completion_callback memberId st' else st'))"

text \<open>
  \<^verbatim>\<open>
  export async function CompleteMember(memberId) {
      if (memberCompletions[memberId]) {
          const [result, error] = await memberCompletion(memberId);
          memberCompletions[memberId].result = result;
          memberCompletions[memberId].error  = error;
          if (memberCompletions[memberId].callback) {
              memberCompletions[memberId].callback();
          }
      } else {
          Log(`ERROR:ClaimServer - Member completion received for an unknown memberId ${memberId}`);
      }
  }
  \<close>
  \<^verbatim>\<open>memberCompletion\<close> reads the database and the member's secret and returns either
  \<^verbatim>\<open>[[outgoingLinks, siteClient], undefined]\<close> or \<^verbatim>\<open>[undefined, error]\<close>; its outcome is
  the parameter \<open>outcome\<close>.
\<close>

definition CompleteMember :: "uuid \<Rightarrow> error + claim_result \<Rightarrow> claim_server \<Rightarrow> claim_server" where
  "CompleteMember memberId outcome st =
     (case memberCompletions st memberId of
        None \<Rightarrow> st
      | Some slot \<Rightarrow>
          (let slot' = (case outcome of
                          Inr r \<Rightarrow> slot\<lparr>result := Some r, error := None\<rparr>
                        | Inl e \<Rightarrow> slot\<lparr>result := None, error := Some e\<rparr>);
               st' = st\<lparr>memberCompletions := (memberCompletions st)(memberId \<mapsto> slot')\<rparr>
           in if callback slot' then completion_callback memberId st' else st'))"

text \<open>The slot as \<^verbatim>\<open>processClaim\<close> registers it.\<close>

definition new_slot :: completion where
  "new_slot = \<lparr>result = None, error = None, callback = False\<rparr>"

subsection \<open>Processing a claim\<close>

text \<open>
  \<^verbatim>\<open>
  const processClaim = async function(claimId, name) {
      var statusCode        = 200;
      var statusDescription = 'OK';
      ...
      const client = await ClientFromPool();
      try {
          await client.query("BEGIN");
          const result = await client.query("SELECT * FROM MemberInvitations WHERE Id = $1 and (JoinDeadline IS NULL OR JoinDeadline > now())", [claimId]);
          if (result.rowCount != 1) {
              throw(Error("No valid invitation exists for the claim"));
          }
          const claim = result.rows[0];
          if (claim.instancelimit && claim.instancecount == claim.instancelimit) {
              throw(Error("Instance limit on this claim has been reached"));
          }
          await client.query("UPDATE MemberInvitations SET InstanceCount = $1 WHERE Id = $2", [claim.instancecount + 1, claimId]);
          const memberResult = await client.query("INSERT INTO MemberSites (Name, MemberOf, Invitation, SiteClasses, Metadata) VALUES ($1, $2, $3, $4, $5) RETURNING Id",
                                                  [name, claim.memberof, claim.id, claim.memberclasses, JSON.stringify({name: name})]);
          memberId = memberResult.rows[0].id;
          memberCompletions[memberId] = { result : undefined, error : undefined, callback : undefined };
          await client.query("COMMIT");
      } catch (error) {
          await client.query("ROLLBACK");
          statusCode        = 400;
          statusDescription = `Claim rejected: ${error.message}`;
      } finally {
          client.release();
      }
      if (statusCode == 200) {
          try {
              [outgoingLinks, siteClient] = await blockForCompletion(memberId);
          } catch (error) {
              statusCode = 500;
              statusDescription = error.message;
          }
      }
      return [statusCode, statusDescription, memberId, outgoingLinks, siteClient];
  }
  \<close>
  The function suspends at its awaits, and \<^verbatim>\<open>CompleteMember\<close> may run at any of
  them once the slot is registered.  The model has one function for the transaction
  (\<open>processClaim_transaction\<close>, through \<^verbatim>\<open>finally\<close>), one for the call of
  \<^verbatim>\<open>blockForCompletion\<close> (\<open>processClaim_wait\<close>) and one for the part that runs when the
  promise is settled (\<open>processClaim_end\<close>).  \<open>now\<close> is the database's clock and \<open>new_id\<close> the
  value \<^verbatim>\<open>gen_random_uuid()\<close> gives the inserted row.  The Metadata column holds
  the JSON text of the object the model stores.  Statements are taken to execute: an
  error raised by the database itself is not part of this model.
\<close>

definition select_invitation :: "timestamp \<Rightarrow> uuid \<Rightarrow> database \<Rightarrow> member_invitation list" where
  "select_invitation now claimId db =
     [r \<leftarrow> MemberInvitations db.
        id' r = claimId \<and> (case joindeadline r of None \<Rightarrow> True | Some d \<Rightarrow> d > now)]"

definition limit_reached :: "member_invitation \<Rightarrow> bool" where
  "limit_reached claim =
     ((case instancelimit claim of None \<Rightarrow> False | Some l \<Rightarrow> l \<noteq> 0)
      \<and> instancecount claim = instancelimit claim)"

definition update_InstanceCount :: "int \<Rightarrow> uuid \<Rightarrow> database \<Rightarrow> database" where
  "update_InstanceCount n claimId db =
     db\<lparr>MemberInvitations :=
          map (\<lambda>r. if id' r = claimId then r\<lparr>instancecount := Some n\<rparr> else r)
            (MemberInvitations db)\<rparr>"

definition insert_MemberSite :: "uuid \<Rightarrow> string \<Rightarrow> member_invitation \<Rightarrow> database \<Rightarrow> database" where
  "insert_MemberSite new_id site_name claim db =
     db\<lparr>MemberSites := MemberSites db @
          [\<lparr>id' = new_id, lifecycle = Some LC_new, name = Some site_name, certificate = None,
            ms_memberof = memberof claim, invitation = Some (id' claim),
            siteclasses = memberclasses claim,
            metadata = Some (JObj [(''name'', JStr site_name)])\<rparr>]\<rparr>"

record claim_status =
  statusCode :: nat
  statusDescription :: string
  memberId :: "uuid option"

definition processClaim_transaction ::
  "timestamp \<Rightarrow> uuid \<Rightarrow> uuid \<Rightarrow> string \<Rightarrow> claim_server \<times> database
     \<Rightarrow> claim_status \<times> claim_server \<times> database" where
  "processClaim_transaction now new_id claimId site_name s =
     (case s of (st, db) \<Rightarrow>
        (let rows = select_invitation now claimId db
         in if length rows \<noteq> 1
            then (\<lparr>statusCode = 400,
                   statusDescription = ''Claim rejected: No valid invitation exists for the claim'',
                   memberId = None\<rparr>, st, db)
            else
              (let claim = hd rows
               in if limit_reached claim
                  then (\<lparr>statusCode = 400,
                         statusDescription = ''Claim rejected: Instance limit on this claim has been reached'',
                         memberId = None\<rparr>, st, db)
                  else
                    (let db1 = update_InstanceCount
                                 (case instancecount claim of None \<Rightarrow> 1 | Some c \<Rightarrow> c + 1) claimId db;
                         db2 = insert_MemberSite new_id site_name claim db1;
                         st1 = st\<lparr>memberCompletions := (memberCompletions st)(new_id \<mapsto> new_slot)\<rparr>
                     in (\<lparr>statusCode = 200, statusDescription = ''OK'', memberId = Some new_id\<rparr>,
                         st1, db2)))))"





subsection \<open>Creating an invitation (crd-templates.js)\<close>

text \<open>
  \<^verbatim>\<open>
  const createInvitation = async function(vid, req, res) {
      ...
      const norm = ValidateAndNormalizeFields(fields, {
          ...
          'joindeadline'    : {type: 'timestampz', optional: true, default: null},
          'siteclass'       : {type: 'string',     optional: true, default: null},
          'instancelimit'   : {type: 'number',     optional: true, default: null},
          ...
      });
      ...
      var extraCols = "";
      var extraVals = "";
      if (norm.siteclass) {
          extraCols += ', MemberClasses';
          extraVals += `, ARRAY['${norm.siteclass}']`;
      }
      if (norm.instancelimit) {
          extraCols += ', InstanceLimit';
          extraVals += `, ${norm.instancelimit}`;
      }
      if (norm.joindeadline) {
          extraCols += ', JoinDeadline';
          extraVals += `, '${norm.joindeadline}'`;
      }
      ...
      const result = await client.query(`INSERT INTO MemberInvitations(Name, MemberOf, ClaimAccess, InteractiveClaim${extraCols}) ` +
                                        `VALUES ($1, $2, $3, $4${extraVals}) RETURNING Id`, [uniqueName, vid, norm.claimaccess, norm.interactive]);
  \<close>
  This INSERT is the only statement of the program that writes InstanceLimit.  A column
  that is not given is NULL, or its default: Lifecycle \<^verbatim>\<open>'new'\<close>, InstanceCount 0.  The
  normalized limit is a number or \<^verbatim>\<open>null\<close>; a limit that is falsy, 0 as well as
  \<^verbatim>\<open>null\<close> or \<^verbatim>\<open>NaN\<close>, is not given.
\<close>

definition createInvitation_INSERT ::
  "uuid \<Rightarrow> string \<Rightarrow> uuid \<Rightarrow> string option \<Rightarrow> int option \<Rightarrow> timestamp option
     \<Rightarrow> database \<Rightarrow> database" where
  "createInvitation_INSERT new_id uniqueName vid norm_siteclass norm_instancelimit norm_joindeadline db =
     db\<lparr>MemberInvitations := MemberInvitations db @
          [\<lparr>id' = new_id, lifecycle = Some LC_new, name = Some uniqueName, certificate = None,
            joindeadline = norm_joindeadline,
            memberclasses =
              (case norm_siteclass of None \<Rightarrow> None | Some c \<Rightarrow> if c = [] then None else Some [c]),
            memberof = Some vid,
            instancelimit =
              (case norm_instancelimit of None \<Rightarrow> None | Some n \<Rightarrow> if n = 0 then None else Some n),
            instancecount = Some 0\<rparr>]\<rparr>"

text \<open>
  An InstanceLimit as the program stores it: NULL, or a number other than 0.
\<close>

definition stored_limit :: "member_invitation \<Rightarrow> bool" where
  "stored_limit r = (instancelimit r \<noteq> Some 0)"


definition idle_server :: claim_server where
  "idle_server = \<lparr>memberCompletions = Map.empty, waiting = Map.empty\<rparr>"


section \<open>Template expander (gotemplate.js)\<close>

subsection \<open>String functions of the runtime\<close>

text \<open>
  Templates are ASCII text.  White space is what \<^verbatim>\<open>trim\<close> strips within ASCII: tab,
  line feed, vertical tab, form feed, carriage return and space.
\<close>

definition is_space :: "char \<Rightarrow> bool" where
  "is_space c = (c \<in> set [CHR 0x09, CHR 0x0A, CHR 0x0B, CHR 0x0C, CHR 0x0D, CHR '' ''])"

definition String_trimLeft :: "string \<Rightarrow> string" where
  "String_trimLeft s = dropWhile is_space s"

definition String_trimRight :: "string \<Rightarrow> string" where
  "String_trimRight s = rev (dropWhile is_space (rev s))"

definition String_trim :: "string \<Rightarrow> string" where
  "String_trim s = String_trimRight (String_trimLeft s)"

text \<open>\<^verbatim>\<open>s.indexOf(pat)\<close>: the first position where \<open>pat\<close> occurs, \<open>None\<close> for -1.\<close>

fun String_indexOf :: "string \<Rightarrow> string \<Rightarrow> nat option" where
  "String_indexOf [] pat = (if pat = [] then Some 0 else None)"
| "String_indexOf (c # cs) pat =
     (if take (length pat) (c # cs) = pat then Some 0
      else map_option Suc (String_indexOf cs pat))"

text \<open>\<^verbatim>\<open>s.slice(a, b)\<close> for \<open>0 \<le> a\<close>, \<open>0 \<le> b\<close>; \<^verbatim>\<open>s.slice(a)\<close> is \<open>drop a s\<close>.\<close>

definition String_slice :: "string \<Rightarrow> nat \<Rightarrow> nat \<Rightarrow> string" where
  "String_slice s a b = take (b - a) (drop a s)"

text \<open>\<^verbatim>\<open>s.split('.')\<close>: always at least one element.\<close>

fun split_dot :: "string \<Rightarrow> string list" where
  "split_dot [] = [[]]"
| "split_dot (c # cs) =
     (if c = CHR ''.'' then [] # split_dot cs
      else (case split_dot cs of [] \<Rightarrow> [[c]] | w # ws \<Rightarrow> (c # w) # ws))"

text \<open>
  \<^verbatim>\<open>Object.keys(v)\<close> for any value: the keys of an object, the indices of a string,
  nothing for a number or a boolean, a TypeError for null and undefined.  \<open>js_prop\<close> reads
  an own property.
\<close>

definition string_entries :: "string \<Rightarrow> (string \<times> jsval) list" where
  "string_entries s = zip (map show_nat [0..<length s]) (map (\<lambda>c. JStr [c]) s)"

fun js_keys :: "jsval \<Rightarrow> error + string list" where
  "js_keys JUndefined = Inl TypeError"
| "js_keys JNull = Inl TypeError"
| "js_keys (JBool b) = Inr []"
| "js_keys (JNum n) = Inr []"
| "js_keys (JStr s) = Inr (map fst (string_entries s))"
| "js_keys (JObj kvs) = Inr (Object_keys kvs)"

fun js_prop :: "jsval \<Rightarrow> string \<Rightarrow> jsval" where
  "js_prop (JObj kvs) key = js_get kvs key"
| "js_prop (JStr s) key = js_get (string_entries s) key"
| "js_prop v key = JUndefined"

subsection \<open>Tokens\<close>

datatype token_type = TOKEN_LITERAL | TOKEN_VARIABLE | TOKEN_IF | TOKEN_ELSE | TOKEN_END

datatype end_with = END_WITH_ELSE | END_WITH_END | END_WITH_EOS

definition OPEN :: string where "OPEN = ''{{''"
definition CLOSE :: string where "CLOSE = ''}}''"
definition D_IF :: string where "D_IF = ''if ''"
definition D_ELSE :: string where "D_ELSE = ''else''"
definition D_END :: string where "D_END = ''end''"

text \<open>
  The class \<^verbatim>\<open>Token\<close>: type, content, trimLeft, and the links \<^verbatim>\<open>Arrange\<close> sets
  (\<^verbatim>\<open>thenClause\<close>, \<^verbatim>\<open>elseClause\<close>, \<^verbatim>\<open>next\<close>).  An undefined field is \<open>None\<close>.
\<close>

datatype token =
  Token (type': token_type) (content: "string option") (trimLeft: bool)
        (thenClause: "token option") (elseClause: "token option") (next': "token option")

definition new_Token :: "token_type \<Rightarrow> string option \<Rightarrow> bool \<Rightarrow> token" where
  "new_Token ty c tleft = Token ty c tleft None None None"

text \<open>
  \<^verbatim>\<open>
  Parse(text) {
      if (text == '') { throw new Error('GoTemplate: Parsing unexpected empty string'); }
      const openPos = text.indexOf(OPEN);
      if (openPos == -1) { this.type = TOKEN_LITERAL; this.content = text; return ''; }
      if (openPos > 0) {
          this.type = TOKEN_LITERAL; this.content = text.slice(0, openPos);
          return text.slice(openPos);
      }
      const closePos = text.indexOf(CLOSE);
      if (closePos == -1) { throw new Error('GoTemplate: Unterminated Directive'); }
      let innerText = text.slice(OPEN.length, closePos).trim();
      let afterText = text.slice(closePos + CLOSE.length);
      if (innerText[0] == '-') { this.trimLeft = true; innerText = innerText.slice(1).trim(); }
      if (innerText.charAt(innerText.length - 1) == '-') {
          innerText = innerText.slice(0, innerText.length - 1).trim();
          afterText = afterText.trimLeft();
      }
      if (innerText.indexOf(D_IF) == 0) {
          this.type = TOKEN_IF; this.content = innerText.slice(D_IF.length);
      } else if (innerText.indexOf(D_ELSE) == 0) { this.type = TOKEN_ELSE;
      } else if (innerText.indexOf(D_END) == 0) { this.type = TOKEN_END;
      } else { this.type = TOKEN_VARIABLE; this.content = innerText; }
      return afterText;
  }
  \<close>
\<close>

definition starts_with :: "string \<Rightarrow> string \<Rightarrow> bool" where
  "starts_with s pat = (String_indexOf s pat = Some 0)"

definition directive :: "bool \<Rightarrow> string \<Rightarrow> token" where
  "directive tleft innerText =
     (if starts_with innerText D_IF
        then new_Token TOKEN_IF (Some (drop (length D_IF) innerText)) tleft
      else if starts_with innerText D_ELSE then new_Token TOKEN_ELSE None tleft
      else if starts_with innerText D_END then new_Token TOKEN_END None tleft
      else new_Token TOKEN_VARIABLE (Some innerText) tleft)"

definition Parse :: "string \<Rightarrow> error + (token \<times> string)" where
  "Parse text =
     (if text = [] then Inl (Error ''GoTemplate: Parsing unexpected empty string'')
      else case String_indexOf text OPEN of
        None \<Rightarrow> Inr (new_Token TOKEN_LITERAL (Some text) False, [])
      | Some openPos \<Rightarrow>
          if openPos > 0
          then Inr (new_Token TOKEN_LITERAL (Some (String_slice text 0 openPos)) False,
                    drop openPos text)
          else
            (case String_indexOf text CLOSE of
               None \<Rightarrow> Inl (Error ''GoTemplate: Unterminated Directive'')
             | Some closePos \<Rightarrow>
                 (let innerText0 = String_trim (String_slice text (length OPEN) closePos);
                      afterText0 = drop (closePos + length CLOSE) text;
                      tleft = (take 1 innerText0 = ''-'');
                      innerText1 = (if tleft then String_trim (drop 1 innerText0) else innerText0);
                      dash = (innerText1 \<noteq> [] \<and> last innerText1 = CHR ''-'');
                      innerText2 = (if dash then String_trim (butlast innerText1) else innerText1);
                      afterText = (if dash then String_trimLeft afterText0 else afterText0)
                  in Inr (directive tleft innerText2, afterText))))"


subsection \<open>Tokenizing\<close>

text \<open>
  \<^verbatim>\<open>
  let tokenStream = [];
  let text = template;
  while (text.length > 0) {
      let token = new Token();
      text = token.Parse(text);
      tokenStream.push(token);
  }
  \<close>
  The loop ends because \<^verbatim>\<open>Parse\<close> returns a text shorter than the one it was given.
\<close>

lemma length_trimLeft: "length (String_trimLeft s) \<le> length s"
  by (simp add: String_trimLeft_def length_dropWhile_le)

lemma String_indexOf_bound: "String_indexOf s pat = Some i \<Longrightarrow> i \<le> length s"
  by (induction s arbitrary: i) (auto split: if_splits)

lemma Parse_shorter:
  assumes "Parse text = Inr (tok, rest)"
  shows "length rest < length text"
proof -
  have ne: "text \<noteq> []" using assms by (auto simp: Parse_def)
  show ?thesis
  proof (cases "String_indexOf text OPEN")
    case None
    then show ?thesis using assms ne by (auto simp: Parse_def)
  next
    case (Some openPos)
    show ?thesis
    proof (cases "openPos > 0")
      case True
      then show ?thesis using assms ne Some by (auto simp: Parse_def)
    next
      case False
      then obtain closePos where c: "String_indexOf text CLOSE = Some closePos"
        using assms ne Some by (auto simp: Parse_def split: option.splits)
      have "length rest \<le> length (drop (closePos + length CLOSE) text)"
        using assms ne Some False c length_trimLeft [of "drop (closePos + length CLOSE) text"]
        by (auto simp: Parse_def Let_def split: if_splits)
      also have "\<dots> < length text"
        using ne by (simp add: CLOSE_def)
      finally show ?thesis .
    qed
  qed
qed

function tokenize :: "string \<Rightarrow> error + token list" where
  "tokenize text =
     (if text = [] then Inr []
      else case Parse text of
             Inl e \<Rightarrow> Inl e
           | Inr (tok, rest) \<Rightarrow>
               (case tokenize rest of Inl e \<Rightarrow> Inl e | Inr toks \<Rightarrow> Inr (tok # toks)))"
  by pat_completeness auto
termination
  by (relation "measure length") (auto simp: Parse_shorter)

declare tokenize.simps [simp del]


subsection \<open>Arranging the tokens into a tree\<close>

text \<open>
  \<^verbatim>\<open>
  Arrange(tokenList) {
      if (tokenList.length == 0) { return END_WITH_EOS; }
      if (this.type == TOKEN_ELSE) { return END_WITH_ELSE; }
      if (this.type == TOKEN_END) { return END_WITH_END; }
      const head = tokenList.shift();
      switch (this.type) {
          case TOKEN_LITERAL:
              if (head.trimLeft) { this.content = this.content.trimRight(); }
              // Fall through...
          case TOKEN_VARIABLE:
              this.next = head;
              return head.Arrange(tokenList);
          case TOKEN_IF:
              this.thenClause = head;
              const thenResult = head.Arrange(tokenList);
              switch (thenResult) {
                  case END_WITH_EOS:
                      throw new Error('GoTemplate: Then clause not closed with End or Else');
                  case END_WITH_ELSE:
                      this.elseClause = tokenList.shift();
                      const elseResult = this.elseClause.Arrange(tokenList);
                      if (elseResult != END_WITH_END) {
                          throw new Error('GoTemplate: Else clause did not close with End');
                      }
                      break;
                  case END_WITH_END:
                      break;
              }
              break;
      }
      if (tokenList.length > 0) {
          this.next = tokenList.shift();
          return this.next.Arrange(tokenList);
      } else {
          return END_WITH_EOS;
      }
  }
  \<close>
  The source mutates the tokens in place and consumes one shared list.  The model
  returns the arranged token, the end code and the tokens left.  The recursion is
  nested (the else clause is arranged on what the then clause left), so termination
  rests on the fact that a call never returns more tokens than it was given.
\<close>

definition set_next :: "token \<Rightarrow> token \<Rightarrow> token" where
  "set_next this n = (case this of Token ty c tleft th el nx \<Rightarrow> Token ty c tleft th el (Some n))"

definition set_thenClause :: "token \<Rightarrow> token \<Rightarrow> token" where
  "set_thenClause this n = (case this of Token ty c tleft th el nx \<Rightarrow> Token ty c tleft (Some n) el nx)"

definition set_elseClause :: "token \<Rightarrow> token \<Rightarrow> token" where
  "set_elseClause this n = (case this of Token ty c tleft th el nx \<Rightarrow> Token ty c tleft th (Some n) nx)"

definition trim_content :: "token \<Rightarrow> token" where
  "trim_content this =
     (case this of Token ty c tleft th el nx \<Rightarrow> Token ty (map_option String_trimRight c) tleft th el nx)"

function Arrange :: "token \<Rightarrow> token list \<Rightarrow> error + (token \<times> end_with \<times> token list)" where
  "Arrange this tokenList =
     (case tokenList of
        [] \<Rightarrow> Inr (this, END_WITH_EOS, [])
      | head # tokenList1 \<Rightarrow>
          if type' this = TOKEN_ELSE then Inr (this, END_WITH_ELSE, tokenList)
          else if type' this = TOKEN_END then Inr (this, END_WITH_END, tokenList)
          else if type' this = TOKEN_IF then
            (case Arrange head tokenList1 of
               Inl e \<Rightarrow> Inl e
             | Inr (thenTok, thenResult, tokenList2) \<Rightarrow>
                 (case thenResult of
                    END_WITH_EOS \<Rightarrow> Inl (Error ''GoTemplate: Then clause not closed with End or Else'')
                  | END_WITH_END \<Rightarrow>
                      (case tokenList2 of
                         [] \<Rightarrow> Inr (set_thenClause this thenTok, END_WITH_EOS, [])
                       | next0 # tokenList3 \<Rightarrow>
                           (case Arrange next0 tokenList3 of
                              Inl e \<Rightarrow> Inl e
                            | Inr (nextTok, r, tokenList4) \<Rightarrow>
                                Inr (set_next (set_thenClause this thenTok) nextTok, r, tokenList4)))
                  | END_WITH_ELSE \<Rightarrow>
                      (case tokenList2 of
                         [] \<Rightarrow> Inl TypeError
                       | else0 # tokenList3 \<Rightarrow>
                           (case Arrange else0 tokenList3 of
                              Inl e \<Rightarrow> Inl e
                            | Inr (elseTok, elseResult, tokenList4) \<Rightarrow>
                                if elseResult \<noteq> END_WITH_END
                                then Inl (Error ''GoTemplate: Else clause did not close with End'')
                                else
                                  (case tokenList4 of
                                     [] \<Rightarrow> Inr (set_elseClause (set_thenClause this thenTok) elseTok,
                                                 END_WITH_EOS, [])
                                   | next0 # tokenList5 \<Rightarrow>
                                       (case Arrange next0 tokenList5 of
                                          Inl e \<Rightarrow> Inl e
                                        | Inr (nextTok, r, tokenList6) \<Rightarrow>
                                            Inr (set_next (set_elseClause (set_thenClause this thenTok) elseTok) nextTok,
                                                 r, tokenList6)))))))
          else
            (case Arrange head tokenList1 of
               Inl e \<Rightarrow> Inl e
             | Inr (nextTok, r, tokenList2) \<Rightarrow>
                 Inr (set_next (if type' this = TOKEN_LITERAL \<and> trimLeft head
                                then trim_content this else this) nextTok,
                      r, tokenList2)))"
  by pat_completeness auto

lemma Arrange_shorter_all:
  "Arrange_dom (this, tokenList) \<Longrightarrow>
     \<forall>t r rest. Arrange this tokenList = Inr (t, r, rest) \<longrightarrow> length rest \<le> length tokenList"
proof (induction rule: Arrange.pinduct)
  case (1 this tokenList)
  note eq = Arrange.psimps [OF "1.hyps"]
  show ?case
  proof (intro allI impI)
    fix t r rest
    assume a: "Arrange this tokenList = Inr (t, r, rest)"
    show "length rest \<le> length tokenList"
    proof (cases tokenList)
      case Nil
      then show ?thesis using a eq by simp
    next
      case (Cons head tokenList1)
      consider (else_end) "type' this = TOKEN_ELSE \<or> type' this = TOKEN_END"
        | (if_tok) "type' this \<noteq> TOKEN_ELSE" "type' this \<noteq> TOKEN_END" "type' this = TOKEN_IF"
        | (other) "type' this \<noteq> TOKEN_ELSE" "type' this \<noteq> TOKEN_END" "type' this \<noteq> TOKEN_IF"
        by blast
      then show ?thesis
      proof cases
        case else_end
        then show ?thesis using a eq Cons by (auto split: if_splits)
      next
        case other
        then obtain nextTok tokenList2 where
          h: "Arrange head tokenList1 = Inr (nextTok, r, tokenList2)" and r: "rest = tokenList2"
          using a eq Cons by (auto split: sum.splits)
        have "length tokenList2 \<le> length tokenList1"
          using "1.IH"(5) [OF Cons other] h by blast
        then show ?thesis using r Cons by simp
      next
        case if_tok
        then obtain thenTok thenResult tokenList2 where
          h: "Arrange head tokenList1 = Inr (thenTok, thenResult, tokenList2)"
          using a eq Cons by (auto split: sum.splits)
        have l2: "length tokenList2 \<le> length tokenList1"
          using "1.IH"(1) [OF Cons if_tok] h by blast
        show ?thesis
        proof (cases thenResult)
          case END_WITH_EOS
          then show ?thesis using a eq Cons if_tok h by simp
        next
          case END_WITH_END
          show ?thesis
          proof (cases tokenList2)
            case Nil
            then show ?thesis using a eq Cons if_tok h END_WITH_END by simp
          next
            case (Cons next0 tokenList3)
            then obtain nextTok tokenList4 where
              h4: "Arrange next0 tokenList3 = Inr (nextTok, r, tokenList4)" and r: "rest = tokenList4"
              using a eq \<open>tokenList = head # tokenList1\<close> if_tok h END_WITH_END
              by (auto split: sum.splits)
            have "length tokenList4 \<le> length tokenList3"
              using "1.IH"(4) [OF \<open>tokenList = head # tokenList1\<close> if_tok h refl refl END_WITH_END Cons] h4
              by blast
            then show ?thesis using r l2 Cons \<open>tokenList = head # tokenList1\<close> by simp
          qed
        next
          case END_WITH_ELSE
          show ?thesis
          proof (cases tokenList2)
            case Nil
            then show ?thesis using a eq Cons if_tok h END_WITH_ELSE by simp
          next
            case c2: (Cons else0 tokenList3)
            then obtain elseTok elseResult tokenList4 where
              h4: "Arrange else0 tokenList3 = Inr (elseTok, elseResult, tokenList4)"
              using a eq Cons if_tok h END_WITH_ELSE by (auto split: sum.splits)
            have l4: "length tokenList4 \<le> length tokenList3"
              using "1.IH"(2) [OF Cons if_tok h refl refl END_WITH_ELSE c2] h4 by blast
            have er: "elseResult = END_WITH_END"
              using a eq Cons if_tok h END_WITH_ELSE c2 h4 by (auto split: if_splits)
            show ?thesis
            proof (cases tokenList4)
              case Nil
              then show ?thesis using a eq Cons if_tok h END_WITH_ELSE c2 h4 er by simp
            next
              case c4: (Cons next0 tokenList5)
              then obtain nextTok tokenList6 where
                h6: "Arrange next0 tokenList5 = Inr (nextTok, r, tokenList6)" and r: "rest = tokenList6"
                using a eq Cons if_tok h END_WITH_ELSE c2 h4 er by (auto split: sum.splits)
              have "length tokenList6 \<le> length tokenList5"
                using "1.IH"(3) [OF Cons if_tok h refl refl END_WITH_ELSE c2 h4 refl refl _ c4] er h6
                by blast
              then show ?thesis using r l2 l4 c2 c4 Cons by simp
            qed
          qed
        qed
      qed
    qed
  qed
qed

lemma Arrange_shorter:
  "Arrange_dom (this, tokenList) \<Longrightarrow> Arrange this tokenList = Inr (t, r, rest) \<Longrightarrow>
     length rest \<le> length tokenList"
  using Arrange_shorter_all by blast

termination Arrange
proof (relation "measure (\<lambda>(this, tokenList). length tokenList)")
  show "wf (measure (\<lambda>(this, tokenList). length tokenList))" by simp
qed (auto dest!: Arrange_shorter)


declare Arrange.simps [simp del]

subsection \<open>Expanding the tree\<close>

text \<open>
  \<^verbatim>\<open>
  _value(localData, remoteData, unresolvable) {
      const prefix       = this.content[0];
      const path         = this.content.slice(1);
      const pathElements = path.split('.');
      let result = `UNDEFINED[${this.content}]`;
      if (prefix == '.') {
          if (Object.keys(localData).indexOf(path) >= 0) {
              result = localData[path];
          } else {
              unresolvable[this.content] = true;
          }
      } else if (this.content[0] == '$') {
          let traverse = remoteData;
          for (const element of pathElements) {
              if (Object.keys(traverse).indexOf(element) == -1) {
                  unresolvable[this.content] = true;
                  return result;
              }
              traverse = traverse[element];
          }
          result = traverse;
      }
      return result;
  }
  \<close>
  \<^verbatim>\<open>unresolvable\<close> is an object used as a set of paths; the functions return it
  updated next to their result.  \<open>traverse\<close> is the \<^verbatim>\<open>for\<close> loop.
\<close>

fun traverse ::
  "jsval \<Rightarrow> string list \<Rightarrow> string \<Rightarrow> string set \<Rightarrow> (error + jsval) \<times> string set" where
  "traverse tr [] content' u = (Inr tr, u)"
| "traverse tr (element # elements) content' u =
     (case js_keys tr of
        Inl e \<Rightarrow> (Inl e, u)
      | Inr ks \<Rightarrow>
          if element \<notin> set ks
          then (Inr (JStr (''UNDEFINED['' @ content' @ '']'')), insert content' u)
          else traverse (js_prop tr element) elements content' u)"

definition value' ::
  "string option \<Rightarrow> jsval \<Rightarrow> jsval \<Rightarrow> string set \<Rightarrow> (error + jsval) \<times> string set" where
  "value' c localData remoteData u =
     (case c of
        None \<Rightarrow> (Inl TypeError, u)
      | Some content' \<Rightarrow>
          (let path = drop 1 content';
               pathElements = split_dot path
           in if take 1 content' = ''.'' then
                (case js_keys localData of
                   Inl e \<Rightarrow> (Inl e, u)
                 | Inr ks \<Rightarrow>
                     if path \<in> set ks then (Inr (js_prop localData path), u)
                     else (Inr (JStr (''UNDEFINED['' @ content' @ '']'')), insert content' u))
              else if take 1 content' = ''$'' then traverse remoteData pathElements content' u
              else (Inr (JStr (''UNDEFINED['' @ content' @ '']'')), u)))"

text \<open>
  \<^verbatim>\<open>
  Expand(localData, remoteData, unresolvable) {
      var expanded = '';
      switch (this.type) {
          case TOKEN_LITERAL:
              expanded = this.content;
              break;
          case TOKEN_VARIABLE:
              const val = this._value(localData, remoteData, unresolvable);
              expanded = val ? val.toString() : 'undefined';
              break;
          case TOKEN_IF:
              const condition = this._value(localData, remoteData, unresolvable);
              if (condition) {
                  expanded = this.thenClause.Expand(localData, remoteData, unresolvable);
              } else if (this.elseClause) {
                  expanded = this.elseClause.Expand(localData, remoteData, unresolvable);
              }
              break;
      }
      if (this.next) {
          expanded += this.next.Expand(localData, remoteData, unresolvable);
      }
      return expanded;
  }
  \<close>
\<close>

fun Token_Expand ::
  "token \<Rightarrow> jsval \<Rightarrow> jsval \<Rightarrow> string set \<Rightarrow> (error + string) \<times> string set" where
  "Token_Expand (Token ty c tleft th el nx) localData remoteData u =
     (case (case ty of
              TOKEN_LITERAL \<Rightarrow> (Inr (case c of Some s \<Rightarrow> s | None \<Rightarrow> ''undefined''), u)
            | TOKEN_VARIABLE \<Rightarrow>
                (case value' c localData remoteData u of
                   (Inl e, u') \<Rightarrow> (Inl e, u')
                 | (Inr val, u') \<Rightarrow>
                     (Inr (if truthy val then js_to_string val else ''undefined''), u'))
            | TOKEN_IF \<Rightarrow>
                (case value' c localData remoteData u of
                   (Inl e, u') \<Rightarrow> (Inl e, u')
                 | (Inr condition, u') \<Rightarrow>
                     if truthy condition then
                       (case th of
                          None \<Rightarrow> (Inl TypeError, u')
                        | Some t \<Rightarrow> Token_Expand t localData remoteData u')
                     else
                       (case el of
                          None \<Rightarrow> (Inr [], u')
                        | Some t \<Rightarrow> Token_Expand t localData remoteData u'))
            | TOKEN_ELSE \<Rightarrow> (Inr [], u)
            | TOKEN_END \<Rightarrow> (Inr [], u)) of
        (Inl e, u1) \<Rightarrow> (Inl e, u1)
      | (Inr expanded, u1) \<Rightarrow>
          (case nx of
             None \<Rightarrow> (Inr expanded, u1)
           | Some n \<Rightarrow>
               (case Token_Expand n localData remoteData u1 of
                  (Inl e, u2) \<Rightarrow> (Inl e, u2)
                | (Inr following, u2) \<Rightarrow> (Inr (expanded @ following), u2))))"

text \<open>
  \<^verbatim>\<open>
  export function Expand(template, localData, remoteData, unresolvable) {
      ... tokenize ...
      const rootToken = tokenStream.shift();
      const result    = rootToken.Arrange(tokenStream);
      if (result != END_WITH_EOS) {
          throw new Error(`GoTemplate: Template ended with spurious End or Else`);
      }
      return rootToken.Expand(localData, remoteData, unresolvable);
  }
  \<close>
  An empty template has no root token, and the call on it is a TypeError.
\<close>

definition Expand ::
  "string \<Rightarrow> jsval \<Rightarrow> jsval \<Rightarrow> string set \<Rightarrow> (error + string) \<times> string set" where
  "Expand template localData remoteData unresolvable =
     (case tokenize template of
        Inl e \<Rightarrow> (Inl e, unresolvable)
      | Inr tokenStream \<Rightarrow>
          (case tokenStream of
             [] \<Rightarrow> (Inl TypeError, unresolvable)
           | rootToken # tokens \<Rightarrow>
               (case Arrange rootToken tokens of
                  Inl e \<Rightarrow> (Inl e, unresolvable)
                | Inr (rootToken1, r, rest) \<Rightarrow>
                    if r \<noteq> END_WITH_EOS
                    then (Inl (Error ''GoTemplate: Template ended with spurious End or Else''),
                          unresolvable)
                    else Token_Expand rootToken1 localData remoteData unresolvable)))"

text \<open>
  What it means for a path to resolve, in the words of the specification: a \<^verbatim>\<open>.name\<close>
  path resolves when \<open>name\<close> is a key of the local scope, a \<^verbatim>\<open>$a.b.c\<close> path when each
  element in turn is a key of the value reached so far, starting from the remote scope.
\<close>

definition local_lookup :: "jsval \<Rightarrow> string \<Rightarrow> jsval option" where
  "local_lookup localData path =
     (case js_keys localData of
        Inl e \<Rightarrow> None
      | Inr ks \<Rightarrow> if path \<in> set ks then Some (js_prop localData path) else None)"

fun remote_lookup :: "jsval \<Rightarrow> string list \<Rightarrow> jsval option" where
  "remote_lookup v [] = Some v"
| "remote_lookup v (element # elements) =
     (case js_keys v of
        Inl e \<Rightarrow> None
      | Inr ks \<Rightarrow> if element \<in> set ks then remote_lookup (js_prop v element) elements else None)"

section \<open>Certificate reconcilers (certs.js)\<close>

subsection \<open>Configuration and intervals (config.js, db.js)\<close>

record config =
  rootissuer :: "string option"
  backbonecaexpiration :: "interval option"
  defaultcaexpiration :: "interval option"
  defaultcertexpiration :: "interval option"
  sitedataplaneimage :: "string option"
  sitecontrollerimage :: "string option"
  certorganization :: "string option"

text \<open>
  \<^verbatim>\<open>
  export function IntervalMilliseconds (value) {
      try {
          var result = 0;
          for (const [unit, quantity] of Object.entries(value)) {
              if        (unit == 'years' || unit == 'year') {
                  result += quantity * (3600 * 24 * 365 * 1000);
              } else if (unit == 'weeks' || unit == 'week') {
                  result += quantity * (3600 * 24 * 7 * 1000);
              } else if (unit == 'days' || unit == 'day') {
                  result += quantity * (3600 * 24 * 1000);
              } else if (unit == 'hours' || unit == 'hour') {
                  result += quantity * (3600 * 1000);
              } else if (unit == 'minutes' || unit == 'minute') {
                  result += quantity * (60 * 1000);
              } else if (unit == 'seconds' || unit == 'second') {
                  result += quantity * (1000);
              }
          }
          if (result < 3600000) { result = 3600000; }
          return result;
      } catch (err) {
          return 0;
      }
  }
  \<close>
  A NULL interval makes \<^verbatim>\<open>Object.entries\<close> throw, which the function turns into 0.
\<close>

definition unit_milliseconds :: "string \<Rightarrow> int" where
  "unit_milliseconds unit =
     (if unit = ''years'' \<or> unit = ''year'' then 3600 * 24 * 365 * 1000
      else if unit = ''weeks'' \<or> unit = ''week'' then 3600 * 24 * 7 * 1000
      else if unit = ''days'' \<or> unit = ''day'' then 3600 * 24 * 1000
      else if unit = ''hours'' \<or> unit = ''hour'' then 3600 * 1000
      else if unit = ''minutes'' \<or> unit = ''minute'' then 60 * 1000
      else if unit = ''seconds'' \<or> unit = ''second'' then 1000
      else 0)"

definition IntervalMilliseconds :: "interval option \<Rightarrow> int" where
  "IntervalMilliseconds v =
     (case v of
        None \<Rightarrow> 0
      | Some entries \<Rightarrow>
          (let total = foldl (\<lambda>acc (unit, quantity). acc + quantity * unit_milliseconds unit) 0 entries
           in if total < 3600000 then 3600000 else total))"

text \<open>\<^verbatim>\<open>duration_ms / 3600000\<close> is a division of numbers; \<^verbatim>\<open>Math.trunc\<close> rounds towards zero.\<close>

definition hours_of :: "int \<Rightarrow> rat" where
  "hours_of duration_ms = of_int duration_ms / 3600000"

definition Math_trunc :: "rat \<Rightarrow> rat" where
  "Math_trunc x = (if x < 0 then - of_int (floor (- x)) else of_int (floor x))"

subsection \<open>The loops\<close>

text \<open>
  What a loop receives from outside: the clock of the database, the identifier
  \<^verbatim>\<open>gen_random_uuid()\<close> gives the inserted request, the configuration, and whether an
  awaited call of the \<^verbatim>\<open>try\<close> block rejects (a lost connection, a statement the
  database refuses); \<^verbatim>\<open>ROLLBACK\<close> itself is taken to succeed.
\<close>

record env =
  env_fault :: "error option"
  env_now :: timestamp
  env_new_id :: uuid
  env_config :: config

definition blank_request ::
  "uuid \<Rightarrow> certificate_request_type \<Rightarrow> timestamp option \<Rightarrow> timestamp option \<Rightarrow> rat
     \<Rightarrow> certificate_request" where
  "blank_request new_id ty created requested hours =
     \<lparr>id' = new_id, lifecycle = Some LC_new, requesttype = Some ty, issuer = None,
      cr_hostname = None, createdtime = created, requesttime = requested,
      durationhours = Some hours, managementcontroller = None, cr_backbone = None,
      cr_interiorsite = None, cr_accesspoint = None, applicationnetwork = None,
      networkcredential = None, cr_invitation = None, cr_site = None\<rparr>"

definition insert_CertificateRequest :: "certificate_request \<Rightarrow> database \<Rightarrow> database" where
  "insert_CertificateRequest r db = db\<lparr>CertificateRequests := CertificateRequests db @ [r]\<rparr>"

text \<open>\<^verbatim>\<open>UPDATE <table> SET Lifecycle = <lc> WHERE Id = <i>\<close> on the rows of a table.\<close>

definition set_lifecycle ::
  "lifecycle \<Rightarrow> uuid \<Rightarrow> 'a lifecycle_row_scheme list \<Rightarrow> 'a lifecycle_row_scheme list" where
  "set_lifecycle lc i rows = map (\<lambda>r. if id' r = i then r\<lparr>lifecycle := Some lc\<rparr> else r) rows"

text \<open>
  Every loop has the shape
  \<^verbatim>\<open>
  const processNewBackbones = async function() {
      var reschedule_delay = 2000;
      const client = await ClientFromPool();
      try {
          await client.query('BEGIN');
          const result = await client.query("SELECT * FROM Backbones WHERE Lifecycle = 'new' LIMIT 1");
          if (result.rowCount == 1) {
              const row = result.rows[0];
              var duration_ms;
              duration_ms = IntervalMilliseconds(BackboneExpiration());
              await client.query(
                  "INSERT INTO CertificateRequests(Id, RequestType, CreatedTime, RequestTime, DurationHours, Backbone) VALUES(gen_random_uuid(), 'backboneCA', now(), now(), $1, $2)",
                  [duration_ms / 3600000, row.id]);
              await client.query("UPDATE Backbones SET Lifecycle = 'skx_cr_created' WHERE Id = $1", [row.id]);
              reschedule_delay = 0;
          }
          await client.query('COMMIT');
      } catch (err) {
          await client.query('ROLLBACK');
          reschedule_delay = 10000;
      } finally {
          client.release();
          setTimeout(processNewBackbones, reschedule_delay);
      }
  }
  \<close>
  For each loop, \<open>select_...\<close> is its SELECT (with \<^verbatim>\<open>LIMIT 1\<close>), \<open>..._try\<close> is the
  \<^verbatim>\<open>try\<close> block, which returns the database and the value of
  \<^verbatim>\<open>reschedule_delay\<close> it ends with, or raises, and the loop itself returns the database
  it leaves and the delay it hands to \<^verbatim>\<open>setTimeout\<close>.
\<close>

definition transaction ::
  "database \<Rightarrow> error + (database \<times> nat) \<Rightarrow> database \<times> nat" where
  "transaction db body = (case body of Inl e \<Rightarrow> (db, 10000) | Inr r \<Rightarrow> r)"

definition select_new_ManagementControllers :: "database \<Rightarrow> entity list" where
  "select_new_ManagementControllers db =
     take 1 [r \<leftarrow> ManagementControllers db. lifecycle r = Some LC_new]"

definition processNewManagementControllers_try :: "env \<Rightarrow> database \<Rightarrow> error + (database \<times> nat)" where
  "processNewManagementControllers_try e db =
     (case env_fault e of
        Some err \<Rightarrow> Inl err
      | None \<Rightarrow>
          (case select_new_ManagementControllers db of
             [r] \<Rightarrow>
               (let duration_ms = IntervalMilliseconds (backbonecaexpiration (env_config e));
                    db1 = insert_CertificateRequest
                            ((blank_request (env_new_id e) CR_mgmtController (Some (env_now e))
                                (Some (env_now e)) (hours_of duration_ms))
                               \<lparr>managementcontroller := Some (id' r)\<rparr>) db;
                    db2 = db1\<lparr>ManagementControllers :=
                                set_lifecycle LC_skx_cr_created (id' r) (ManagementControllers db1)\<rparr>
                in Inr (db2, 0))
           | _ \<Rightarrow> Inr (db, 5000)))"

definition processNewManagementControllers :: "env \<Rightarrow> database \<Rightarrow> database \<times> nat" where
  "processNewManagementControllers e db = transaction db (processNewManagementControllers_try e db)"

definition select_new_Backbones :: "database \<Rightarrow> entity list" where
  "select_new_Backbones db = take 1 [r \<leftarrow> Backbones db. lifecycle r = Some LC_new]"

definition processNewBackbones_try :: "env \<Rightarrow> database \<Rightarrow> error + (database \<times> nat)" where
  "processNewBackbones_try e db =
     (case env_fault e of
        Some err \<Rightarrow> Inl err
      | None \<Rightarrow>
          (case select_new_Backbones db of
             [r] \<Rightarrow>
               (let duration_ms = IntervalMilliseconds (backbonecaexpiration (env_config e));
                    db1 = insert_CertificateRequest
                            ((blank_request (env_new_id e) CR_backboneCA (Some (env_now e))
                                (Some (env_now e)) (hours_of duration_ms))
                               \<lparr>cr_backbone := Some (id' r)\<rparr>) db;
                    db2 = db1\<lparr>Backbones := set_lifecycle LC_skx_cr_created (id' r) (Backbones db1)\<rparr>
                in Inr (db2, 0))
           | _ \<Rightarrow> Inr (db, 2000)))"

definition processNewBackbones :: "env \<Rightarrow> database \<Rightarrow> database \<times> nat" where
  "processNewBackbones e db = transaction db (processNewBackbones_try e db)"

text \<open>
  Access points: \<^verbatim>\<open>SELECT BackboneAccessPoints.*, Backbones.Lifecycle as bblc,
  Backbones.Certificate as bbca FROM BackboneAccessPoints JOIN InteriorSites ON
  BackboneAccessPoints.InteriorSite = InteriorSites.Id JOIN Backbones ON
  InteriorSites.Backbone = Backbones.Id WHERE BackboneAccessPoints.Lifecycle = 'new' and
  Backbones.Lifecycle = 'ready' LIMIT 1\<close>.  A row is the access point with \<^verbatim>\<open>bbca\<close>.
  The row has no \<^verbatim>\<open>endtime\<close> column, so the duration is always the default one.
\<close>

definition select_new_AccessPoints :: "database \<Rightarrow> (access_point \<times> uuid option) list" where
  "select_new_AccessPoints db =
     take 1 [(ap, certificate bb). ap \<leftarrow> BackboneAccessPoints db, s \<leftarrow> InteriorSites db,
               bb \<leftarrow> Backbones db,
               interiorsite ap = Some (id' s), backbone s = Some (id' bb),
               lifecycle ap = Some LC_new \<and> lifecycle bb = Some LC_ready]"

definition processNewAccessPoints_try :: "env \<Rightarrow> database \<Rightarrow> error + (database \<times> nat)" where
  "processNewAccessPoints_try e db =
     (case env_fault e of
        Some err \<Rightarrow> Inl err
      | None \<Rightarrow>
          (case select_new_AccessPoints db of
             [(r, bbca)] \<Rightarrow>
               (let duration_ms = IntervalMilliseconds (defaultcaexpiration (env_config e));
                    db1 = insert_CertificateRequest
                            ((blank_request (env_new_id e) CR_accessPoint (Some (env_now e))
                                (Some (env_now e)) (hours_of duration_ms))
                               \<lparr>issuer := bbca, cr_hostname := hostname r,
                                cr_accesspoint := Some (id' r)\<rparr>) db;
                    db2 = db1\<lparr>BackboneAccessPoints :=
                                set_lifecycle LC_skx_cr_created (id' r) (BackboneAccessPoints db1)\<rparr>
                in Inr (db2, 0))
           | _ \<Rightarrow> Inr (db, 2000)))"

definition processNewAccessPoints :: "env \<Rightarrow> database \<Rightarrow> database \<times> nat" where
  "processNewAccessPoints e db = transaction db (processNewAccessPoints_try e db)"

text \<open>
  Application networks: joined with their backbone, which must be ready.  The request
  starts at the network's start time, the duration is truncated to whole hours, and the
  network gets its VanId, \<^verbatim>\<open>'v' + row.id.substr(-5)\<close>.  With an end time and no start
  time, \<^verbatim>\<open>row.starttime.getTime()\<close> is a TypeError.
\<close>

definition select_new_Networks :: "database \<Rightarrow> (application_network \<times> uuid option) list" where
  "select_new_Networks db =
     take 1 [(n, certificate bb). n \<leftarrow> ApplicationNetworks db, bb \<leftarrow> Backbones db,
               van_backbone n = Some (id' bb),
               lifecycle n = Some LC_new \<and> lifecycle bb = Some LC_ready]"

definition processNewNetworks_try :: "env \<Rightarrow> database \<Rightarrow> error + (database \<times> nat)" where
  "processNewNetworks_try e db =
     (case env_fault e of
        Some err \<Rightarrow> Inl err
      | None \<Rightarrow>
          (case select_new_Networks db of
             [(r, bbca)] \<Rightarrow>
               (let van_id = ''v'' @ drop (length (id' r) - 5) (id' r);
                    duration_ms =
                      (case endtime r of
                         Some end_time \<Rightarrow>
                           (case starttime r of
                              None \<Rightarrow> Inl TypeError
                            | Some start_time \<Rightarrow>
                                Inr (end_time - start_time + IntervalMilliseconds (deletedelay r)))
                       | None \<Rightarrow> Inr (IntervalMilliseconds (defaultcaexpiration (env_config e))))
                in case duration_ms of
                     Inl err \<Rightarrow> Inl err
                   | Inr ms \<Rightarrow>
                       (let db1 = insert_CertificateRequest
                                    ((blank_request (env_new_id e) CR_vanCA (Some (env_now e))
                                        (starttime r) (Math_trunc (hours_of ms)))
                                       \<lparr>issuer := bbca, applicationnetwork := Some (id' r)\<rparr>) db;
                            db2 = db1\<lparr>ApplicationNetworks :=
                                        map (\<lambda>n. if id' n = id' r
                                                  then n\<lparr>lifecycle := Some LC_skx_cr_created,
                                                         vanid := Some van_id\<rparr>
                                                  else n) (ApplicationNetworks db1)\<rparr>
                        in Inr (db2, 0)))
           | _ \<Rightarrow> Inr (db, 2000)))"

definition processNewNetworks :: "env \<Rightarrow> database \<Rightarrow> database \<times> nat" where
  "processNewNetworks e db = transaction db (processNewNetworks_try e db)"

definition select_new_InteriorSites :: "database \<Rightarrow> (interior_site \<times> uuid option) list" where
  "select_new_InteriorSites db =
     take 1 [(s, certificate bb). s \<leftarrow> InteriorSites db, bb \<leftarrow> Backbones db,
               backbone s = Some (id' bb),
               lifecycle s = Some LC_new \<and> lifecycle bb = Some LC_ready]"

definition processNewInteriorSites_try :: "env \<Rightarrow> database \<Rightarrow> error + (database \<times> nat)" where
  "processNewInteriorSites_try e db =
     (case env_fault e of
        Some err \<Rightarrow> Inl err
      | None \<Rightarrow>
          (case select_new_InteriorSites db of
             [(r, bbca)] \<Rightarrow>
               (let duration_ms = IntervalMilliseconds (defaultcertexpiration (env_config e));
                    db1 = insert_CertificateRequest
                            ((blank_request (env_new_id e) CR_interiorRouter (Some (env_now e))
                                (Some (env_now e)) (hours_of duration_ms))
                               \<lparr>issuer := bbca, cr_interiorsite := Some (id' r)\<rparr>) db;
                    db2 = db1\<lparr>InteriorSites :=
                                set_lifecycle LC_skx_cr_created (id' r) (InteriorSites db1)\<rparr>
                in Inr (db2, 0))
           | _ \<Rightarrow> Inr (db, 2000)))"

definition processNewInteriorSites :: "env \<Rightarrow> database \<Rightarrow> database \<times> nat" where
  "processNewInteriorSites e db = transaction db (processNewInteriorSites_try e db)"

definition select_new_Invitations :: "database \<Rightarrow> (member_invitation \<times> uuid option) list" where
  "select_new_Invitations db =
     take 1 [(i, certificate n). i \<leftarrow> MemberInvitations db, n \<leftarrow> ApplicationNetworks db,
               memberof i = Some (id' n),
               lifecycle i = Some LC_new \<and> lifecycle n = Some LC_ready]"

definition processNewInvitations_try :: "env \<Rightarrow> database \<Rightarrow> error + (database \<times> nat)" where
  "processNewInvitations_try e db =
     (case env_fault e of
        Some err \<Rightarrow> Inl err
      | None \<Rightarrow>
          (case select_new_Invitations db of
             [(r, vanca)] \<Rightarrow>
               (let duration_ms = IntervalMilliseconds (defaultcertexpiration (env_config e));
                    db1 = insert_CertificateRequest
                            ((blank_request (env_new_id e) CR_memberClaim (Some (env_now e))
                                (Some (env_now e)) (hours_of duration_ms))
                               \<lparr>issuer := vanca, cr_invitation := Some (id' r)\<rparr>) db;
                    db2 = db1\<lparr>MemberInvitations :=
                                set_lifecycle LC_skx_cr_created (id' r) (MemberInvitations db1)\<rparr>
                in Inr (db2, 0))
           | _ \<Rightarrow> Inr (db, 2000)))"

definition processNewInvitations :: "env \<Rightarrow> database \<Rightarrow> database \<times> nat" where
  "processNewInvitations e db = transaction db (processNewInvitations_try e db)"

definition select_new_MemberSites :: "database \<Rightarrow> (member_site \<times> uuid option) list" where
  "select_new_MemberSites db =
     take 1 [(m, certificate n). m \<leftarrow> MemberSites db, n \<leftarrow> ApplicationNetworks db,
               ms_memberof m = Some (id' n),
               lifecycle m = Some LC_new \<and> lifecycle n = Some LC_ready]"

definition processNewMemberSites_try :: "env \<Rightarrow> database \<Rightarrow> error + (database \<times> nat)" where
  "processNewMemberSites_try e db =
     (case env_fault e of
        Some err \<Rightarrow> Inl err
      | None \<Rightarrow>
          (case select_new_MemberSites db of
             [(r, vanca)] \<Rightarrow>
               (let duration_ms = IntervalMilliseconds (defaultcertexpiration (env_config e));
                    db1 = insert_CertificateRequest
                            ((blank_request (env_new_id e) CR_vanSite (Some (env_now e))
                                (Some (env_now e)) (hours_of duration_ms))
                               \<lparr>issuer := vanca, cr_site := Some (id' r)\<rparr>) db;
                    db2 = db1\<lparr>MemberSites :=
                                set_lifecycle LC_skx_cr_created (id' r) (MemberSites db1)\<rparr>
                in Inr (db2, 0))
           | _ \<Rightarrow> Inr (db, 2000)))"

definition processNewMemberSites :: "env \<Rightarrow> database \<Rightarrow> database \<times> nat" where
  "processNewMemberSites e db = transaction db (processNewMemberSites_try e db)"

text \<open>
  Network credentials: joined with their network, which must be ready, and with the
  network's backbone, whose certificate is the issuer.
\<close>

definition select_new_NetworkCredentials :: "database \<Rightarrow> (network_credential \<times> uuid option) list" where
  "select_new_NetworkCredentials db =
     take 1 [(c, certificate bb). c \<leftarrow> NetworkCredentials db, n \<leftarrow> ApplicationNetworks db,
               bb \<leftarrow> Backbones db,
               nc_memberof c = Some (id' n), van_backbone n = Some (id' bb),
               lifecycle c = Some LC_new \<and> lifecycle n = Some LC_ready]"

definition processNewNetworkCredentials_try :: "env \<Rightarrow> database \<Rightarrow> error + (database \<times> nat)" where
  "processNewNetworkCredentials_try e db =
     (case env_fault e of
        Some err \<Rightarrow> Inl err
      | None \<Rightarrow>
          (case select_new_NetworkCredentials db of
             [(r, vanca)] \<Rightarrow>
               (let duration_ms = IntervalMilliseconds (defaultcertexpiration (env_config e));
                    db1 = insert_CertificateRequest
                            ((blank_request (env_new_id e) CR_vanCredential (Some (env_now e))
                                (Some (env_now e)) (hours_of duration_ms))
                               \<lparr>issuer := vanca, networkcredential := Some (id' r)\<rparr>) db;
                    db2 = db1\<lparr>NetworkCredentials :=
                                set_lifecycle LC_skx_cr_created (id' r) (NetworkCredentials db1)\<rparr>
                in Inr (db2, 0))
           | _ \<Rightarrow> Inr (db, 2000)))"

definition processNewNetworkCredentials :: "env \<Rightarrow> database \<Rightarrow> database \<times> nat" where
  "processNewNetworkCredentials e db = transaction db (processNewNetworkCredentials_try e db)"

text \<open>
  The per-kind loops together, as \<^verbatim>\<open>Start\<close> schedules them: the loop of a kind, its
  \<^verbatim>\<open>try\<close> block, and the number of rows its SELECT returns.
\<close>

datatype reconciler_kind =
    K_ManagementControllers | K_Backbones | K_AccessPoints | K_Networks | K_InteriorSites
  | K_Invitations | K_MemberSites | K_NetworkCredentials

fun reconciler :: "reconciler_kind \<Rightarrow> env \<Rightarrow> database \<Rightarrow> database \<times> nat" where
  "reconciler K_ManagementControllers = processNewManagementControllers"
| "reconciler K_Backbones = processNewBackbones"
| "reconciler K_AccessPoints = processNewAccessPoints"
| "reconciler K_Networks = processNewNetworks"
| "reconciler K_InteriorSites = processNewInteriorSites"
| "reconciler K_Invitations = processNewInvitations"
| "reconciler K_MemberSites = processNewMemberSites"
| "reconciler K_NetworkCredentials = processNewNetworkCredentials"

fun reconciler_try :: "reconciler_kind \<Rightarrow> env \<Rightarrow> database \<Rightarrow> error + (database \<times> nat)" where
  "reconciler_try K_ManagementControllers = processNewManagementControllers_try"
| "reconciler_try K_Backbones = processNewBackbones_try"
| "reconciler_try K_AccessPoints = processNewAccessPoints_try"
| "reconciler_try K_Networks = processNewNetworks_try"
| "reconciler_try K_InteriorSites = processNewInteriorSites_try"
| "reconciler_try K_Invitations = processNewInvitations_try"
| "reconciler_try K_MemberSites = processNewMemberSites_try"
| "reconciler_try K_NetworkCredentials = processNewNetworkCredentials_try"

fun rowCount :: "reconciler_kind \<Rightarrow> database \<Rightarrow> nat" where
  "rowCount K_ManagementControllers db = length (select_new_ManagementControllers db)"
| "rowCount K_Backbones db = length (select_new_Backbones db)"
| "rowCount K_AccessPoints db = length (select_new_AccessPoints db)"
| "rowCount K_Networks db = length (select_new_Networks db)"
| "rowCount K_InteriorSites db = length (select_new_InteriorSites db)"
| "rowCount K_Invitations db = length (select_new_Invitations db)"
| "rowCount K_MemberSites db = length (select_new_MemberSites db)"
| "rowCount K_NetworkCredentials db = length (select_new_NetworkCredentials db)"

text \<open>An example: one new backbone, and the configuration of a fresh installation.\<close>

definition example_config :: config where
  "example_config = \<lparr>rootissuer = Some ''skx-root'',
     backbonecaexpiration = Some [(''years'', 5)], defaultcaexpiration = Some [(''days'', 30)],
     defaultcertexpiration = Some [(''weeks'', 1)], sitedataplaneimage = None,
     sitecontrollerimage = None, certorganization = Some ''skupperx''\<rparr>"

definition example_env :: env where
  "example_env = \<lparr>env_fault = None, env_now = 1000, env_new_id = ''cr1'',
     env_config = example_config\<rparr>"

definition new_backbone_db :: database where
  "new_backbone_db = empty_db\<lparr>Backbones :=
     [\<lparr>id' = ''bb1'', lifecycle = Some LC_new, name = Some ''bb1'', certificate = None\<rparr>]\<rparr>"

section \<open>Backbone links (backbone-links.js)\<close>

text \<open>
  \<^verbatim>\<open>
  var bbConnections = {};
  var registrations = [];
  \<close>
  \<^verbatim>\<open>bbConnections\<close> maps a backbone id to the record of its session.  It is an object
  keyed by UUIDs, which enumerates in insertion order: an association list, written
  with \<open>AList.update\<close> (replace in place or append) and \<open>AList.delete\<close>.  The session
  itself (\<^verbatim>\<open>conn\<close>) is represented by the name it is opened under.
\<close>

record connection =
  toDelete :: bool
  host :: "string option"
  conn_port :: "string option"
  conn :: "string option"

type_synonym connections = "(uuid \<times> connection) list"

text \<open>
  What the module does to the outside: sessions opened and closed, and calls of the
  registered handlers (by their index in \<^verbatim>\<open>registrations\<close>).  Each of these calls may
  raise; \<open>raises\<close> tells which do, and with what.
\<close>

datatype link_event =
    EV_OpenConnection uuid "string option" "string option"
  | EV_onLinkAdded nat uuid
  | EV_CloseConnection uuid
  | EV_onLinkDeleted nat uuid

record link_env =
  link_fault :: "error option"
  raises :: "link_event \<Rightarrow> error option"
  registrations :: nat

text \<open>
  A step of the module returns the error it raised, if any, the connections as it left
  them (they are not restored when it raises) and the events it caused, in order.
\<close>

type_synonym link_step = "error option \<times> connections \<times> link_event list"

text \<open>\<^verbatim>\<open>for (const reg of registrations) { await reg.onLinkAdded(...) }\<close>, and the same for onLinkDeleted.\<close>

fun call_handlers ::
  "(link_event \<Rightarrow> error option) \<Rightarrow> (nat \<Rightarrow> link_event) \<Rightarrow> nat list \<Rightarrow> error option \<times> link_event list" where
  "call_handlers rs mk [] = (None, [])"
| "call_handlers rs mk (reg # regs) =
     (case rs (mk reg) of
        Some err \<Rightarrow> (Some err, [mk reg])
      | None \<Rightarrow> (case call_handlers rs mk regs of (err, evs) \<Rightarrow> (err, mk reg # evs)))"

text \<open>
  \<^verbatim>\<open>
  const createConnection = async function(bbid, row) {
      bbConnections[bbid] = { toDelete: false, host: row.hostname, port: row.port };
      bbConnections[bbid].conn = OpenConnection(`Backbone-management-${bbid}`, row.hostname, row.port, 'tls', tls_ca, tls_cert, tls_key);
      for (const reg of registrations) {
          await reg.onLinkAdded(bbid, bbConnections[bbid].conn);
      }
  }
  \<close>
\<close>

definition createConnection :: "link_env \<Rightarrow> uuid \<Rightarrow> access_point \<Rightarrow> connections \<Rightarrow> link_step" where
  "createConnection e bbid r conns =
     (let c = \<lparr>toDelete = False, host = hostname r, conn_port = port r, conn = None\<rparr>;
          conns1 = AList.update bbid c conns;
          opened = EV_OpenConnection bbid (hostname r) (port r)
      in case raises e opened of
           Some err \<Rightarrow> (Some err, conns1, [opened])
         | None \<Rightarrow>
             (let conns2 = AList.update bbid (c\<lparr>conn := Some (''Backbone-management-'' @ bbid)\<rparr>) conns1
              in case call_handlers (raises e) (\<lambda>reg. EV_onLinkAdded reg bbid) [0..<registrations e] of
                   (err, evs) \<Rightarrow> (err, conns2, opened # evs)))"

text \<open>
  \<^verbatim>\<open>
  const deleteConnection = async function(bbid) {
      let conn = bbConnections[bbid].conn;
      CloseConnection(conn);
      delete bbConnections[bbid];
      for (const reg of registrations) {
          await reg.onLinkDeleted(bbid);
      }
  }
  \<close>
\<close>

definition deleteConnection :: "link_env \<Rightarrow> uuid \<Rightarrow> connections \<Rightarrow> link_step" where
  "deleteConnection e bbid conns =
     (case map_of conns bbid of
        None \<Rightarrow> (Some TypeError, conns, [])
      | Some c \<Rightarrow>
          (case raises e (EV_CloseConnection bbid) of
             Some err \<Rightarrow> (Some err, conns, [EV_CloseConnection bbid])
           | None \<Rightarrow>
               (case call_handlers (raises e) (\<lambda>reg. EV_onLinkDeleted reg bbid) [0..<registrations e] of
                  (err, evs) \<Rightarrow> (err, AList.delete bbid conns, EV_CloseConnection bbid # evs))))"

text \<open>
  \<^verbatim>\<open>
  const reconcileBackboneConnections = async function() {
      var reschedule_delay = 30000;
      const client = await ClientFromPool();
      try {
          await client.query('BEGIN');
          const result = await client.query(
              "SELECT BackboneAccessPoints.*, InteriorSites.Backbone " +
              "FROM BackboneAccessPoints " +
              "JOIN InteriorSites ON InteriorSites.Id = InteriorSite " +
              "JOIN Backbones ON Backbones.Id = InteriorSites.Backbone " +
              "WHERE BackboneAccessPoints.Lifecycle = 'ready' and Kind = 'manage'");
          let db_rows = {};
          for (const row of result.rows) {
              if (!db_rows[row.backbone]) { db_rows[row.backbone] = row; }
          }
          for (const bbid of Object.keys(bbConnections)) { bbConnections[bbid].toDelete = true; }
          for (const [bbid, row] of Object.entries(db_rows)) {
              if (bbConnections[bbid]) { bbConnections[bbid].toDelete = false; }
              else { await createConnection(bbid, row); }
          }
          for (const bbid of Object.keys(bbConnections)) {
              if (bbConnections[bbid].toDelete) { await deleteConnection(bbid); }
          }
          await client.query('COMMIT');
      } catch (err) {
          await client.query('ROLLBACK');
          reschedule_delay = 10000;
      } finally {
          client.release();
          setTimeout(reconcileBackboneConnections, reschedule_delay);
      }
  }
  \<close>
  A row of the result is an access point with the \<^verbatim>\<open>Backbone\<close> column of its site.
\<close>

definition select_manage_access :: "database \<Rightarrow> (access_point \<times> uuid) list" where
  "select_manage_access db =
     [(ap, id' bb). ap \<leftarrow> BackboneAccessPoints db, s \<leftarrow> InteriorSites db, bb \<leftarrow> Backbones db,
        interiorsite ap = Some (id' s), backbone s = Some (id' bb),
        lifecycle ap = Some LC_ready \<and> kind ap = Some AP_manage]"

fun collect_db_rows :: "(uuid \<times> access_point) list \<Rightarrow> (access_point \<times> uuid) list \<Rightarrow> (uuid \<times> access_point) list" where
  "collect_db_rows db_rows [] = db_rows"
| "collect_db_rows db_rows ((r, bb) # rows) =
     collect_db_rows (if map_of db_rows bb = None then AList.update bb r db_rows else db_rows) rows"

definition mark_all :: "connections \<Rightarrow> connections" where
  "mark_all conns = map (\<lambda>(bbid, c). (bbid, c\<lparr>toDelete := True\<rparr>)) conns"

fun create_missing :: "link_env \<Rightarrow> (uuid \<times> access_point) list \<Rightarrow> connections \<Rightarrow> link_step" where
  "create_missing e [] conns = (None, conns, [])"
| "create_missing e ((bbid, r) # db_rows) conns =
     (case (case map_of conns bbid of
              Some c \<Rightarrow> (None, AList.update bbid (c\<lparr>toDelete := False\<rparr>) conns, [])
            | None \<Rightarrow> createConnection e bbid r conns) of
        (Some err, conns1, evs) \<Rightarrow> (Some err, conns1, evs)
      | (None, conns1, evs) \<Rightarrow>
          (case create_missing e db_rows conns1 of
             (err, conns2, evs2) \<Rightarrow> (err, conns2, evs @ evs2)))"

fun delete_marked :: "link_env \<Rightarrow> uuid list \<Rightarrow> connections \<Rightarrow> link_step" where
  "delete_marked e [] conns = (None, conns, [])"
| "delete_marked e (bbid # bbids) conns =
     (case (case map_of conns bbid of
              None \<Rightarrow> (Some TypeError, conns, [])
            | Some c \<Rightarrow> if toDelete c then deleteConnection e bbid conns else (None, conns, [])) of
        (Some err, conns1, evs) \<Rightarrow> (Some err, conns1, evs)
      | (None, conns1, evs) \<Rightarrow>
          (case delete_marked e bbids conns1 of
             (err, conns2, evs2) \<Rightarrow> (err, conns2, evs @ evs2)))"

definition reconcileBackboneConnections ::
  "link_env \<Rightarrow> database \<Rightarrow> connections \<Rightarrow> connections \<times> link_event list \<times> nat" where
  "reconcileBackboneConnections e db conns =
     (case link_fault e of
        Some err \<Rightarrow> (conns, [], 10000)
      | None \<Rightarrow>
          (let db_rows = collect_db_rows [] (select_manage_access db)
           in case create_missing e db_rows (mark_all conns) of
                (Some err, conns1, evs) \<Rightarrow> (conns1, evs, 10000)
              | (None, conns1, evs) \<Rightarrow>
                  (case delete_marked e (map fst conns1) conns1 of
                     (Some err, conns2, evs2) \<Rightarrow> (conns2, evs @ evs2, 10000)
                   | (None, conns2, evs2) \<Rightarrow> (conns2, evs @ evs2, 30000))))"

text \<open>
  Certificates are requested for an access point only while its backbone is ready
  (\<open>select_new_AccessPoints\<close>), an access point becomes ready only when its certificate
  has arrived, and no statement moves a backbone out of \<^verbatim>\<open>ready\<close>.  So in the states
  the program reaches, a ready access point belongs to a ready backbone.
\<close>

definition access_after_backbone :: "database \<Rightarrow> bool" where
  "access_after_backbone db =
     (\<forall>ap \<in> set (BackboneAccessPoints db). \<forall>s \<in> set (InteriorSites db).
        \<forall>bb \<in> set (Backbones db).
          lifecycle ap = Some LC_ready \<and> interiorsite ap = Some (id' s) \<and>
          backbone s = Some (id' bb) \<longrightarrow> lifecycle bb = Some LC_ready)"

text \<open>An example: no fault and one registered handler, while a session to backbone \<open>bb9\<close> is open.\<close>

definition quiet_env :: link_env where
  "quiet_env = \<lparr>link_fault = None, raises = (\<lambda>ev. None), registrations = 1\<rparr>"

definition old_connections :: connections where
  "old_connections = [(''bb9'', \<lparr>toDelete = False, host = Some ''old.example.com'',
     conn_port = Some ''45671'', conn = Some ''Backbone-management-bb9''\<rparr>)]"

text \<open>The sessions a list of events opened, and the ones it closed.\<close>

definition opened :: "link_event list \<Rightarrow> uuid list" where
  "opened evs = concat (map (\<lambda>ev. case ev of EV_OpenConnection b h p \<Rightarrow> [b] | _ \<Rightarrow> []) evs)"

definition closed :: "link_event list \<Rightarrow> uuid list" where
  "closed evs = concat (map (\<lambda>ev. case ev of EV_CloseConnection b \<Rightarrow> [b] | _ \<Rightarrow> []) evs)"

text \<open>The \<^verbatim>\<open>toDelete\<close> mark of a backbone's connection, false when there is none.\<close>

definition flag :: "connections \<Rightarrow> uuid \<Rightarrow> bool" where
  "flag conns k = (case map_of conns k of None \<Rightarrow> False | Some c \<Rightarrow> toDelete c)"

section \<open>Finalizing a certificate request (certs.js)\<close>

subsection \<open>Site lifecycle changes (site-deployment-state.js)\<close>

text \<open>
  \<^verbatim>\<open>
  export async function SiteLifecycleChanged_TX(client, siteId, newState) {
      const result = await client.query("SELECT Id, Lifecycle, DeploymentState FROM InteriorSites WHERE Id = $1", [siteId]);
      if (result.rowCount == 1) {
          const site = result.rows[0];
          await evaluateSingleSite_TX(client, site);
          if (newState == 'active') {
              const connected = await client.query("SELECT ConnectingInteriorSite FROM InterRouterLinks " +
                                                   "JOIN BackboneAccessPoints ON BackboneAccessPoints.Id = AccessPoint " +
                                                   "WHERE BackboneAccessPoints.InteriorSite = $1", [siteId]);
              for (const row of connected.rows) {
                  const siteResult = await client.query("SELECT Id, Lifecycle, DeploymentState FROM InteriorSites WHERE Id = $1", [row.connectinginteriorsite]);
                  if (siteResult.rowCount == 1) {
                      await evaluateSingleSite_TX(client, siteResult.rows[0]);
                  }
              }
          }
      }
  }
  \<close>
\<close>

definition select_site :: "database \<Rightarrow> uuid option \<Rightarrow> interior_site list" where
  "select_site db site_id = [s \<leftarrow> InteriorSites db. Some (id' s) = site_id]"

definition evaluate_selected :: "uuid option \<Rightarrow> database \<times> statement list \<Rightarrow> database \<times> statement list" where
  "evaluate_selected site_id acc =
     (case acc of (db, sent) \<Rightarrow>
        (case select_site db site_id of
           [s] \<Rightarrow> (case evaluateSingleSite_TX db s of (db', sent') \<Rightarrow> (db', sent @ sent'))
         | _ \<Rightarrow> (db, sent)))"

definition connected_sites :: "database \<Rightarrow> uuid \<Rightarrow> uuid option list" where
  "connected_sites db siteId =
     [connectinginteriorsite l. l \<leftarrow> InterRouterLinks db, ap \<leftarrow> BackboneAccessPoints db,
        accesspoint l = Some (id' ap), interiorsite ap = Some siteId]"

definition SiteLifecycleChanged_TX :: "database \<Rightarrow> uuid \<Rightarrow> lifecycle \<Rightarrow> database \<times> statement list" where
  "SiteLifecycleChanged_TX db siteId newState =
     (case select_site db (Some siteId) of
        [s] \<Rightarrow>
          (let first = evaluateSingleSite_TX db s
           in if newState = LC_active
              then foldl (\<lambda>acc r. evaluate_selected r acc) first (connected_sites (fst first) siteId)
              else first)
      | _ \<Rightarrow> (db, []))"

subsection \<open>The secret watch\<close>

text \<open>
  A secret as the watch delivers it: its name and its annotations.  The certificate
  object is read from the cluster; \<open>load_certificate\<close> gives what \<^verbatim>\<open>LoadCertificate\<close>
  returns for a name (its \<^verbatim>\<open>status.notAfter\<close> and \<^verbatim>\<open>status.renewalTime\<close>, as
  times) or the error it raises.  \<open>cert_raises\<close> tells which of the other calls to
  collaborators raise.  Statements sent to the database are taken to execute.
\<close>

record secret =
  secret_name :: string
  annotations :: "(string \<times> string) list option"

record certificate_status =
  notAfter :: "timestamp option"
  renewalTime :: "timestamp option"

datatype cert_event =
    EV_LoadCertificate string
  | EV_ApplyObject_Issuer string "string option"
  | EV_COMMIT
  | EV_ROLLBACK
  | EV_SiteCertificateChanged uuid
  | EV_AccessCertificateChanged uuid
  | EV_CompleteMember uuid

record cert_env =
  load_certificate :: "string \<Rightarrow> error + certificate_status"
  cert_raises :: "cert_event \<Rightarrow> error option"

datatype table =
    T_ManagementControllers | T_Backbones | T_InteriorSites | T_BackboneAccessPoints
  | T_ApplicationNetworks | T_NetworkCredentials | T_MemberInvitations | T_MemberSites

record target =
  ref_table :: table
  ref_id :: uuid
  ref_label :: string
  is_ca :: bool
  alertSiteCertChanged :: bool
  alertAccessCertChanged :: bool
  alertMemberCompletion :: bool

text \<open>\<^verbatim>\<open>if (cert_request.backbone)\<close>: a reference is truthy when it is not NULL (and not empty).\<close>

definition present :: "uuid option \<Rightarrow> bool" where
  "present r = (case r of None \<Rightarrow> False | Some i \<Rightarrow> i \<noteq> [])"

definition new_target :: "table \<Rightarrow> uuid option \<Rightarrow> string \<Rightarrow> target" where
  "new_target t r l =
     \<lparr>ref_table = t, ref_id = (case r of Some i \<Rightarrow> i | None \<Rightarrow> []), ref_label = l, is_ca = False,
      alertSiteCertChanged = False, alertAccessCertChanged = False,
      alertMemberCompletion = False\<rparr>"

text \<open>
  \<^verbatim>\<open>
  if (cert_request.managementcontroller) {
      ref_table  = 'ManagementControllers'; ref_id = cert_request.managementcontroller;
      ref_label  = 'Management Controller';
  } else if (cert_request.backbone) {
      ref_table  = 'Backbones'; ref_id = cert_request.backbone; is_ca = true;
      ref_label  = 'Backbone';
  } else if (cert_request.interiorsite) {
      ref_table  = 'InteriorSites'; ref_id = cert_request.interiorsite;
      ref_label  = 'Backbone Site'; alertSiteCertChanged = true;
  } else if (cert_request.accesspoint) {
      ref_table  = 'BackboneAccessPoints'; ref_id = cert_request.accesspoint;
      ref_label  = 'Access Point'; alertAccessCertChanged = true;
  } else if (cert_request.applicationnetwork) {
      ref_table  = 'ApplicationNetworks'; ref_id = cert_request.applicationnetwork;
      is_ca = true; ref_label  = 'VAN';
  } else if (cert_request.networkcredential) {
      ref_table  = 'NetworkCredentials'; ref_id = cert_request.networkcredential;
      is_ca = false; ref_label  = 'VAN Attach';
  } else if (cert_request.invitation) {
      ref_table  = 'MemberInvitations'; ref_id = cert_request.invitation;
      ref_label  = 'Member Invitation';
  } else if (cert_request.site) {
      ref_table  = 'MemberSites'; ref_id = cert_request.site;
      ref_label  = 'Member Site'; alertMemberCompletion = true;
  } else {
      throw new Error('Unknown Target');
  }
  \<close>
\<close>

definition resolve_target :: "certificate_request \<Rightarrow> error + target" where
  "resolve_target cert_request =
     (if present (managementcontroller cert_request) then
        Inr (new_target T_ManagementControllers (managementcontroller cert_request)
               ''Management Controller'')
      else if present (cr_backbone cert_request) then
        Inr ((new_target T_Backbones (cr_backbone cert_request) ''Backbone'')\<lparr>is_ca := True\<rparr>)
      else if present (cr_interiorsite cert_request) then
        Inr ((new_target T_InteriorSites (cr_interiorsite cert_request) ''Backbone Site'')
               \<lparr>alertSiteCertChanged := True\<rparr>)
      else if present (cr_accesspoint cert_request) then
        Inr ((new_target T_BackboneAccessPoints (cr_accesspoint cert_request) ''Access Point'')
               \<lparr>alertAccessCertChanged := True\<rparr>)
      else if present (applicationnetwork cert_request) then
        Inr ((new_target T_ApplicationNetworks (applicationnetwork cert_request) ''VAN'')
               \<lparr>is_ca := True\<rparr>)
      else if present (networkcredential cert_request) then
        Inr (new_target T_NetworkCredentials (networkcredential cert_request) ''VAN Attach'')
      else if present (cr_invitation cert_request) then
        Inr (new_target T_MemberInvitations (cr_invitation cert_request) ''Member Invitation'')
      else if present (cr_site cert_request) then
        Inr ((new_target T_MemberSites (cr_site cert_request) ''Member Site'')
               \<lparr>alertMemberCompletion := True\<rparr>)
      else Inl (Error ''Unknown Target''))"

text \<open>\<^verbatim>\<open>SELECT name FROM ${ref_table} WHERE Id = $1\<close> and
  \<^verbatim>\<open>UPDATE ${ref_table} SET Certificate = $1, Lifecycle = 'ready' WHERE Id = $2\<close>.\<close>

definition names_where :: "uuid \<Rightarrow> 'a entity_scheme list \<Rightarrow> string option list" where
  "names_where i rows = [name r. r \<leftarrow> rows, id' r = i]"

definition set_ready :: "uuid \<Rightarrow> uuid \<Rightarrow> 'a entity_scheme list \<Rightarrow> 'a entity_scheme list" where
  "set_ready cert i rows =
     map (\<lambda>r. if id' r = i then r\<lparr>certificate := Some cert, lifecycle := Some LC_ready\<rparr> else r) rows"

fun select_name :: "table \<Rightarrow> uuid \<Rightarrow> database \<Rightarrow> string option list" where
  "select_name T_ManagementControllers i db = names_where i (ManagementControllers db)"
| "select_name T_Backbones i db = names_where i (Backbones db)"
| "select_name T_InteriorSites i db = names_where i (InteriorSites db)"
| "select_name T_BackboneAccessPoints i db = names_where i (BackboneAccessPoints db)"
| "select_name T_ApplicationNetworks i db = names_where i (ApplicationNetworks db)"
| "select_name T_NetworkCredentials i db = names_where i (NetworkCredentials db)"
| "select_name T_MemberInvitations i db = names_where i (MemberInvitations db)"
| "select_name T_MemberSites i db = names_where i (MemberSites db)"

fun update_Certificate :: "table \<Rightarrow> uuid \<Rightarrow> uuid \<Rightarrow> database \<Rightarrow> database" where
  "update_Certificate T_ManagementControllers c i db =
     db\<lparr>ManagementControllers := set_ready c i (ManagementControllers db)\<rparr>"
| "update_Certificate T_Backbones c i db = db\<lparr>Backbones := set_ready c i (Backbones db)\<rparr>"
| "update_Certificate T_InteriorSites c i db = db\<lparr>InteriorSites := set_ready c i (InteriorSites db)\<rparr>"
| "update_Certificate T_BackboneAccessPoints c i db =
     db\<lparr>BackboneAccessPoints := set_ready c i (BackboneAccessPoints db)\<rparr>"
| "update_Certificate T_ApplicationNetworks c i db =
     db\<lparr>ApplicationNetworks := set_ready c i (ApplicationNetworks db)\<rparr>"
| "update_Certificate T_NetworkCredentials c i db =
     db\<lparr>NetworkCredentials := set_ready c i (NetworkCredentials db)\<rparr>"
| "update_Certificate T_MemberInvitations c i db =
     db\<lparr>MemberInvitations := set_ready c i (MemberInvitations db)\<rparr>"
| "update_Certificate T_MemberSites c i db = db\<lparr>MemberSites := set_ready c i (MemberSites db)\<rparr>"

text \<open>
  \<^verbatim>\<open>
  const secretAdded = async function(dblink, secret) {
      const client = await ClientFromPool();
      try {
          await client.query('BEGIN');
          const result = await client.query("SELECT * FROM CertificateRequests WHERE Id = $1", [dblink]);
          ...
          if (result.rowCount == 1) {
              const cert_request = result.rows[0];
              ... (the target, above)
              const cert_object = await LoadCertificate(secret.metadata.name);
              const expiration  = cert_object.status.notAfter    ? new Date(cert_object.status.notAfter) : undefined;
              const renewal     = cert_object.status.renewalTime ? new Date(cert_object.status.renewalTime) : undefined;
              const signed_by   = secret.metadata.annotations['skupper.io/skx-issuerlink'];
              const get_name    = await client.query(`SELECT name FROM ${ref_table} WHERE Id = $1`, [ref_id]);
              const label = `${ref_label}: ${get_name.rows[0].name}`;
              if (signed_by == 'root') {
                  await client.query(
                      "INSERT INTO TlsCertificates (Id, IsCA, ObjectName, Expiration, RenewalTime, Label) VALUES ($1, $2, $3, $4, $5, $6)",
                      [dblink, is_ca, secret.metadata.name, expiration, renewal, label]);
              } else {
                  await client.query(
                      "INSERT INTO TlsCertificates (Id, IsCA, ObjectName, Expiration, RenewalTime, Label, SignedBy) VALUES ($1, $2, $3, $4, $5, $6, $7)",
                      [dblink, is_ca, secret.metadata.name, expiration, renewal, label, signed_by]);
              }
              await client.query(`UPDATE ${ref_table} SET Certificate = $1, Lifecycle = 'ready' WHERE Id = $2`, [dblink, ref_id]);
              await client.query('DELETE FROM CertificateRequests WHERE Id = $1', [dblink]);
              if (is_ca) {
                  var issuer_obj = issuerObject(secret.metadata.name, secret.metadata.annotations['skupper.io/skx-dblink']);
                  await ApplyObject(issuer_obj);
              }
              if (alertSiteCertChanged) {
                  await SiteLifecycleChanged_TX(client, ref_id, 'ready');
              }
              await client.query('COMMIT');
              if (alertSiteCertChanged) {
                  await SiteCertificateChanged(dblink);
              } else if (alertAccessCertChanged) {
                  await AccessCertificateChanged(dblink);
              }
              if (alertMemberCompletion) {
                  await CompleteMember(ref_id);
              }
          } else {
              await client.query('ROLLBACK');
          }
      } catch (err) {
          await client.query('ROLLBACK');
      } finally {
          client.release();
      }
  }
  \<close>
  \<open>finalize\<close> is the part of the \<^verbatim>\<open>try\<close> block before \<^verbatim>\<open>COMMIT\<close>: it returns the
  database to commit and the target, or the error raised, each with the calls made to
  the cluster so far.  \<open>notify\<close> is the part after \<^verbatim>\<open>COMMIT\<close>.
\<close>

definition insert_TlsCertificate :: "tls_certificate \<Rightarrow> database \<Rightarrow> database" where
  "insert_TlsCertificate c db = db\<lparr>TlsCertificates := TlsCertificates db @ [c]\<rparr>"

definition delete_CertificateRequest :: "uuid \<Rightarrow> database \<Rightarrow> database" where
  "delete_CertificateRequest dblink db =
     db\<lparr>CertificateRequests := [r \<leftarrow> CertificateRequests db. id' r \<noteq> dblink]\<rparr>"

definition finalize ::
  "cert_env \<Rightarrow> uuid \<Rightarrow> secret \<Rightarrow> certificate_request \<Rightarrow> database
     \<Rightarrow> (error + (database \<times> target)) \<times> cert_event list" where
  "finalize e dblink s cert_request db =
     (case resolve_target cert_request of
        Inl err \<Rightarrow> (Inl err, [])
      | Inr t \<Rightarrow>
          (case load_certificate e (secret_name s) of
             Inl err \<Rightarrow> (Inl err, [EV_LoadCertificate (secret_name s)])
           | Inr cert_status \<Rightarrow>
               (case annotations s of
                  None \<Rightarrow> (Inl TypeError, [EV_LoadCertificate (secret_name s)])
                | Some anno \<Rightarrow>
                    (case select_name (ref_table t) (ref_id t) db of
                       [] \<Rightarrow> (Inl TypeError, [EV_LoadCertificate (secret_name s)])
                     | owner_name # others \<Rightarrow>
                         (let signed_by = map_of anno ''skupper.io/skx-issuerlink'';
                              label_text = ref_label t @ '': '' @
                                (case owner_name of None \<Rightarrow> ''null'' | Some n \<Rightarrow> n);
                              db1 = insert_TlsCertificate
                                      \<lparr>id' = dblink, isca = Some (is_ca t),
                                       objectname = Some (secret_name s),
                                       signedby = (if signed_by = Some ''root'' then None else signed_by),
                                       expiration = notAfter cert_status,
                                       renewaltime = renewalTime cert_status,
                                       label = Some label_text\<rparr> db;
                              db2 = update_Certificate (ref_table t) dblink (ref_id t) db1;
                              db3 = delete_CertificateRequest dblink db2;
                              applied = EV_ApplyObject_Issuer (secret_name s)
                                          (map_of anno ''skupper.io/skx-dblink'');
                              evs = EV_LoadCertificate (secret_name s) # (if is_ca t then [applied] else [])
                          in case (if is_ca t then cert_raises e applied else None) of
                               Some err \<Rightarrow> (Inl err, evs)
                             | None \<Rightarrow>
                                 (Inr (if alertSiteCertChanged t
                                       then fst (SiteLifecycleChanged_TX db3 (ref_id t) LC_ready)
                                       else db3, t), evs))))))"

definition notify :: "cert_env \<Rightarrow> uuid \<Rightarrow> target \<Rightarrow> error option \<times> cert_event list" where
  "notify e dblink t =
     (let changed = (if alertSiteCertChanged t then [EV_SiteCertificateChanged dblink]
                     else if alertAccessCertChanged t then [EV_AccessCertificateChanged dblink]
                     else [])
      in case (case changed of [] \<Rightarrow> None | ev # evs \<Rightarrow> cert_raises e ev) of
           Some err \<Rightarrow> (Some err, changed)
         | None \<Rightarrow>
             if alertMemberCompletion t
             then (cert_raises e (EV_CompleteMember (ref_id t)),
                   changed @ [EV_CompleteMember (ref_id t)])
             else (None, changed))"

definition secretAdded :: "cert_env \<Rightarrow> uuid \<Rightarrow> secret \<Rightarrow> database \<Rightarrow> database \<times> cert_event list" where
  "secretAdded e dblink s db =
     (case [r \<leftarrow> CertificateRequests db. id' r = dblink] of
        [cert_request] \<Rightarrow>
          (case finalize e dblink s cert_request db of
             (Inl err, evs) \<Rightarrow> (db, evs @ [EV_ROLLBACK])
           | (Inr (db', t), evs) \<Rightarrow>
               (case notify e dblink t of
                  (Some err, evs') \<Rightarrow> (db', evs @ [EV_COMMIT] @ evs' @ [EV_ROLLBACK])
                | (None, evs') \<Rightarrow> (db', evs @ [EV_COMMIT] @ evs')))
      | _ \<Rightarrow> (db, [EV_ROLLBACK]))"

text \<open>
  \<^verbatim>\<open>
  const onSecretWatch = function(action, secret) {
      switch (action) {
      case 'ADDED':
          const anno = secret.metadata.annotations;
          if (anno && anno[META_ANNOTATION_SKUPPERX_CONTROLLED] == 'true') {
              var dblink = anno['skupper.io/skx-dblink'];
              if (dblink) { secretAdded(dblink, secret); }
          }
      }
  }
  \<close>
\<close>

definition onSecretWatch :: "cert_env \<Rightarrow> string \<Rightarrow> secret \<Rightarrow> database \<Rightarrow> database \<times> cert_event list" where
  "onSecretWatch e action s db =
     (if action = ''ADDED'' then
        (case annotations s of
           None \<Rightarrow> (db, [])
         | Some anno \<Rightarrow>
             if map_of anno ''skupper.io/skupperx-controlled'' = Some ''true'' then
               (case map_of anno ''skupper.io/skx-dblink'' of
                  None \<Rightarrow> (db, [])
                | Some dblink \<Rightarrow> if dblink \<noteq> [] then secretAdded e dblink s db else (db, []))
             else (db, []))
      else (db, []))"

text \<open>
  The columns of the owning rows that finalization is about, for any table: id,
  lifecycle and certificate.
\<close>

definition columns :: "'a entity_scheme list \<Rightarrow> (uuid \<times> lifecycle option \<times> uuid option) list" where
  "columns rows = map (\<lambda>r. (id' r, lifecycle r, certificate r)) rows"

fun owner_rows :: "table \<Rightarrow> database \<Rightarrow> (uuid \<times> lifecycle option \<times> uuid option) list" where
  "owner_rows T_ManagementControllers db = columns (ManagementControllers db)"
| "owner_rows T_Backbones db = columns (Backbones db)"
| "owner_rows T_InteriorSites db = columns (InteriorSites db)"
| "owner_rows T_BackboneAccessPoints db = columns (BackboneAccessPoints db)"
| "owner_rows T_ApplicationNetworks db = columns (ApplicationNetworks db)"
| "owner_rows T_NetworkCredentials db = columns (NetworkCredentials db)"
| "owner_rows T_MemberInvitations db = columns (MemberInvitations db)"
| "owner_rows T_MemberSites db = columns (MemberSites db)"

text \<open>An example: the request for the certificate of member site \<open>m1\<close>, signed by \<open>van1\<close>.\<close>

definition member_request :: certificate_request where
  "member_request = (blank_request ''cr7'' CR_vanSite (Some 0) (Some 0) 168)
     \<lparr>lifecycle := Some LC_cm_cert_created, issuer := Some ''van1'', cr_site := Some ''m1''\<rparr>"

definition member_db :: database where
  "member_db = empty_db\<lparr>
     MemberSites := [\<lparr>id' = ''m1'', lifecycle = Some LC_skx_cr_created, name = Some ''m-1'',
        certificate = None, ms_memberof = Some ''v1'', invitation = Some ''inv1'',
        siteclasses = None, metadata = None\<rparr>],
     CertificateRequests := [member_request]\<rparr>"

definition member_secret :: secret where
  "member_secret = \<lparr>secret_name = ''skx-member-cr7'',
     annotations = Some [(''skupper.io/skupperx-controlled'', ''true''),
       (''skupper.io/skx-dblink'', ''cr7''), (''skupper.io/skx-issuerlink'', ''van1'')]\<rparr>"

definition cluster_env :: cert_env where
  "cluster_env = \<lparr>load_certificate = (\<lambda>n. Inr \<lparr>notAfter = Some 5000, renewalTime = Some 4000\<rparr>),
     cert_raises = (\<lambda>ev. None)\<rparr>"

section \<open>State synchronisation (state-sync.js)\<close>

text \<open>
  A state hash is a string or \<^verbatim>\<open>null\<close>.  A hash state \<^verbatim>\<open>{StateKey : StateHash}\<close> is the
  list of its entries in the order in which \<^verbatim>\<open>Object.entries\<close> gives them; state keys
  are not array indices, so this is the order of insertion, and \<open>AList.update\<close> is the
  assignment \<^verbatim>\<open>object[key] = value\<close>.  The local and the remote state of a peer are what
  \<^verbatim>\<open>onNewPeer\<close> returned for it: a hash state, or \<^verbatim>\<open>undefined\<close> (\<open>None\<close>).  Of a
  connection record only its key matters here; \<open>hbTimer\<close> tells whether the heartbeat
  timer of the peer is armed.
\<close>

type_synonym hash = "string option"

type_synonym hash_state = "(string \<times> hash) list"

record peer =
  connectionKey :: string
  peerClass :: string
  address :: string
  localState :: "hash_state option"
  remoteState :: "hash_state option"
  hbTimer :: bool

record sync_state =
  initialBeacon :: bool
  connections :: "string list"
  peers :: "string \<rightharpoonup> peer"

text \<open>
  The body of the reply to a \<^verbatim>\<open>GET\<close>: \<^verbatim>\<open>statusCode\<close>, \<^verbatim>\<open>statusDescription\<close>, \<^verbatim>\<open>hash\<close> and
  \<^verbatim>\<open>data\<close>.
\<close>

record response =
  rsp_statusCode :: int
  rsp_statusDescription :: string
  rsp_hash :: hash
  rsp_data :: jsval

text \<open>
  The callbacks given to \<^verbatim>\<open>Start\<close> and the request over AMQP are the environment: each
  tells, for the arguments of a call, what the call returns or the error it raises
  (\<^verbatim>\<open>amqp.Request\<close> rejects on a timeout).  The trace of a heartbeat lists the calls to
  the environment and the assignments to the remote state of the peer, in order.
\<close>

record sync_env =
  onNewPeer :: "string \<Rightarrow> string \<Rightarrow> error + (hash_state option \<times> hash_state option)"
  onPing :: "string \<Rightarrow> error option"
  onStateChange :: "string \<Rightarrow> string \<Rightarrow> hash \<Rightarrow> jsval \<Rightarrow> error option"
  Request :: "string \<Rightarrow> string \<Rightarrow> error + response"

datatype sync_event =
    EV_onNewPeer string string
  | EV_Heartbeat string "hash_state option"
  | EV_onPing string
  | EV_onStateChange string string hash jsval
  | EV_delete_remoteState string string
  | EV_GetState string string
  | EV_set_remoteState string string hash

text \<open>
  \<^verbatim>\<open>
  const sendHeartbeat = function (peerId) {
    let peer = peers[peerId]
    if (!!peer) {
      if (peer.hbTimer) {
        clearTimeout(peer.hbTimer)
      }
      const sender = connections[peer.connectionKey].apiSender
      const message = protocol.Heartbeat(localId, localClass, peer.localState, addressToUse)
      amqp.SendMessage(sender, message, {}, peer.address)
      peers[peerId].hbTimer = setTimeout(sendHeartbeat, timerDelayMsec(HEARTBEAT_PERIOD_SECONDS), peerId)
    }
  }
  \<close>
\<close>

type_synonym sync_step = "error option \<times> sync_state \<times> sync_event list"

definition sendHeartbeat :: "string \<Rightarrow> sync_state \<Rightarrow> sync_step" where
  "sendHeartbeat peerId st =
     (case peers st peerId of
        None \<Rightarrow> (None, st, [])
      | Some p \<Rightarrow>
          if connectionKey p \<in> set (connections st)
          then (None, st\<lparr>peers := (peers st)(peerId \<mapsto> p\<lparr>hbTimer := True\<rparr>)\<rparr>,
                [EV_Heartbeat (address p) (localState p)])
          else (Some TypeError, st\<lparr>peers := (peers st)(peerId \<mapsto> p\<lparr>hbTimer := False\<rparr>)\<rparr>, []))"

text \<open>
  \<^verbatim>\<open>hash != peers[peerId].remoteState[key]\<close>, where the right-hand side is \<^verbatim>\<open>undefined\<close>
  (\<open>None\<close>) for a key that is not tracked: \<^verbatim>\<open>null\<close> and \<^verbatim>\<open>undefined\<close> are loosely equal.
\<close>

definition js_neq :: "hash \<Rightarrow> hash option \<Rightarrow> bool" where
  "js_neq h tracked = (case tracked of None \<Rightarrow> h \<noteq> None | Some h' \<Rightarrow> h \<noteq> h')"

text \<open>
  \<^verbatim>\<open>
  let toRequestStateKeys = []
  let toDeleteStateKeys = {}
  for (const key of Object.keys(peers[peerId].remoteState)) {
    toDeleteStateKeys[key] = true
  }
  for (const [key, hash] of Object.entries(hashset)) {
    toDeleteStateKeys[key] = false
    if (hash != peers[peerId].remoteState[key]) {
      toRequestStateKeys.push(key)
    }
  }
  \<close>
\<close>

definition toDeleteStateKeys :: "hash_state \<Rightarrow> hash_state \<Rightarrow> (string \<times> bool) list" where
  "toDeleteStateKeys remote hashset =
     foldl (\<lambda>m (key, h). AList.update key False m)
       (foldl (\<lambda>m key. AList.update key True m) [] (map fst remote)) hashset"

definition toRequestStateKeys :: "hash_state \<Rightarrow> hash_state \<Rightarrow> string list" where
  "toRequestStateKeys remote hashset =
     concat (map (\<lambda>(key, h). if js_neq h (map_of remote key) then [key] else []) hashset)"

text \<open>
  \<^verbatim>\<open>
  for (const [key, value] of Object.entries(toDeleteStateKeys)) {
    try {
      if (value) {
        await onStateChange(peerId, key, null, null)
        delete peers[peerId].remoteState[key]
      }
    } catch (error) {
      Log(...)
    }
  }
  \<close>
  The loops work on the remote state of the peer, which is one object throughout.
\<close>

fun delete_states ::
  "sync_env \<Rightarrow> string \<Rightarrow> (string \<times> bool) list \<Rightarrow> hash_state \<times> sync_event list
     \<Rightarrow> hash_state \<times> sync_event list" where
  "delete_states e peerId [] acc = acc"
| "delete_states e peerId ((key, v) # rest) (remote, evs) =
     (if v then
        (case onStateChange e peerId key None JNull of
           Some err \<Rightarrow>
             delete_states e peerId rest (remote, evs @ [EV_onStateChange peerId key None JNull])
         | None \<Rightarrow>
             delete_states e peerId rest
               (AList.delete key remote,
                evs @ [EV_onStateChange peerId key None JNull, EV_delete_remoteState peerId key]))
      else delete_states e peerId rest (remote, evs))"

text \<open>
  \<^verbatim>\<open>
  for (const key of toRequestStateKeys) {
    try {
      const [ap, body] = await amqp.Request(sender, protocol.GetState(localId, key), {}, peers[peerId].address)
      if (body.statusCode == 200) {
        await onStateChange(peerId, key, body.hash, body.data)
        peers[peerId].remoteState[key] = body.hash
      } else {
        throw Error(`Protocol error on GetState: (${body.statusCode}) ${body.statusDescription}`)
      }
    } catch (error) {
      Log(...)
    }
  }
  \<close>
\<close>

fun request_states ::
  "sync_env \<Rightarrow> string \<Rightarrow> string \<Rightarrow> string list \<Rightarrow> hash_state \<times> sync_event list
     \<Rightarrow> hash_state \<times> sync_event list" where
  "request_states e peerId dest [] acc = acc"
| "request_states e peerId dest (key # rest) (remote, evs) =
     (case Request e key dest of
        Inl err \<Rightarrow> request_states e peerId dest rest (remote, evs @ [EV_GetState key dest])
      | Inr body \<Rightarrow>
          if rsp_statusCode body = 200 then
            (case onStateChange e peerId key (rsp_hash body) (rsp_data body) of
               Some err \<Rightarrow>
                 request_states e peerId dest rest
                   (remote, evs @ [EV_GetState key dest,
                      EV_onStateChange peerId key (rsp_hash body) (rsp_data body)])
             | None \<Rightarrow>
                 request_states e peerId dest rest
                   (AList.update key (rsp_hash body) remote,
                    evs @ [EV_GetState key dest,
                      EV_onStateChange peerId key (rsp_hash body) (rsp_data body),
                      EV_set_remoteState peerId key (rsp_hash body)]))
          else request_states e peerId dest rest (remote, evs @ [EV_GetState key dest]))"

text \<open>
  \<^verbatim>\<open>
  const onHeartbeat = async function (connectionKey, peerClass, peerId, hashset, address) {
    var localState
    var remoteState
    initialBeacon = false
    if (!peers[peerId]) {
      ;[localState, remoteState] = await onNewPeer(peerId, peerClass)
      peers[peerId] = {
        connectionKey: connectionKey, peerClass: peerClass, address: address,
        localState: localState, remoteState: remoteState, hbTimer: null,
      }
      sendHeartbeat(peerId)
    } else {
      onPing(peerId)
    }
    if (!!hashset) {
      ... (the two tables, above)
      ... (the deletions, above)
      const sender = connections[connectionKey].apiSender
      ... (the requests, above)
    }
  }
  \<close>
  The result is the error that escapes, if any, the state and the trace.
\<close>

definition greet :: "sync_env \<Rightarrow> string \<Rightarrow> string \<Rightarrow> string \<Rightarrow> string \<Rightarrow> sync_state \<Rightarrow> sync_step" where
  "greet e connKey pclass peerId sender_address st =
     (case peers st peerId of
        None \<Rightarrow>
          (case onNewPeer e peerId pclass of
             Inl err \<Rightarrow> (Some err, st, [EV_onNewPeer peerId pclass])
           | Inr (local_state, remote_state) \<Rightarrow>
               (case sendHeartbeat peerId
                       (st\<lparr>peers := (peers st)(peerId \<mapsto>
                          \<lparr>connectionKey = connKey, peerClass = pclass, address = sender_address,
                           localState = local_state, remoteState = remote_state,
                           hbTimer = False\<rparr>)\<rparr>) of
                  (r, st', evs) \<Rightarrow> (r, st', EV_onNewPeer peerId pclass # evs)))
      | Some p \<Rightarrow> (onPing e peerId, st, [EV_onPing peerId]))"

definition set_remoteState :: "string \<Rightarrow> peer \<Rightarrow> hash_state \<Rightarrow> sync_state \<Rightarrow> sync_state" where
  "set_remoteState peerId p remote st =
     st\<lparr>peers := (peers st)(peerId \<mapsto> p\<lparr>remoteState := Some remote\<rparr>)\<rparr>"

definition onHeartbeat ::
  "sync_env \<Rightarrow> string \<Rightarrow> string \<Rightarrow> string \<Rightarrow> hash_state option \<Rightarrow> string \<Rightarrow> sync_state \<Rightarrow> sync_step" where
  "onHeartbeat e connKey pclass peerId hashset sender_address st =
     (case greet e connKey pclass peerId sender_address (st\<lparr>initialBeacon := False\<rparr>) of
        (Some err, st1, evs) \<Rightarrow> (Some err, st1, evs)
      | (None, st1, evs) \<Rightarrow>
          (case hashset of
             None \<Rightarrow> (None, st1, evs)
           | Some hs \<Rightarrow>
               (case peers st1 peerId of
                  None \<Rightarrow> (Some TypeError, st1, evs)
                | Some p \<Rightarrow>
                    (case remoteState p of
                       None \<Rightarrow> (Some TypeError, st1, evs)
                     | Some remote \<Rightarrow>
                         (case delete_states e peerId (toDeleteStateKeys remote hs) (remote, evs) of
                            (remote1, evs1) \<Rightarrow>
                              if connKey \<in> set (connections st1) then
                                (case request_states e peerId (address p)
                                        (toRequestStateKeys remote hs) (remote1, evs1) of
                                   (remote2, evs2) \<Rightarrow>
                                     (None, set_remoteState peerId p remote2 st1, evs2))
                              else (Some TypeError, set_remoteState peerId p remote1 st1, evs1))))))"

text \<open>
  The reconciliation as the specification words it (section 4.4): what is done for a
  key to delete, what is done for a key to pull, the remote state after a pull, and the
  hash tracked for a key after the heartbeat.
\<close>

definition spec_deletion :: "sync_env \<Rightarrow> string \<Rightarrow> string \<Rightarrow> sync_event list" where
  "spec_deletion e peerId key =
     EV_onStateChange peerId key None JNull #
       (if onStateChange e peerId key None JNull = None then [EV_delete_remoteState peerId key]
        else [])"

definition pulled :: "sync_env \<Rightarrow> string \<Rightarrow> string \<Rightarrow> string \<Rightarrow> response option" where
  "pulled e peerId dest key =
     (case Request e key dest of
        Inl err \<Rightarrow> None
      | Inr body \<Rightarrow> if rsp_statusCode body = 200 then Some body else None)"

definition spec_pull :: "sync_env \<Rightarrow> string \<Rightarrow> string \<Rightarrow> string \<Rightarrow> sync_event list" where
  "spec_pull e peerId dest key =
     EV_GetState key dest #
       (case pulled e peerId dest key of
          None \<Rightarrow> []
        | Some body \<Rightarrow>
            EV_onStateChange peerId key (rsp_hash body) (rsp_data body) #
              (if onStateChange e peerId key (rsp_hash body) (rsp_data body) = None
               then [EV_set_remoteState peerId key (rsp_hash body)] else []))"

definition spec_pull_state :: "sync_env \<Rightarrow> string \<Rightarrow> string \<Rightarrow> hash_state \<Rightarrow> string \<Rightarrow> hash_state" where
  "spec_pull_state e peerId dest remote key =
     (case pulled e peerId dest key of
        None \<Rightarrow> remote
      | Some body \<Rightarrow>
          if onStateChange e peerId key (rsp_hash body) (rsp_data body) = None
          then AList.update key (rsp_hash body) remote else remote)"

definition spec_remoteState ::
  "sync_env \<Rightarrow> string \<Rightarrow> string \<Rightarrow> hash_state \<Rightarrow> hash_state \<Rightarrow> string \<Rightarrow> hash option" where
  "spec_remoteState e peerId dest remote hashset key =
     (case map_of hashset key of
        None \<Rightarrow>
          if key \<in> fst ` set remote \<and> onStateChange e peerId key None JNull = None then None
          else map_of remote key
      | Some h \<Rightarrow>
          if js_neq h (map_of remote key) then
            (case pulled e peerId dest key of
               None \<Rightarrow> map_of remote key
             | Some body \<Rightarrow>
                 if onStateChange e peerId key (rsp_hash body) (rsp_data body) = None
                 then Some (rsp_hash body) else map_of remote key)
          else map_of remote key)"

text \<open>
  An example (section 8, scenario 4): the peer \<open>s1\<close> of class \<open>backbone\<close> is tracked with
  remote state \<^verbatim>\<open>{link-L1: "H0", link-L0: "G0"}\<close> and sends a heartbeat with the hashset
  \<^verbatim>\<open>{link-L1: "H1"}\<close>; the reply to the request has status 200 and hash \<^verbatim>\<open>"H1"\<close>.
\<close>

definition peer_s1 :: peer where
  "peer_s1 = \<lparr>connectionKey = ''bb1'', peerClass = ''backbone'',
     address = ''amq.s1'', localState = Some [],
     remoteState = Some [(''link-L1'', Some ''H0''), (''link-L0'', Some ''G0'')], hbTimer = True\<rparr>"

definition sync_s1 :: sync_state where
  "sync_s1 = \<lparr>initialBeacon = False, connections = [''bb1''], peers = [''s1'' \<mapsto> peer_s1]\<rparr>"

definition link_data :: jsval where
  "link_data = JObj [(''host'', JStr ''h1''), (''port'', JStr ''55671'')]"

definition answering_env :: sync_env where
  "answering_env = \<lparr>onNewPeer = (\<lambda>peerId pclass. Inr (Some [], Some [])),
     onPing = (\<lambda>peerId. None),
     onStateChange = (\<lambda>peerId key h d. None),
     Request = (\<lambda>key dest. Inr \<lparr>rsp_statusCode = 200, rsp_statusDescription = ''OK'',
        rsp_hash = Some ''H1'', rsp_data = link_data\<rparr>)\<rparr>"

section \<open>Backbones become ready first\<close>

text \<open>
  The invariant behind \<open>access_after_backbone\<close>, in the form that the certificate loops
  and the secret watch keep: identifiers are primary keys, a ready access point belongs
  to a ready backbone, and so does an access point for which a certificate is requested
  (\<open>backed\<close>: the access point with this identifier belongs to a ready backbone).
\<close>

definition primary_keys :: "database \<Rightarrow> bool" where
  "primary_keys db =
     (distinct (map id' (Backbones db)) \<and> distinct (map id' (InteriorSites db))
      \<and> distinct (map id' (BackboneAccessPoints db)))"

definition backed :: "database \<Rightarrow> uuid \<Rightarrow> bool" where
  "backed db i =
     (\<forall>ap \<in> set (BackboneAccessPoints db). \<forall>s \<in> set (InteriorSites db).
        \<forall>bb \<in> set (Backbones db).
          id' ap = i \<and> interiorsite ap = Some (id' s) \<and> backbone s = Some (id' bb) \<longrightarrow>
          lifecycle bb = Some LC_ready)"

definition requests_after_backbone :: "database \<Rightarrow> bool" where
  "requests_after_backbone db =
     (\<forall>cr \<in> set (CertificateRequests db).
        case resolve_target cr of
          Inl err \<Rightarrow> True
        | Inr t \<Rightarrow> ref_table t = T_BackboneAccessPoints \<longrightarrow> backed db (ref_id t))"

definition backbones_first :: "database \<Rightarrow> bool" where
  "backbones_first db =
     (primary_keys db \<and> access_after_backbone db \<and> requests_after_backbone db)"

text \<open>
  An example: the manage access point \<open>ap2\<close> of a site of the ready backbone \<open>bb2\<close> is
  new; the access-point loop requests its certificate, and the secret of the
  certificate arrives.
\<close>

definition fresh_links_db :: database where
  "fresh_links_db = empty_db\<lparr>
     Backbones := [\<lparr>id' = ''bb2'', lifecycle = Some LC_ready, name = Some ''bb2'',
        certificate = Some ''ca2''\<rparr>],
     InteriorSites := [\<lparr>id' = ''s3'', lifecycle = Some LC_ready, name = Some ''s3'',
        certificate = None, deploymentstate = Some DS_not_ready, backbone = Some ''bb2''\<rparr>],
     BackboneAccessPoints := [\<lparr>id' = ''ap2'', lifecycle = Some LC_new, name = Some ''manage'',
        certificate = None, hostname = Some ''mgmt.example.com'', port = Some ''45671'',
        kind = Some AP_manage, interiorsite = Some ''s3''\<rparr>]\<rparr>"

definition requested_links_db :: database where
  "requested_links_db = fst (processNewAccessPoints example_env fresh_links_db)"

definition access_secret :: secret where
  "access_secret = \<lparr>secret_name = ''skx-access-cr1'',
     annotations = Some [(''skupper.io/skupperx-controlled'', ''true''),
       (''skupper.io/skx-dblink'', ''cr1''), (''skupper.io/skx-issuerlink'', ''ca2'')]\<rparr>"

definition links_db :: database where
  "links_db = fst (onSecretWatch cluster_env ''ADDED'' access_secret requested_links_db)"

definition manage_ap :: access_point where
  "manage_ap = \<lparr>id' = ''ap2'', lifecycle = Some LC_ready, name = Some ''manage'',
     certificate = Some ''cr1'', hostname = Some ''mgmt.example.com'', port = Some ''45671'',
     kind = Some AP_manage, interiorsite = Some ''s3''\<rparr>"

chapter \<open>Properties\<close>

section \<open>Hash stability\<close>

lemma foldl_append_concat:
  "foldl (\<lambda>text key. text @ f key) acc ks = acc @ concat (map f ks)"
  by (induction ks arbitrary: acc) simp_all

lemma HashOfData_text_concat:
  "HashOfData_text data =
     concat (map (\<lambda>key. key @ js_to_string (js_get data key)) (sort (Object_keys data)))"
  unfolding HashOfData_text_def
  using foldl_append_concat [of "\<lambda>key. key @ js_to_string (js_get data key)" "[]"]
  by simp

lemma map_fst_insort_key:
  "map fst (insort_key fst p ps) = insort (fst p) (map fst ps)"
  by (induction ps) simp_all

lemma sort_keys_pairs:
  "sort (map fst data) = map fst (sort_key fst data)"
  by (induction data) (simp_all add: map_fst_insort_key)

lemma js_get_distinct:
  "distinct (map fst data) \<Longrightarrow> (k, v) \<in> set data \<Longrightarrow> js_get data k = v"
  by (simp add: js_get_def)

lemma HashOfData_text_pairs:
  assumes "distinct (map fst data)"
  shows "HashOfData_text data =
     concat (map (\<lambda>(key, v). key @ js_to_string v) (sort_key fst data))"
proof -
  have "map (\<lambda>key. key @ js_to_string (js_get data key)) (map fst (sort_key fst data))
      = map (\<lambda>(key, v). key @ js_to_string v) (sort_key fst data)"
    using assms by (auto simp: js_get_distinct)
  then show ?thesis
    by (simp only: HashOfData_text_concat Object_keys_def sort_keys_pairs)
qed

lemma sort_keys_same:
  assumes "distinct (map fst data)" "distinct (map fst data')" "set data = set data'"
  shows "sort (Object_keys data) = sort (Object_keys data')"
proof -
  have "set (map fst data) = set (map fst data')" using assms(3) by simp
  then show ?thesis
    using assms(1,2) unfolding Object_keys_def
    by (metis sorted_list_of_set_sort_remdups distinct_remdups_id)
qed

text \<open>
  Claim C5, as far as it holds.  Two data objects with the same (key, value) pairs have
  the same hash, whatever the order their keys were inserted in, and the hash is the
  SHA-1 hex digest of key1 value1 key2 value2 ... with the keys ascending.  The
  converse direction of the claim's "if and only if" does not hold: see the
  counterexample below.
\<close>

theorem HashOfData_identical_pairs:
  assumes "distinct (map fst data)" "distinct (map fst data')" "set data = set data'"
  shows "HashOfData data = HashOfData data' \<and>
         HashOfData data =
           sha1_hex (concat (map (\<lambda>(key, v). key @ js_to_string v) (sort_key fst data)))"
proof -
  have m: "map_of data = map_of data'"
    using assms by (simp add: map_of_inject_set)
  have "HashOfData_text data = HashOfData_text data'"
    by (simp add: HashOfData_text_concat sort_keys_same [OF assms] js_get_def m)
  then show ?thesis
    by (simp add: HashOfData_def HashOfData_text_pairs [OF assms(1)])
qed

text \<open>The spec's scenario 5: \<^verbatim>\<open>{a:1, b:2}\<close> and \<^verbatim>\<open>{b:2, a:1}\<close>.\<close>

theorem HashOfData_identical_pairs_witness:
  "HashOfData [(''a'', JNum 1), (''b'', JNum 2)] = HashOfData [(''b'', JNum 2), (''a'', JNum 1)]"
  using HashOfData_identical_pairs
    [of "[(''a'', JNum 1), (''b'', JNum 2)]" "[(''b'', JNum 2), (''a'', JNum 1)]"]
  by auto

text \<open>
  Keys and values are concatenated with no separator, so \<^verbatim>\<open>{a:"bc"}\<close> and
  \<^verbatim>\<open>{ab:"c"}\<close> produce the same text \<^verbatim>\<open>abc\<close> and the same hash, though they
  share no pair.
\<close>

theorem HashOfData_iff_counterexample:
  "HashOfData [(''a'', JStr ''bc'')] = HashOfData [(''ab'', JStr ''c'')] \<and>
   set [(''a'', JStr ''bc'')] \<noteq> set [(''ab'', JStr ''c'')]"
  by (simp add: HashOfData_def HashOfData_text_def Object_keys_def js_get_def)

section \<open>Deployment-state evaluator\<close>

lemma peerResult_nonempty:
  "(0 < length (peerResult db i)) =
     (\<exists>l \<in> set (InterRouterLinks db). connectinginteriorsite l = Some i \<and>
        (\<exists>ap \<in> set (BackboneAccessPoints db). accesspoint l = Some (id' ap) \<and>
           (\<exists>t \<in> set (InteriorSites db). interiorsite ap = Some (id' t) \<and>
              deploymentstate t = Some DS_deployed)))"
  unfolding peerResult_def by (auto simp: concat_eq_Nil_conv) 

lemma apResult_nonempty:
  "(0 < length (apResult db i)) =
     (\<exists>ap \<in> set (BackboneAccessPoints db). kind ap = Some AP_manage \<and> interiorsite ap = Some i)"
  unfolding apResult_def by (auto simp: concat_eq_Nil_conv)

lemma evaluate_state_spec: "evaluate_state db s = spec_DeploymentState db s"
  unfolding evaluate_state_def spec_DeploymentState_def
  by (simp only: peerResult_nonempty apResult_nonempty) simp

text \<open>
  Claim C2.  The evaluator computes the state by the first matching rule of the
  specification's list (\<open>spec_DeploymentState\<close>), and it sends the UPDATE exactly when
  that state differs from the DeploymentState of the row it was given; the UPDATE writes
  the new state to the rows with the site's id and to no other.
\<close>

theorem evaluateSingleSite_TX_rules:
  "evaluateSingleSite_TX db s =
     (if Some (spec_DeploymentState db s) = deploymentstate s then (db, [])
      else (update_DeploymentState (spec_DeploymentState db s) (id' s) db,
            [UPDATE_InteriorSites_DeploymentState (spec_DeploymentState db s) (id' s)]))
   \<and> map deploymentstate (InteriorSites (fst (evaluateSingleSite_TX db s))) =
       map (\<lambda>t. if id' t = id' s \<and> Some (spec_DeploymentState db s) \<noteq> deploymentstate s
                 then Some (spec_DeploymentState db s) else deploymentstate t) (InteriorSites db)"
  by (auto simp: evaluateSingleSite_TX_def Let_def evaluate_state_spec update_DeploymentState_def)

theorem evaluateSingleSite_TX_rules_witness:
  "evaluateSingleSite_TX backbone_db site_s2 =
     (update_DeploymentState DS_ready_automatic ''s2'' backbone_db,
      [UPDATE_InteriorSites_DeploymentState DS_ready_automatic ''s2''])
   \<and> evaluateSingleSite_TX backbone_db site_s1 = (backbone_db, [])"
  using evaluateSingleSite_TX_rules [of backbone_db site_s2]
    evaluateSingleSite_TX_rules [of backbone_db site_s1]
  by (simp add: spec_DeploymentState_def backbone_db_def empty_db_def site_s1_def site_s2_def
      ap1_def link1_def)

section \<open>Claim server\<close>


text \<open>
  The limit that \<^verbatim>\<open>createInvitation\<close> stores is NULL or a number other than 0, and a
  claim does not write the column.
\<close>

lemma createInvitation_stored_limit:
  "\<forall>r \<in> set (MemberInvitations db). stored_limit r \<Longrightarrow>
   \<forall>r \<in> set (MemberInvitations
     (createInvitation_INSERT new_id uniqueName vid norm_siteclass norm_instancelimit
        norm_joindeadline db)). stored_limit r"
  by (auto simp add: createInvitation_INSERT_def stored_limit_def split: option.splits)

lemma processClaim_stored_limit:
  "\<forall>r \<in> set (MemberInvitations db). stored_limit r \<Longrightarrow>
   \<forall>r \<in> set (MemberInvitations
     (snd (snd (processClaim_transaction now new_id claimId site_name (st, db))))). stored_limit r"
  by (auto simp add: processClaim_transaction_def Let_def update_InstanceCount_def
      insert_MemberSite_def stored_limit_def)



text \<open>
  Claim C9.  For a member id whose slot is registered (as \<^verbatim>\<open>processClaim\<close> registers
  it), running \<^verbatim>\<open>CompleteMember\<close> before \<^verbatim>\<open>blockForCompletion\<close> leaves the same
  state as the reverse order: the slot is removed and the promise is resolved with the
  completion's result, or rejected with its error.
\<close>

theorem completion_race:
  assumes "memberCompletions st m = Some new_slot"
  shows "blockForCompletion m (CompleteMember m outcome st) =
           CompleteMember m outcome (blockForCompletion m st)
         \<and> memberCompletions (blockForCompletion m (CompleteMember m outcome st)) m = None
         \<and> waiting (blockForCompletion m (CompleteMember m outcome st)) m =
             Some (case outcome of Inr r \<Rightarrow> Resolved r | Inl e \<Rightarrow> Rejected e)"
  using assms
  by (cases outcome)
     (simp_all add: blockForCompletion_def CompleteMember_def completion_callback_def
        settle_def new_slot_def Let_def)

theorem completion_race_witness:
  "waiting (blockForCompletion ''m1''
      (CompleteMember ''m1'' (Inr (JObj [], JObj [(''kind'', JStr ''Secret'')]))
         (idle_server\<lparr>memberCompletions := [''m1'' \<mapsto> new_slot]\<rparr>))) ''m1'' =
     Some (Resolved (JObj [], JObj [(''kind'', JStr ''Secret'')]))
   \<and> waiting (CompleteMember ''m1'' (Inl (Error ''Could not find MemberSite with Id m1''))
      (blockForCompletion ''m1'' (idle_server\<lparr>memberCompletions := [''m1'' \<mapsto> new_slot]\<rparr>))) ''m1'' =
     Some (Rejected (Error ''Could not find MemberSite with Id m1''))"
proof -
  let ?st = "idle_server\<lparr>memberCompletions := [''m1'' \<mapsto> new_slot]\<rparr>"
  have slot: "memberCompletions ?st ''m1'' = Some new_slot"
    by simp
  note first = completion_race [OF slot, of "Inr (JObj [], JObj [(''kind'', JStr ''Secret'')])"]
  note second = completion_race [OF slot, of "Inl (Error ''Could not find MemberSite with Id m1'')"]
  have a: "waiting (blockForCompletion ''m1''
      (CompleteMember ''m1'' (Inr (JObj [], JObj [(''kind'', JStr ''Secret'')])) ?st)) ''m1'' =
     Some (Resolved (JObj [], JObj [(''kind'', JStr ''Secret'')]))"
    using first [THEN conjunct2, THEN conjunct2] by simp
  have b: "waiting (CompleteMember ''m1'' (Inl (Error ''Could not find MemberSite with Id m1''))
      (blockForCompletion ''m1'' ?st)) ''m1'' =
     Some (Rejected (Error ''Could not find MemberSite with Id m1''))"
    using second [THEN conjunct2, THEN conjunct2]
    by (simp only: second [THEN conjunct1, symmetric] sum.case)
  from a b show ?thesis by (rule conjI)
qed

section \<open>Template expander\<close>

lemmas template_simps =
  Expand_def tokenize.simps Arrange.simps Parse_def OPEN_def CLOSE_def String_slice_def
  String_trim_def String_trimLeft_def String_trimRight_def is_space_def directive_def
  starts_with_def D_IF_def D_ELSE_def D_END_def new_Token_def Let_def set_next_def
  set_thenClause_def set_elseClause_def trim_content_def value'_def Object_keys_def js_get_def

text \<open>
  Claim C6, as the code has it.  The first template of the scenario expands to
  \<^verbatim>\<open>P-svc\<close> and leaves the unresolvable set as it was; the second one records
  \<^verbatim>\<open>.missing\<close> as unresolvable and renders \<^verbatim>\<open>UNDEFINED[.missing]\<close>, not
  \<^verbatim>\<open>undefined\<close>.
\<close>

theorem Expand_scenario:
  "Expand ''{{ if $site.prod }}P{{ else }}D{{ end }}-{{ .name }}''
      (JObj [(''name'', JStr ''svc'')]) (JObj [(''site'', JObj [(''prod'', JBool True)])]) u
     = (Inr ''P-svc'', u)
   \<and> Expand ''{{ .missing }}'' (JObj []) (JObj []) u
     = (Inr ''UNDEFINED[.missing]'', insert ''.missing'' u)"
  by (simp add: template_simps)

theorem Expand_missing_counterexample:
  "fst (Expand ''{{ .missing }}'' (JObj []) (JObj []) {}) \<noteq> Inr ''undefined''"
  by (simp add: template_simps)

lemma traverse_resolved:
  "remote_lookup tr elements = Some v \<Longrightarrow> traverse tr elements c u = (Inr v, u)"
  by (induction tr elements rule: remote_lookup.induct) (auto split: sum.splits if_splits)

lemma value_local:
  assumes "local_lookup localData path = Some v"
  shows "value' (Some (CHR ''.'' # path)) localData remoteData u = (Inr v, u)"
proof -
  obtain ks where "js_keys localData = Inr ks" "path \<in> set ks" "js_prop localData path = v"
    using assms by (auto simp: local_lookup_def split: sum.splits if_splits)
  then show ?thesis by (simp add: value'_def)
qed

lemma value_remote:
  assumes "remote_lookup remoteData (split_dot path) = Some v"
  shows "value' (Some (CHR ''$'' # path)) localData remoteData u = (Inr v, u)"
  using traverse_resolved [OF assms] by (simp add: value'_def)

lemma value_resolved:
  assumes "(\<exists>path. c = CHR ''.'' # path \<and> local_lookup localData path = Some v) \<or>
           (\<exists>path. c = CHR ''$'' # path \<and> remote_lookup remoteData (split_dot path) = Some v)"
  shows "value' (Some c) localData remoteData u = (Inr v, u)"
  using assms value_local value_remote by blast

text \<open>
  Claim C10.  A variable token whose path resolves (in the local scope for a
  \<^verbatim>\<open>.name\<close> path, in the remote scope for a \<^verbatim>\<open>$a.b.c\<close> path) to a falsy value renders
  as the text \<^verbatim>\<open>undefined\<close>, followed by the expansion of the tokens after it, and
  the token itself adds nothing to the unresolvable set.
\<close>

theorem falsy_variable_renders_undefined:
  assumes "\<not> truthy v"
    and "(\<exists>path. c = CHR ''.'' # path \<and> local_lookup localData path = Some v) \<or>
         (\<exists>path. c = CHR ''$'' # path \<and> remote_lookup remoteData (split_dot path) = Some v)"
  shows "Token_Expand (Token TOKEN_VARIABLE (Some c) tleft th el None) localData remoteData u
           = (Inr ''undefined'', u)
       \<and> Token_Expand (Token TOKEN_VARIABLE (Some c) tleft th el (Some n)) localData remoteData u
           = (case Token_Expand n localData remoteData u of
                (Inl e, u2) \<Rightarrow> (Inl e, u2)
              | (Inr following, u2) \<Rightarrow> (Inr (''undefined'' @ following), u2))"
  using assms(1) value_resolved [OF assms(2), of u] by simp

theorem falsy_variable_renders_undefined_witness:
  "Token_Expand (Token TOKEN_VARIABLE (Some ''.count'') False None None None)
      (JObj [(''count'', JNum 0)]) (JObj []) {} = (Inr ''undefined'', {})
   \<and> Token_Expand (Token TOKEN_VARIABLE (Some ''$site.name'') False None None None)
      (JObj []) (JObj [(''site'', JObj [(''name'', JStr [])])]) {} = (Inr ''undefined'', {})
   \<and> Expand ''[{{ .flag }}]'' (JObj [(''flag'', JBool False)]) JNull {} = (Inr ''[undefined]'', {})"
proof -
  have a: "Token_Expand (Token TOKEN_VARIABLE (Some ''.count'') False None None None)
      (JObj [(''count'', JNum 0)]) (JObj []) {} = (Inr ''undefined'', {})"
    using falsy_variable_renders_undefined [where v = "JNum 0" and c = "''.count''"
        and localData = "JObj [(''count'', JNum 0)]", THEN conjunct1]
    by (simp add: local_lookup_def Object_keys_def js_get_def)
  have b: "Token_Expand (Token TOKEN_VARIABLE (Some ''$site.name'') False None None None)
      (JObj []) (JObj [(''site'', JObj [(''name'', JStr [])])]) {} = (Inr ''undefined'', {})"
    using falsy_variable_renders_undefined [where v = "JStr []" and c = "''$site.name''"
        and remoteData = "JObj [(''site'', JObj [(''name'', JStr [])])]", THEN conjunct1]
    by (simp add: Object_keys_def js_get_def)
  have c: "Expand ''[{{ .flag }}]'' (JObj [(''flag'', JBool False)]) JNull {} = (Inr ''[undefined]'', {})"
    by (simp add: template_simps)
  from a b c show ?thesis by simp
qed

section \<open>Certificate reconcilers\<close>

lemma take1_cases: "take 1 xs = [] \<or> (\<exists>x. take 1 xs = [x])"
  by (cases xs) simp_all

lemmas reconciler_defs =
  processNewManagementControllers_def processNewManagementControllers_try_def
  processNewBackbones_def processNewBackbones_try_def
  processNewAccessPoints_def processNewAccessPoints_try_def
  processNewNetworks_def processNewNetworks_try_def
  processNewInteriorSites_def processNewInteriorSites_try_def
  processNewInvitations_def processNewInvitations_try_def
  processNewMemberSites_def processNewMemberSites_try_def
  processNewNetworkCredentials_def processNewNetworkCredentials_try_def

lemma try_delay:
  "reconciler_try k e db = Inr (db', d) \<Longrightarrow>
     d = (if rowCount k db = 1 then 0 else if k = K_ManagementControllers then 5000 else 2000)"
proof (cases k)
  case K_ManagementControllers
  assume a: "reconciler_try k e db = Inr (db', d)"
  show ?thesis
    using a K_ManagementControllers take1_cases [of "[r \<leftarrow> ManagementControllers db. lifecycle r = Some LC_new]"]
    by (auto simp: processNewManagementControllers_try_def select_new_ManagementControllers_def Let_def
        split: option.splits)
qed (auto simp: reconciler_defs Let_def split: option.splits list.splits sum.splits if_splits)


lemma reconciler_transaction: "reconciler k e db = transaction db (reconciler_try k e db)"
  by (cases k) (simp_all add: reconciler_defs)

text \<open>
  Claim C7, as far as it holds.  Each per-kind loop hands \<^verbatim>\<open>setTimeout\<close> 10 seconds
  when its transaction raises (and leaves the database as it was), nothing (zero delay)
  when it selected and processed a row, and its idle delay when the select returned no
  row.  The idle delay is 2 seconds for every kind but the management controllers, whose
  loop starts with \<^verbatim>\<open>reschedule_delay = 5000\<close>.
\<close>

theorem reconciler_delay:
  "reconciler k e db =
     (case reconciler_try k e db of
        Inl err \<Rightarrow> (db, 10000)
      | Inr (db', d) \<Rightarrow>
          (db', if rowCount k db = 1 then 0
                else if k = K_ManagementControllers then 5000 else 2000))"
proof (cases "reconciler_try k e db")
  case (Inl err)
  then show ?thesis by (simp add: reconciler_transaction transaction_def)
next
  case (Inr r)
  obtain db' d where r: "r = (db', d)" by (cases r)
  show ?thesis
    using Inr r try_delay [of k e db db' d]
    by (simp add: reconciler_transaction transaction_def)
qed

theorem reconciler_delay_witness:
  "snd (reconciler K_Backbones example_env new_backbone_db) = 0
   \<and> reconciler K_Backbones example_env empty_db = (empty_db, 2000)
   \<and> reconciler K_Backbones (example_env\<lparr>env_fault := Some (Error ''connection lost'')\<rparr>)
         new_backbone_db = (new_backbone_db, 10000)"
  using reconciler_delay [of K_Backbones example_env new_backbone_db]
    reconciler_delay [of K_Backbones example_env empty_db]
    reconciler_delay [of K_Backbones "example_env\<lparr>env_fault := Some (Error ''connection lost'')\<rparr>"
      new_backbone_db]
  by (simp add: processNewBackbones_try_def select_new_Backbones_def example_env_def
      new_backbone_db_def empty_db_def Let_def)

text \<open>With no new management controller, that loop sleeps 5 seconds, not 2.\<close>

theorem reconciler_idle_counterexample:
  "rowCount K_ManagementControllers empty_db = 0
   \<and> reconciler K_ManagementControllers example_env empty_db = (empty_db, 5000)"
  by (simp add: processNewManagementControllers_def processNewManagementControllers_try_def
      select_new_ManagementControllers_def transaction_def example_env_def empty_db_def)

section \<open>Backbone links\<close>

lemma call_handlers_quiet:
  "\<forall>ev. rs ev = None \<Longrightarrow> call_handlers rs mk regs = (None, map mk regs)"
  by (induction regs) simp_all

lemma opened_append [simp]: "opened (xs @ ys) = opened xs @ opened ys"
  by (simp add: opened_def)

lemma closed_append [simp]: "closed (xs @ ys) = closed xs @ closed ys"
  by (simp add: closed_def)

lemma opened_handlers [simp]:
  "opened (map (\<lambda>reg. EV_onLinkAdded reg b) regs) = []"
  "opened (map (\<lambda>reg. EV_onLinkDeleted reg b) regs) = []"
  "closed (map (\<lambda>reg. EV_onLinkAdded reg b) regs) = []"
  "closed (map (\<lambda>reg. EV_onLinkDeleted reg b) regs) = []"
  by (induction regs) (simp_all add: opened_def closed_def)

lemma opened_Cons [simp]:
  "opened (EV_OpenConnection b h p # evs) = b # opened evs"
  "opened (EV_CloseConnection b # evs) = opened evs"
  "closed (EV_OpenConnection b h p # evs) = closed evs"
  "closed (EV_CloseConnection b # evs) = b # closed evs"
  "opened [] = []" "closed [] = []"
  by (simp_all add: opened_def closed_def)

lemma createConnection_quiet_eq:
  assumes "\<forall>ev. raises e ev = None"
  shows "createConnection e b r conns =
           (None,
            AList.update b \<lparr>toDelete = False, host = hostname r, conn_port = port r,
                             conn = Some (''Backbone-management-'' @ b)\<rparr> conns,
            EV_OpenConnection b (hostname r) (port r)
              # map (\<lambda>reg. EV_onLinkAdded reg b) [0..<registrations e])"
  using assms by (simp add: createConnection_def Let_def call_handlers_quiet)

lemma createConnection_quiet:
  assumes "\<forall>ev. raises e ev = None"
  shows "\<exists>c evs. createConnection e b r conns = (None, AList.update b c conns, evs)
           \<and> \<not> toDelete c \<and> opened evs = [b] \<and> closed evs = []"
proof (intro exI conjI)
  show "createConnection e b r conns =
           (None,
            AList.update b \<lparr>toDelete = False, host = hostname r, conn_port = port r,
                             conn = Some (''Backbone-management-'' @ b)\<rparr> conns,
            EV_OpenConnection b (hostname r) (port r)
              # map (\<lambda>reg. EV_onLinkAdded reg b) [0..<registrations e])"
    by (rule createConnection_quiet_eq [OF assms])
qed simp_all

lemma deleteConnection_quiet:
  assumes "\<forall>ev. raises e ev = None" "map_of conns b = Some c"
  shows "\<exists>evs. deleteConnection e b conns = (None, AList.delete b conns, evs)
           \<and> opened evs = [] \<and> closed evs = [b]"
  using assms by (simp add: deleteConnection_def call_handlers_quiet)

lemma flag_update: "flag (AList.update b c conns) k = (if k = b then toDelete c else flag conns k)"
  by (simp add: flag_def update_conv')

lemma dom_update_conns: "dom (map_of (AList.update b c conns)) = insert b (dom (map_of conns))"
  by (simp add: update_conv')

lemma flag_absent: "map_of conns b = None \<Longrightarrow> flag conns b = False"
  by (simp add: flag_def)

lemma create_missing_quiet:
  assumes "\<forall>ev. raises e ev = None"
  shows "\<exists>conns1 evs. create_missing e db_rows conns = (None, conns1, evs)
           \<and> dom (map_of conns1) = dom (map_of conns) \<union> fst ` set db_rows
           \<and> (\<forall>k. flag conns1 k = (k \<notin> fst ` set db_rows \<and> flag conns k))
           \<and> set (opened evs) = fst ` set db_rows - dom (map_of conns)
           \<and> closed evs = []
           \<and> (distinct (map fst conns) \<longrightarrow> distinct (map fst conns1))"
proof (induction db_rows arbitrary: conns)
  case Nil
  then show ?case by simp
next
  case (Cons p db_rows)
  obtain bbid r where p: "p = (bbid, r)" by (cases p)
  have "\<exists>conns' evs'. (case map_of conns bbid of
              Some c \<Rightarrow> (None, AList.update bbid (c\<lparr>toDelete := False\<rparr>) conns, [])
            | None \<Rightarrow> createConnection e bbid r conns) = (None, conns', evs')
          \<and> dom (map_of conns') = insert bbid (dom (map_of conns))
          \<and> (\<forall>k. flag conns' k = (k \<noteq> bbid \<and> flag conns k))
          \<and> set (opened evs') = {bbid} - dom (map_of conns)
          \<and> closed evs' = []
          \<and> (distinct (map fst conns) \<longrightarrow> distinct (map fst conns'))"
  proof (cases "map_of conns bbid")
    case None
    obtain c evs where c: "createConnection e bbid r conns = (None, AList.update bbid c conns, evs)"
        "\<not> toDelete c" "opened evs = [bbid]" "closed evs = []"
      using createConnection_quiet [OF assms, of bbid r conns] by blast
    have nd: "bbid \<notin> dom (map_of conns)" using None by (simp add: domIff)
    show ?thesis
    proof (intro exI conjI)
      show "(case map_of conns bbid of
              Some c \<Rightarrow> (None, AList.update bbid (c\<lparr>toDelete := False\<rparr>) conns, [])
            | None \<Rightarrow> createConnection e bbid r conns) = (None, AList.update bbid c conns, evs)"
        using None c(1) by simp
      show "dom (map_of (AList.update bbid c conns)) = insert bbid (dom (map_of conns))"
        by (rule dom_update_conns)
      show "\<forall>k. flag (AList.update bbid c conns) k = (k \<noteq> bbid \<and> flag conns k)"
        using c(2) by (simp add: flag_update)
      show "set (opened evs) = {bbid} - dom (map_of conns)"
        using c(3) nd by auto
      show "closed evs = []" by (rule c(4))
      show "distinct (map fst conns) \<longrightarrow> distinct (map fst (AList.update bbid c conns))"
        by (simp add: distinct_update)
    qed
  next
    case (Some c)
    have d: "bbid \<in> dom (map_of conns)" using Some by (simp add: domIff)
    show ?thesis
    proof (intro exI conjI)
      show "(case map_of conns bbid of
              Some c \<Rightarrow> (None, AList.update bbid (c\<lparr>toDelete := False\<rparr>) conns, [])
            | None \<Rightarrow> createConnection e bbid r conns)
           = (None, AList.update bbid (c\<lparr>toDelete := False\<rparr>) conns, [])"
        using Some by simp
      show "dom (map_of (AList.update bbid (c\<lparr>toDelete := False\<rparr>) conns)) = insert bbid (dom (map_of conns))"
        by (rule dom_update_conns)
      show "\<forall>k. flag (AList.update bbid (c\<lparr>toDelete := False\<rparr>) conns) k = (k \<noteq> bbid \<and> flag conns k)"
        by (simp add: flag_update)
      show "set (opened []) = {bbid} - dom (map_of conns)"
        using d by simp
      show "closed [] = []" by simp
      show "distinct (map fst conns) \<longrightarrow>
            distinct (map fst (AList.update bbid (c\<lparr>toDelete := False\<rparr>) conns))"
        by (simp add: distinct_update)
    qed
  qed
  then obtain conns' evs' where step:
    "(case map_of conns bbid of
              Some c \<Rightarrow> (None, AList.update bbid (c\<lparr>toDelete := False\<rparr>) conns, [])
            | None \<Rightarrow> createConnection e bbid r conns) = (None, conns', evs')"
    "dom (map_of conns') = insert bbid (dom (map_of conns))"
    "\<forall>k. flag conns' k = (k \<noteq> bbid \<and> flag conns k)"
    "set (opened evs') = {bbid} - dom (map_of conns)"
    "closed evs' = []"
    "distinct (map fst conns) \<longrightarrow> distinct (map fst conns')"
    by (elim exE conjE) (rule that, assumption+)
  obtain conns1 evs where ih:
    "create_missing e db_rows conns' = (None, conns1, evs)"
    "dom (map_of conns1) = dom (map_of conns') \<union> fst ` set db_rows"
    "\<forall>k. flag conns1 k = (k \<notin> fst ` set db_rows \<and> flag conns' k)"
    "set (opened evs) = fst ` set db_rows - dom (map_of conns')"
    "closed evs = []"
    "distinct (map fst conns') \<longrightarrow> distinct (map fst conns1)"
    using Cons.IH [of conns'] by (elim exE conjE) (rule that, assumption+)
  show ?case
  proof (intro exI conjI)
    show "create_missing e (p # db_rows) conns = (None, conns1, evs' @ evs)"
      unfolding p using step(1) ih(1) by simp
    show "dom (map_of conns1) = dom (map_of conns) \<union> fst ` set (p # db_rows)"
      unfolding ih(2) step(2) p by auto
    show "\<forall>k. flag conns1 k = (k \<notin> fst ` set (p # db_rows) \<and> flag conns k)"
    proof
      fix k
      have "flag conns1 k = (k \<notin> fst ` set db_rows \<and> flag conns' k)" by (rule ih(3) [rule_format])
      also have "flag conns' k = (k \<noteq> bbid \<and> flag conns k)" by (rule step(3) [rule_format])
      finally show "flag conns1 k = (k \<notin> fst ` set (p # db_rows) \<and> flag conns k)"
        unfolding p by auto
    qed
    show "set (opened (evs' @ evs)) = fst ` set (p # db_rows) - dom (map_of conns)"
      unfolding opened_append set_append ih(4) step(2) step(4) p by auto
    show "closed (evs' @ evs) = []"
      using step(5) ih(5) by simp
    show "distinct (map fst conns) \<longrightarrow> distinct (map fst conns1)"
      using step(6) ih(6) by blast
  qed
qed


lemma flag_delete: "flag (AList.delete b conns) k = (k \<noteq> b \<and> flag conns k)"
  by (simp add: flag_def delete_conv')

lemma delete_marked_quiet:
  assumes "\<forall>ev. raises e ev = None"
  shows "distinct ks \<Longrightarrow> set ks \<subseteq> dom (map_of conns) \<Longrightarrow>
         \<exists>conns2 evs. delete_marked e ks conns = (None, conns2, evs)
           \<and> (\<forall>k. map_of conns2 k = (if k \<in> set ks \<and> flag conns k then None else map_of conns k))
           \<and> set (closed evs) = {k \<in> set ks. flag conns k}
           \<and> opened evs = []"
proof (induction ks arbitrary: conns)
  case Nil
  then show ?case by simp
next
  case (Cons b ks)
  from Cons.prems obtain c where c: "map_of conns b = Some c" by auto
  have nb: "b \<notin> set ks" using Cons.prems(1) by simp
  have "\<exists>conns' evs'. (if toDelete c then deleteConnection e b conns else (None, conns, []))
            = (None, conns', evs')
          \<and> (\<forall>k. map_of conns' k = (if k = b \<and> flag conns b then None else map_of conns k))
          \<and> set (closed evs') = {k. k = b \<and> flag conns b}
          \<and> opened evs' = []"
  proof (cases "toDelete c")
    case True
    obtain evs where d: "deleteConnection e b conns = (None, AList.delete b conns, evs)"
        "opened evs = []" "closed evs = [b]"
      using deleteConnection_quiet [OF assms c] by blast
    show ?thesis
    proof (intro exI conjI)
      show "(if toDelete c then deleteConnection e b conns else (None, conns, []))
              = (None, AList.delete b conns, evs)"
        using True d(1) by simp
      show "\<forall>k. map_of (AList.delete b conns) k = (if k = b \<and> flag conns b then None else map_of conns k)"
        using True c by (simp add: delete_conv' flag_def)
      show "set (closed evs) = {k. k = b \<and> flag conns b}"
        using True c d(3) by (auto simp: flag_def)
      show "opened evs = []" by (rule d(2))
    qed
  next
    case False
    show ?thesis
    proof (intro exI conjI)
      show "(if toDelete c then deleteConnection e b conns else (None, conns, [])) = (None, conns, [])"
        using False by simp
      show "\<forall>k. map_of conns k = (if k = b \<and> flag conns b then None else map_of conns k)"
        using False c by (simp add: flag_def)
      show "set (closed []) = {k. k = b \<and> flag conns b}"
        using False c by (simp add: flag_def)
      show "opened [] = []" by simp
    qed
  qed
  then obtain conns' evs' where step:
    "(if toDelete c then deleteConnection e b conns else (None, conns, [])) = (None, conns', evs')"
    "\<forall>k. map_of conns' k = (if k = b \<and> flag conns b then None else map_of conns k)"
    "set (closed evs') = {k. k = b \<and> flag conns b}"
    "opened evs' = []"
    by (elim exE conjE) (rule that, assumption+)
  have same: "\<And>k. k \<noteq> b \<Longrightarrow> map_of conns' k = map_of conns k"
    using step(2) by simp
  have sub: "set ks \<subseteq> dom (map_of conns')"
  proof
    fix k assume k: "k \<in> set ks"
    then have "k \<noteq> b" using nb by auto
    then show "k \<in> dom (map_of conns')"
      using same [of k] k Cons.prems(2) by (auto simp: domIff)
  qed
  have dk: "distinct ks" using Cons.prems(1) by simp
  obtain conns2 evs where ih:
    "delete_marked e ks conns' = (None, conns2, evs)"
    "\<forall>k. map_of conns2 k = (if k \<in> set ks \<and> flag conns' k then None else map_of conns' k)"
    "set (closed evs) = {k \<in> set ks. flag conns' k}"
    "opened evs = []"
    using Cons.IH [OF dk sub] by (elim exE conjE) (rule that, assumption+)
  have fl: "\<And>k. k \<noteq> b \<Longrightarrow> flag conns' k = flag conns k"
    using same by (simp add: flag_def)
  show ?case
  proof (intro exI conjI)
    show "delete_marked e (b # ks) conns = (None, conns2, evs' @ evs)"
      using c step(1) ih(1) by simp
    show "\<forall>k. map_of conns2 k = (if k \<in> set (b # ks) \<and> flag conns k then None else map_of conns k)"
    proof
      fix k
      show "map_of conns2 k = (if k \<in> set (b # ks) \<and> flag conns k then None else map_of conns k)"
      proof (cases "k = b")
        case True
        then show ?thesis using ih(2) [rule_format, of k] step(2) [rule_format, of k] nb by simp
      next
        case False
        then show ?thesis
          using ih(2) [rule_format, of k] same [of k] fl [of k] by simp
      qed
    qed
    show "set (closed (evs' @ evs)) = {k \<in> set (b # ks). flag conns k}"
    proof -
      have "\<And>k. k \<in> set ks \<Longrightarrow> flag conns' k = flag conns k"
        using fl nb by metis
      then have "{k \<in> set ks. flag conns' k} = {k \<in> set ks. flag conns k}"
        by blast
      then show ?thesis
        unfolding closed_append set_append step(3) ih(3) by auto
    qed
    show "opened (evs' @ evs) = []"
      using step(4) ih(4) by simp
  qed
qed

lemma map_fst_mark_all: "map fst (mark_all conns) = map fst conns"
  by (induction conns) (auto simp: mark_all_def)

lemma flag_mark_all: "flag (mark_all conns) k = (k \<in> dom (map_of conns))"
  by (induction conns) (auto simp: mark_all_def flag_def)

lemma dom_mark_all: "dom (map_of (mark_all conns)) = dom (map_of conns)"
proof -
  have "set (map fst (mark_all conns)) = set (map fst conns)"
    by (simp only: map_fst_mark_all)
  then show ?thesis by (simp add: dom_map_of_conv_image_fst)
qed

lemma keys_collect_db_rows:
  "fst ` set (collect_db_rows acc rows) = fst ` set acc \<union> snd ` set rows"
proof (induction rows arbitrary: acc)
  case Nil
  then show ?case by simp
next
  case (Cons p rows)
  obtain r bb where p: "p = (r, bb)" by (cases p)
  show ?case
  proof (cases "map_of acc bb")
    case None
    then show ?thesis using Cons [of "AList.update bb r acc"] p
      by (simp add: dom_update)
  next
    case (Some x)
    then have "bb \<in> fst ` set acc" by (metis domI dom_map_of_conv_image_fst)
    then show ?thesis using Cons [of acc] p Some by auto
  qed
qed


lemma update_absent: "k \<notin> fst ` set al \<Longrightarrow> AList.update k v al = al @ [(k, v)]"
  by (induction al) auto

lemma collect_db_rows_sound:
  "distinct (map fst acc) \<Longrightarrow> (\<forall>(b, r) \<in> set acc. (r, b) \<in> S) \<Longrightarrow> set rows \<subseteq> S \<Longrightarrow>
     distinct (map fst (collect_db_rows acc rows))
     \<and> (\<forall>(b, r) \<in> set (collect_db_rows acc rows). (r, b) \<in> S)"
proof (induction rows arbitrary: acc)
  case Nil
  then show ?case by simp
next
  case (Cons p rows)
  obtain r bb where p: "p = (r, bb)" by (cases p)
  show ?case
  proof (cases "map_of acc bb")
    case None
    then have nk: "bb \<notin> fst ` set acc" by (simp add: map_of_eq_None_iff)
    have "distinct (map fst (AList.update bb r acc))"
      using Cons.prems(1) by (simp add: distinct_update)
    moreover have "\<forall>(b, r) \<in> set (AList.update bb r acc). (r, b) \<in> S"
      using Cons.prems(2,3) p by (auto simp: update_absent [OF nk])
    moreover have "set rows \<subseteq> S" using Cons.prems(3) by simp
    ultimately show ?thesis
      using Cons.IH [of "AList.update bb r acc"] p None by simp
  next
    case (Some x)
    then show ?thesis using Cons.IH [of acc] Cons.prems p by simp
  qed
qed

lemma select_manage_access_set:
  "set (select_manage_access db) =
     {(ap, b). ap \<in> set (BackboneAccessPoints db) \<and> lifecycle ap = Some LC_ready \<and>
        kind ap = Some AP_manage \<and>
        (\<exists>s \<in> set (InteriorSites db). \<exists>bb \<in> set (Backbones db).
           interiorsite ap = Some (id' s) \<and> backbone s = Some (id' bb) \<and> b = id' bb)}"
proof (rule set_eqI)
  fix x :: "access_point \<times> uuid"
  obtain ap b where x: "x = (ap, b)" by (cases x)
  show "(x \<in> set (select_manage_access db)) =
        (x \<in> {(ap, b). ap \<in> set (BackboneAccessPoints db) \<and> lifecycle ap = Some LC_ready \<and>
        kind ap = Some AP_manage \<and>
        (\<exists>s \<in> set (InteriorSites db). \<exists>bb \<in> set (Backbones db).
           interiorsite ap = Some (id' s) \<and> backbone s = Some (id' bb) \<and> b = id' bb)})"
    unfolding x select_manage_access_def
    by (simp split: if_splits) blast
qed

lemma keys_mark_all: "fst ` set (mark_all conns) = fst ` set conns"
  using arg_cong [OF map_fst_mark_all [of conns], of set] by simp

lemma reconcile_quiet:
  assumes "link_fault e = None" "\<forall>ev. raises e ev = None" "distinct (map fst conns)"
  shows "\<exists>conns' evs. reconcileBackboneConnections e db conns = (conns', evs, 30000)
      \<and> set (map fst conns') = snd ` set (select_manage_access db)
      \<and> set (opened evs) = snd ` set (select_manage_access db) - fst ` set conns
      \<and> set (closed evs) = fst ` set conns - snd ` set (select_manage_access db)"
proof -
  let ?B = "snd ` set (select_manage_access db)"
  let ?rows = "collect_db_rows [] (select_manage_access db)"
  have keys: "fst ` set ?rows = ?B"
    using keys_collect_db_rows [of "[]" "select_manage_access db"] by simp
  obtain conns1 evs1 where cm:
    "create_missing e ?rows (mark_all conns) = (None, conns1, evs1)"
    "dom (map_of conns1) = dom (map_of (mark_all conns)) \<union> fst ` set ?rows"
    "\<forall>k. flag conns1 k = (k \<notin> fst ` set ?rows \<and> flag (mark_all conns) k)"
    "set (opened evs1) = fst ` set ?rows - dom (map_of (mark_all conns))"
    "closed evs1 = []"
    "distinct (map fst (mark_all conns)) \<longrightarrow> distinct (map fst conns1)"
    using create_missing_quiet [OF assms(2), of ?rows "mark_all conns"]
    by (elim exE conjE) (rule that, assumption+)
  have d1: "distinct (map fst conns1)"
    using cm(6) assms(3) by (simp add: map_fst_mark_all)
  have dom1: "dom (map_of conns1) = fst ` set conns \<union> ?B"
    using cm(2) keys by (simp add: dom_map_of_conv_image_fst keys_mark_all)
  have fl1: "\<And>k. flag conns1 k = (k \<notin> ?B \<and> k \<in> fst ` set conns)"
    using cm(3) keys by (simp add: flag_mark_all dom_map_of_conv_image_fst)
  have sub: "set (map fst conns1) \<subseteq> dom (map_of conns1)"
    by (simp add: dom_map_of_conv_image_fst)
  obtain conns2 evs2 where dm:
    "delete_marked e (map fst conns1) conns1 = (None, conns2, evs2)"
    "\<forall>k. map_of conns2 k =
       (if k \<in> set (map fst conns1) \<and> flag conns1 k then None else map_of conns1 k)"
    "set (closed evs2) = {k \<in> set (map fst conns1). flag conns1 k}"
    "opened evs2 = []"
    using delete_marked_quiet [OF assms(2) d1 sub]
    by (elim exE conjE) (rule that, assumption+)
  have keys1: "set (map fst conns1) = fst ` set conns \<union> ?B"
    using dom1 by (simp add: dom_map_of_conv_image_fst)
  have "dom (map_of conns2) = ?B"
  proof (rule set_eqI)
    fix k
    show "(k \<in> dom (map_of conns2)) = (k \<in> ?B)"
      using dm(2) [rule_format, of k] fl1 [of k] keys1 dom1
      by (auto simp: domIff split: if_splits)
  qed
  then have k2: "set (map fst conns2) = ?B"
    by (simp add: dom_map_of_conv_image_fst)
  have op: "set (opened (evs1 @ evs2)) = ?B - fst ` set conns"
    using cm(4) dm(4) keys by (simp add: dom_map_of_conv_image_fst keys_mark_all)
  have cl: "set (closed (evs1 @ evs2)) = fst ` set conns - ?B"
    using cm(5) dm(3) fl1 keys1 by auto
  have "reconcileBackboneConnections e db conns = (conns2, evs1 @ evs2, 30000)"
    using assms(1) cm(1) dm(1) by (simp add: reconcileBackboneConnections_def Let_def)
  then show ?thesis using k2 op cl by blast
qed


section \<open>Finalizing a certificate request\<close>

lemma evaluateSingleSite_TX_frame:
  "columns (InteriorSites (fst (evaluateSingleSite_TX db s))) = columns (InteriorSites db)
   \<and> ManagementControllers (fst (evaluateSingleSite_TX db s)) = ManagementControllers db
   \<and> Backbones (fst (evaluateSingleSite_TX db s)) = Backbones db
   \<and> BackboneAccessPoints (fst (evaluateSingleSite_TX db s)) = BackboneAccessPoints db
   \<and> InterRouterLinks (fst (evaluateSingleSite_TX db s)) = InterRouterLinks db
   \<and> ApplicationNetworks (fst (evaluateSingleSite_TX db s)) = ApplicationNetworks db
   \<and> NetworkCredentials (fst (evaluateSingleSite_TX db s)) = NetworkCredentials db
   \<and> MemberInvitations (fst (evaluateSingleSite_TX db s)) = MemberInvitations db
   \<and> MemberSites (fst (evaluateSingleSite_TX db s)) = MemberSites db
   \<and> TlsCertificates (fst (evaluateSingleSite_TX db s)) = TlsCertificates db
   \<and> CertificateRequests (fst (evaluateSingleSite_TX db s)) = CertificateRequests db"
  by (simp add: evaluateSingleSite_TX_def update_DeploymentState_def columns_def Let_def)

lemma SiteLifecycleChanged_TX_ready:
  "fst (SiteLifecycleChanged_TX db i LC_ready) = db
   \<or> (\<exists>s. fst (SiteLifecycleChanged_TX db i LC_ready) = fst (evaluateSingleSite_TX db s))"
  unfolding SiteLifecycleChanged_TX_def
  by (simp add: Let_def split: list.split) blast

lemma SiteLifecycleChanged_TX_frame:
  "owner_rows t (fst (SiteLifecycleChanged_TX db i LC_ready)) = owner_rows t db
   \<and> TlsCertificates (fst (SiteLifecycleChanged_TX db i LC_ready)) = TlsCertificates db
   \<and> CertificateRequests (fst (SiteLifecycleChanged_TX db i LC_ready)) = CertificateRequests db"
  using SiteLifecycleChanged_TX_ready [of db i] evaluateSingleSite_TX_frame [of db]
  by (cases t) auto

lemma columns_set_ready:
  "columns (set_ready c i rows) =
     map (\<lambda>(k, l, old). if k = i then (k, Some LC_ready, Some c) else (k, l, old)) (columns rows)"
  by (simp add: columns_def set_ready_def)

lemma update_Certificate_frame:
  "owner_rows t (update_Certificate t c i db) =
     map (\<lambda>(k, l, old). if k = i then (k, Some LC_ready, Some c) else (k, l, old)) (owner_rows t db)
   \<and> TlsCertificates (update_Certificate t c i db) = TlsCertificates db
   \<and> CertificateRequests (update_Certificate t c i db) = CertificateRequests db"
  by (cases t) (simp_all add: columns_set_ready)

lemma owner_rows_insert_TlsCertificate:
  "owner_rows t (insert_TlsCertificate c db) = owner_rows t db"
  by (cases t) (simp_all add: insert_TlsCertificate_def)

lemma owner_rows_delete_CertificateRequest:
  "owner_rows t (delete_CertificateRequest k db) = owner_rows t db"
  by (cases t) (simp_all add: delete_CertificateRequest_def)

lemma notify_events:
  "snd (notify e dblink t) \<noteq> [] \<Longrightarrow> EV_COMMIT \<notin> set (snd (notify e dblink t))"
  by (auto simp add: notify_def Let_def split: option.splits if_splits list.splits)

lemma notify_member:
  "\<not> alertSiteCertChanged t \<Longrightarrow> \<not> alertAccessCertChanged t \<Longrightarrow> alertMemberCompletion t \<Longrightarrow>
   snd (notify e dblink t) = [EV_CompleteMember (ref_id t)]"
  by (simp add: notify_def)

lemma resolve_target_MemberSites:
  "resolve_target r = Inr t \<Longrightarrow> ref_table t = T_MemberSites \<Longrightarrow>
   \<not> alertSiteCertChanged t \<and> \<not> alertAccessCertChanged t \<and> alertMemberCompletion t \<and> \<not> is_ca t"
  by (auto simp add: resolve_target_def new_target_def split: if_splits)

lemma onSecretWatch_not_added:
  "action \<noteq> ''ADDED'' \<Longrightarrow> onSecretWatch e action s db = (db, [])"
  by (simp add: onSecretWatch_def)

lemma onSecretWatch_not_controlled:
  "\<forall>anno. annotations s = Some anno \<longrightarrow>
     map_of anno ''skupper.io/skupperx-controlled'' \<noteq> Some ''true'' \<Longrightarrow>
   onSecretWatch e action s db = (db, [])"
  by (simp add: onSecretWatch_def split: option.split)

lemma onSecretWatch_no_dblink:
  "\<forall>anno. annotations s = Some anno \<longrightarrow>
     map_of anno ''skupper.io/skx-dblink'' = None \<or> map_of anno ''skupper.io/skx-dblink'' = Some [] \<Longrightarrow>
   onSecretWatch e action s db = (db, [])"
  by (auto simp add: onSecretWatch_def split: option.split)

text \<open>
  C4.  Let the watch deliver \<^verbatim>\<open>ADDED\<close> for a secret that this controller controls
  (annotation \<open>skupper.io/skupperx-controlled\<close> is \<open>true\<close>) and whose annotation
  \<open>skupper.io/skx-dblink\<close> is \<open>dblink\<close>, the id of exactly one certificate request; let
  the owner of the request (its first non-null reference) be a row of its table, the
  certificate object of the secret's name be loadable and, for a certificate authority,
  the issuer object be applied without error.  Then \<open>onSecretWatch\<close> finalizes the
  request in one transaction: it commits once, and the committed database has one more
  row in TlsCertificates, whose id is \<open>dblink\<close> and whose SignedBy is the annotation
  \<open>skupper.io/skx-issuerlink\<close> of the secret, or NULL when that annotation is \<open>root\<close>
  (or missing); the owner's row has Lifecycle \<open>ready\<close> and Certificate \<open>dblink\<close>, every
  other row of that table keeps its lifecycle and certificate; and the request is
  deleted.  No \<open>ROLLBACK\<close> precedes the \<open>COMMIT\<close>.  When the owner is a member site,
  the first three events are \<open>LoadCertificate\<close>, \<open>COMMIT\<close> and then \<open>CompleteMember\<close> of
  the member site, in this order.  (Any other event of the watch, and a secret that is
  not controlled or has no \<open>skx-dblink\<close>, is ignored: the three lemmas above.)
\<close>

theorem onSecretWatch_finalizes:
  assumes request: "[r \<leftarrow> CertificateRequests db. id' r = dblink] = [cert_request]"
    and owner: "resolve_target cert_request = Inr t"
    and owner_row: "select_name (ref_table t) (ref_id t) db = owner_name # others"
    and loaded: "load_certificate e (secret_name s) = Inr cert_status"
    and anno: "annotations s = Some anno"
    and controlled: "map_of anno ''skupper.io/skupperx-controlled'' = Some ''true''"
    and link: "map_of anno ''skupper.io/skx-dblink'' = Some dblink"
    and link_text: "dblink \<noteq> []"
    and applied: "is_ca t \<Longrightarrow>
      cert_raises e (EV_ApplyObject_Issuer (secret_name s) (map_of anno ''skupper.io/skx-dblink'')) = None"
  shows "\<exists>c before after.
      TlsCertificates (fst (onSecretWatch e ''ADDED'' s db)) = TlsCertificates db @ [c]
    \<and> id' c = dblink
    \<and> signedby c = (if map_of anno ''skupper.io/skx-issuerlink'' = Some ''root'' then None
                     else map_of anno ''skupper.io/skx-issuerlink'')
    \<and> isca c = Some (is_ca t) \<and> objectname c = Some (secret_name s)
    \<and> expiration c = notAfter cert_status \<and> renewaltime c = renewalTime cert_status
    \<and> owner_rows (ref_table t) (fst (onSecretWatch e ''ADDED'' s db)) =
        map (\<lambda>(k, l, old). if k = ref_id t then (k, Some LC_ready, Some dblink) else (k, l, old))
          (owner_rows (ref_table t) db)
    \<and> CertificateRequests (fst (onSecretWatch e ''ADDED'' s db)) =
        [r \<leftarrow> CertificateRequests db. id' r \<noteq> dblink]
    \<and> snd (onSecretWatch e ''ADDED'' s db) = before @ [EV_COMMIT] @ after
    \<and> EV_COMMIT \<notin> set before \<and> EV_ROLLBACK \<notin> set before \<and> EV_COMMIT \<notin> set after
    \<and> (ref_table t = T_MemberSites \<longrightarrow>
         take 3 (snd (onSecretWatch e ''ADDED'' s db)) =
           [EV_LoadCertificate (secret_name s), EV_COMMIT, EV_CompleteMember (ref_id t)])"
proof -
  define signed_by where "signed_by = map_of anno ''skupper.io/skx-issuerlink''"
  define c where "c = \<lparr>id' = dblink, isca = Some (is_ca t), objectname = Some (secret_name s),
     signedby = (if signed_by = Some ''root'' then None else signed_by),
     expiration = notAfter cert_status, renewaltime = renewalTime cert_status,
     label = Some (ref_label t @ '': '' @ (case owner_name of None \<Rightarrow> ''null'' | Some n \<Rightarrow> n))\<rparr>"
  define db3 where "db3 = delete_CertificateRequest dblink
     (update_Certificate (ref_table t) dblink (ref_id t) (insert_TlsCertificate c db))"
  define db4 where "db4 = (if alertSiteCertChanged t
     then fst (SiteLifecycleChanged_TX db3 (ref_id t) LC_ready) else db3)"
  define before where "before = EV_LoadCertificate (secret_name s) #
     (if is_ca t then [EV_ApplyObject_Issuer (secret_name s) (map_of anno ''skupper.io/skx-dblink'')]
      else [])"
  have fin: "finalize e dblink s cert_request db = (Inr (db4, t), before)"
    using applied
    by (simp add: finalize_def owner owner_row loaded anno Let_def db4_def db3_def c_def
        signed_by_def before_def)
  obtain failed after where n: "notify e dblink t = (failed, after)"
    by (cases "notify e dblink t")
  have watch: "onSecretWatch e ''ADDED'' s db = secretAdded e dblink s db"
    by (simp add: onSecretWatch_def anno controlled link link_text)
  have db': "fst (onSecretWatch e ''ADDED'' s db) = db4"
    unfolding watch by (simp add: secretAdded_def request fin n split: option.split)
  have evs: "snd (onSecretWatch e ''ADDED'' s db) =
      before @ [EV_COMMIT] @ (after @ (case failed of None \<Rightarrow> [] | Some err \<Rightarrow> [EV_ROLLBACK]))"
    unfolding watch by (simp add: secretAdded_def request fin n split: option.split)
  have tls3: "TlsCertificates db3 = TlsCertificates db @ [c]"
    by (simp add: db3_def delete_CertificateRequest_def update_Certificate_frame
        insert_TlsCertificate_def)
  have req3: "CertificateRequests db3 = [r \<leftarrow> CertificateRequests db. id' r \<noteq> dblink]"
    by (simp add: db3_def delete_CertificateRequest_def update_Certificate_frame
        insert_TlsCertificate_def)
  have own3: "owner_rows (ref_table t) db3 =
      map (\<lambda>(k, l, old). if k = ref_id t then (k, Some LC_ready, Some dblink) else (k, l, old))
        (owner_rows (ref_table t) db)"
    by (simp add: db3_def owner_rows_delete_CertificateRequest update_Certificate_frame
        owner_rows_insert_TlsCertificate)
  have tls4: "TlsCertificates db4 = TlsCertificates db @ [c]"
    by (simp add: db4_def tls3 SiteLifecycleChanged_TX_frame [where t = "ref_table t"])
  have req4: "CertificateRequests db4 = [r \<leftarrow> CertificateRequests db. id' r \<noteq> dblink]"
    by (simp add: db4_def req3 SiteLifecycleChanged_TX_frame [where t = "ref_table t"])
  have own4: "owner_rows (ref_table t) db4 =
      map (\<lambda>(k, l, old). if k = ref_id t then (k, Some LC_ready, Some dblink) else (k, l, old))
        (owner_rows (ref_table t) db)"
    by (simp add: db4_def own3 SiteLifecycleChanged_TX_frame)
  have after: "EV_COMMIT \<notin> set after"
    using notify_events [of e dblink t] by (cases "after = []") (simp_all add: n)
  have after': "EV_COMMIT \<notin> set (after @ (case failed of None \<Rightarrow> [] | Some err \<Rightarrow> [EV_ROLLBACK]))"
    using after by (simp split: option.split)
  have before: "EV_COMMIT \<notin> set before \<and> EV_ROLLBACK \<notin> set before"
    by (simp add: before_def)
  have member: "take 3 (snd (onSecretWatch e ''ADDED'' s db)) =
      [EV_LoadCertificate (secret_name s), EV_COMMIT, EV_CompleteMember (ref_id t)]"
    if m: "ref_table t = T_MemberSites"
  proof -
    note r = resolve_target_MemberSites [OF owner m]
    have "after = [EV_CompleteMember (ref_id t)]"
      using notify_member [of t e dblink] r by (simp add: n)
    then show ?thesis
      using r by (simp add: evs before_def)
  qed
  show ?thesis
  proof (intro exI conjI)
    show "TlsCertificates (fst (onSecretWatch e ''ADDED'' s db)) = TlsCertificates db @ [c]"
      by (simp only: db' tls4)
    show "id' c = dblink" by (simp add: c_def)
    show "signedby c = (if map_of anno ''skupper.io/skx-issuerlink'' = Some ''root'' then None
                     else map_of anno ''skupper.io/skx-issuerlink'')"
      by (simp add: c_def signed_by_def)
    show "isca c = Some (is_ca t)" by (simp add: c_def)
    show "objectname c = Some (secret_name s)" by (simp add: c_def)
    show "expiration c = notAfter cert_status" by (simp add: c_def)
    show "renewaltime c = renewalTime cert_status" by (simp add: c_def)
    show "owner_rows (ref_table t) (fst (onSecretWatch e ''ADDED'' s db)) =
        map (\<lambda>(k, l, old). if k = ref_id t then (k, Some LC_ready, Some dblink) else (k, l, old))
          (owner_rows (ref_table t) db)"
      by (simp only: db' own4)
    show "CertificateRequests (fst (onSecretWatch e ''ADDED'' s db)) =
        [r \<leftarrow> CertificateRequests db. id' r \<noteq> dblink]"
      by (simp only: db' req4)
    show "snd (onSecretWatch e ''ADDED'' s db) = before @ [EV_COMMIT] @
        (after @ (case failed of None \<Rightarrow> [] | Some err \<Rightarrow> [EV_ROLLBACK]))"
      by (rule evs)
    show "EV_COMMIT \<notin> set before" using before by simp
    show "EV_ROLLBACK \<notin> set before" using before by simp
    show "EV_COMMIT \<notin> set (after @ (case failed of None \<Rightarrow> [] | Some err \<Rightarrow> [EV_ROLLBACK]))"
      by (rule after')
    show "ref_table t = T_MemberSites \<longrightarrow>
         take 3 (snd (onSecretWatch e ''ADDED'' s db)) =
           [EV_LoadCertificate (secret_name s), EV_COMMIT, EV_CompleteMember (ref_id t)]"
      using member by simp
  qed
qed

theorem onSecretWatch_finalizes_witness:
  "\<exists>c before after.
      TlsCertificates (fst (onSecretWatch cluster_env ''ADDED'' member_secret member_db)) = [c]
    \<and> id' c = ''cr7'' \<and> signedby c = Some ''van1''
    \<and> owner_rows T_MemberSites (fst (onSecretWatch cluster_env ''ADDED'' member_secret member_db)) =
        [(''m1'', Some LC_ready, Some ''cr7'')]
    \<and> CertificateRequests (fst (onSecretWatch cluster_env ''ADDED'' member_secret member_db)) = []
    \<and> take 3 (snd (onSecretWatch cluster_env ''ADDED'' member_secret member_db)) =
        [EV_LoadCertificate ''skx-member-cr7'', EV_COMMIT, EV_CompleteMember ''m1'']"
proof -
  define t where
    "t = (new_target T_MemberSites (Some ''m1'') ''Member Site'')\<lparr>alertMemberCompletion := True\<rparr>"
  define anno where "anno = [(''skupper.io/skupperx-controlled'', ''true''),
       (''skupper.io/skx-dblink'', ''cr7''), (''skupper.io/skx-issuerlink'', ''van1'')]"
  have t: "ref_table t = T_MemberSites" "ref_id t = ''m1''" "is_ca t = False"
    by (simp_all add: t_def new_target_def)
  have request: "[r \<leftarrow> CertificateRequests member_db. id' r = ''cr7''] = [member_request]"
    by (simp add: member_db_def member_request_def blank_request_def empty_db_def)
  have owner: "resolve_target member_request = Inr t"
    by (simp add: resolve_target_def member_request_def blank_request_def present_def t_def)
  have owner_row: "select_name (ref_table t) (ref_id t) member_db = Some ''m-1'' # []"
    by (simp add: t member_db_def names_where_def empty_db_def)
  have loaded: "load_certificate cluster_env (secret_name member_secret) =
      Inr \<lparr>notAfter = Some 5000, renewalTime = Some 4000\<rparr>"
    by (simp add: cluster_env_def)
  have anno: "annotations member_secret = Some anno"
    by (simp add: member_secret_def anno_def)
  have applied: "cert_raises cluster_env (EV_ApplyObject_Issuer (secret_name member_secret)
        (map_of anno ''skupper.io/skx-dblink'')) = None"
    by (simp add: cluster_env_def)
  have controlled: "map_of anno ''skupper.io/skupperx-controlled'' = Some ''true''"
    by (simp add: anno_def)
  have link: "map_of anno ''skupper.io/skx-dblink'' = Some ''cr7''"
    by (simp add: anno_def)
  have link_text: "''cr7'' \<noteq> []"
    by simp
  have issuer: "map_of anno ''skupper.io/skx-issuerlink'' = Some ''van1''"
    by (simp add: anno_def)
  have before: "TlsCertificates member_db = []"
    "owner_rows T_MemberSites member_db = [(''m1'', Some LC_skx_cr_created, None)]"
    "[r \<leftarrow> CertificateRequests member_db. id' r \<noteq> ''cr7''] = []"
    "secret_name member_secret = ''skx-member-cr7''"
    by (simp_all add: member_db_def empty_db_def columns_def member_request_def blank_request_def
        member_secret_def)
  from onSecretWatch_finalizes [OF request owner owner_row loaded anno controlled link link_text applied]
  obtain c where c:
    "TlsCertificates (fst (onSecretWatch cluster_env ''ADDED'' member_secret member_db)) =
       TlsCertificates member_db @ [c]"
    "id' c = ''cr7''"
    "signedby c = (if map_of anno ''skupper.io/skx-issuerlink'' = Some ''root'' then None
                     else map_of anno ''skupper.io/skx-issuerlink'')"
    "owner_rows (ref_table t) (fst (onSecretWatch cluster_env ''ADDED'' member_secret member_db)) =
        map (\<lambda>(k, l, old). if k = ref_id t then (k, Some LC_ready, Some ''cr7'') else (k, l, old))
          (owner_rows (ref_table t) member_db)"
    "CertificateRequests (fst (onSecretWatch cluster_env ''ADDED'' member_secret member_db)) =
        [r \<leftarrow> CertificateRequests member_db. id' r \<noteq> ''cr7'']"
    "ref_table t = T_MemberSites \<longrightarrow>
       take 3 (snd (onSecretWatch cluster_env ''ADDED'' member_secret member_db)) =
         [EV_LoadCertificate (secret_name member_secret), EV_COMMIT, EV_CompleteMember (ref_id t)]"
    by (elim exE conjE) (rule that, assumption+)
  show ?thesis
  proof (intro exI conjI)
    show "TlsCertificates (fst (onSecretWatch cluster_env ''ADDED'' member_secret member_db)) = [c]"
      using c(1) by (simp only: before append_Nil)
    show "id' c = ''cr7''" by (rule c(2))
    show "signedby c = Some ''van1''" using c(3) by (simp only: issuer) simp
    show "owner_rows T_MemberSites (fst (onSecretWatch cluster_env ''ADDED'' member_secret member_db)) =
        [(''m1'', Some LC_ready, Some ''cr7'')]"
      using c(4) by (simp only: t before) simp
    show "CertificateRequests (fst (onSecretWatch cluster_env ''ADDED'' member_secret member_db)) = []"
      using c(5) by (simp only: before)
    show "take 3 (snd (onSecretWatch cluster_env ''ADDED'' member_secret member_db)) =
        [EV_LoadCertificate ''skx-member-cr7'', EV_COMMIT, EV_CompleteMember ''m1'']"
      using c(6) by (simp only: t before simp_thms)
  qed
qed

section \<open>The stored instance limit\<close>

text \<open>
  The certificate loops and the secret watch write the lifecycle and the certificate of
  an invitation, not its InstanceLimit: with \<open>createInvitation_stored_limit\<close> and
  \<open>processClaim_stored_limit\<close>, every statement of the model keeps the limits as
  \<^verbatim>\<open>createInvitation\<close> stored them.
\<close>

lemma reconciler_stored_limit:
  "map instancelimit (MemberInvitations (fst (reconciler k e db))) =
     map instancelimit (MemberInvitations db)"
proof (cases k)
  case K_ManagementControllers
  show ?thesis
    unfolding K_ManagementControllers
    by (auto simp add: processNewManagementControllers_def transaction_def
        processNewManagementControllers_try_def Let_def insert_CertificateRequest_def
        split: option.splits list.splits)
next
  case K_Backbones
  show ?thesis
    unfolding K_Backbones
    by (auto simp add: processNewBackbones_def transaction_def
        processNewBackbones_try_def Let_def insert_CertificateRequest_def
        split: option.splits list.splits)
next
  case K_AccessPoints
  show ?thesis
    unfolding K_AccessPoints
    by (auto simp add: processNewAccessPoints_def transaction_def
        processNewAccessPoints_try_def Let_def insert_CertificateRequest_def
        split: option.splits list.splits)
next
  case K_Networks
  show ?thesis
    unfolding K_Networks
    by (auto simp add: processNewNetworks_def transaction_def
        processNewNetworks_try_def Let_def insert_CertificateRequest_def
        split: option.splits list.splits)
next
  case K_InteriorSites
  show ?thesis
    unfolding K_InteriorSites
    by (auto simp add: processNewInteriorSites_def transaction_def
        processNewInteriorSites_try_def Let_def insert_CertificateRequest_def
        split: option.splits list.splits)
next
  case K_Invitations
  show ?thesis
    unfolding K_Invitations
    by (auto simp add: processNewInvitations_def transaction_def
        processNewInvitations_try_def Let_def insert_CertificateRequest_def set_lifecycle_def
        split: option.splits list.splits)
next
  case K_MemberSites
  show ?thesis
    unfolding K_MemberSites
    by (auto simp add: processNewMemberSites_def transaction_def
        processNewMemberSites_try_def Let_def insert_CertificateRequest_def
        split: option.splits list.splits)
next
  case K_NetworkCredentials
  show ?thesis
    unfolding K_NetworkCredentials
    by (auto simp add: processNewNetworkCredentials_def transaction_def
        processNewNetworkCredentials_try_def Let_def insert_CertificateRequest_def
        split: option.splits list.splits)
qed

lemma update_Certificate_limit:
  "map instancelimit (MemberInvitations (update_Certificate tbl c i db)) =
     map instancelimit (MemberInvitations db)"
  by (cases tbl) (simp_all add: set_ready_def comp_def)

lemma secretAdded_stored_limit:
  "map instancelimit (MemberInvitations (fst (secretAdded e dblink s db))) =
     map instancelimit (MemberInvitations db)"
proof -
  have site: "MemberInvitations (fst (SiteLifecycleChanged_TX d i LC_ready)) = MemberInvitations d"
    for d i
    using SiteLifecycleChanged_TX_ready [of d i] evaluateSingleSite_TX_frame [of d] by auto
  have fin: "map instancelimit (MemberInvitations db') = map instancelimit (MemberInvitations db)"
    if "finalize e dblink s cert_request db = (Inr (db', t), evs)" for cert_request db' t evs
    using that
    by (auto simp add: finalize_def Let_def site update_Certificate_limit
        delete_CertificateRequest_def insert_TlsCertificate_def
        split: sum.splits option.splits list.splits if_splits)
  show ?thesis
    using fin
    by (auto simp add: secretAdded_def split: list.splits sum.splits prod.splits option.splits)
qed

lemma onSecretWatch_stored_limit:
  "map instancelimit (MemberInvitations (fst (onSecretWatch e action s db))) =
     map instancelimit (MemberInvitations db)"
  by (simp add: onSecretWatch_def secretAdded_stored_limit split: option.split)

section \<open>Backbone links and the order of readiness\<close>

text \<open>
  The query itself does not look at the lifecycle of the backbone.  Where a ready access
  point belongs to a ready backbone, the rows it returns are those of the ready manage
  access points of ready backbones.
\<close>

lemma select_manage_access_ready:
  assumes "access_after_backbone db"
  shows "set (select_manage_access db) =
     {(ap, b). ap \<in> set (BackboneAccessPoints db) \<and> lifecycle ap = Some LC_ready \<and>
        kind ap = Some AP_manage \<and>
        (\<exists>s \<in> set (InteriorSites db). \<exists>bb \<in> set (Backbones db).
           interiorsite ap = Some (id' s) \<and> backbone s = Some (id' bb) \<and>
           lifecycle bb = Some LC_ready \<and> b = id' bb)}"
proof (rule set_eqI)
  fix x :: "access_point \<times> uuid"
  obtain ap b where x: "x = (ap, b)" by (cases x)
  have "(ap, b) \<in> set (select_manage_access db) \<longleftrightarrow>
      ap \<in> set (BackboneAccessPoints db) \<and> lifecycle ap = Some LC_ready \<and>
      kind ap = Some AP_manage \<and>
      (\<exists>s \<in> set (InteriorSites db). \<exists>bb \<in> set (Backbones db).
         interiorsite ap = Some (id' s) \<and> backbone s = Some (id' bb) \<and> b = id' bb)"
    using select_manage_access_set [of db] by simp
  also have "\<dots> \<longleftrightarrow>
      ap \<in> set (BackboneAccessPoints db) \<and> lifecycle ap = Some LC_ready \<and>
      kind ap = Some AP_manage \<and>
      (\<exists>s \<in> set (InteriorSites db). \<exists>bb \<in> set (Backbones db).
         interiorsite ap = Some (id' s) \<and> backbone s = Some (id' bb) \<and>
         lifecycle bb = Some LC_ready \<and> b = id' bb)"
    using assms unfolding access_after_backbone_def by blast
  finally show "x \<in> set (select_manage_access db) \<longleftrightarrow>
      x \<in> {(ap, b). ap \<in> set (BackboneAccessPoints db) \<and> lifecycle ap = Some LC_ready \<and>
        kind ap = Some AP_manage \<and>
        (\<exists>s \<in> set (InteriorSites db). \<exists>bb \<in> set (Backbones db).
           interiorsite ap = Some (id' s) \<and> backbone s = Some (id' bb) \<and>
           lifecycle bb = Some LC_ready \<and> b = id' bb)}"
    unfolding x by simp
qed

text \<open>
  The certificate loops and the secret watch keep \<open>backbones_first\<close>, and with it
  \<open>access_after_backbone\<close>.
\<close>

lemma primary_key_row:
  "distinct (map f xs) \<Longrightarrow> x \<in> set xs \<Longrightarrow> y \<in> set xs \<Longrightarrow> f x = f y \<Longrightarrow> x = y"
  by (simp add: distinct_map inj_on_def)

lemma backed_step:
  assumes "backed db i"
    and B: "\<forall>bb' \<in> set (Backbones db'). \<exists>bb \<in> set (Backbones db). id' bb = id' bb' \<and>
          (lifecycle bb = Some LC_ready \<longrightarrow> lifecycle bb' = Some LC_ready)"
    and S: "\<forall>s' \<in> set (InteriorSites db'). \<exists>s \<in> set (InteriorSites db).
          id' s = id' s' \<and> backbone s = backbone s'"
    and A: "\<forall>ap' \<in> set (BackboneAccessPoints db'). \<exists>ap \<in> set (BackboneAccessPoints db).
          id' ap = id' ap' \<and> interiorsite ap = interiorsite ap'"
  shows "backed db' i"
  unfolding backed_def
proof (intro ballI impI)
  fix ap' s' bb'
  assume in': "ap' \<in> set (BackboneAccessPoints db')" "s' \<in> set (InteriorSites db')"
    "bb' \<in> set (Backbones db')"
    and j: "id' ap' = i \<and> interiorsite ap' = Some (id' s') \<and> backbone s' = Some (id' bb')"
  obtain ap where ap: "ap \<in> set (BackboneAccessPoints db)" "id' ap = id' ap'"
      "interiorsite ap = interiorsite ap'"
    using A in'(1) by blast
  obtain s where s: "s \<in> set (InteriorSites db)" "id' s = id' s'" "backbone s = backbone s'"
    using S in'(2) by blast
  obtain bb where bb: "bb \<in> set (Backbones db)" "id' bb = id' bb'"
      "lifecycle bb = Some LC_ready \<longrightarrow> lifecycle bb' = Some LC_ready"
    using B in'(3) by blast
  have "lifecycle bb = Some LC_ready"
    using assms(1) ap s bb(1,2) j unfolding backed_def by auto
  then show "lifecycle bb' = Some LC_ready"
    using bb(3) by simp
qed

lemma backbones_first_step:
  assumes inv: "backbones_first db"
    and bb_ids: "map id' (Backbones db') = map id' (Backbones db)"
    and site_ids: "map id' (InteriorSites db') = map id' (InteriorSites db)"
    and ap_ids: "map id' (BackboneAccessPoints db') = map id' (BackboneAccessPoints db)"
    and B: "\<forall>bb' \<in> set (Backbones db'). \<exists>bb \<in> set (Backbones db). id' bb = id' bb' \<and>
          (lifecycle bb = Some LC_ready \<longrightarrow> lifecycle bb' = Some LC_ready)"
    and S: "\<forall>s' \<in> set (InteriorSites db'). \<exists>s \<in> set (InteriorSites db).
          id' s = id' s' \<and> backbone s = backbone s'"
    and A: "\<forall>ap' \<in> set (BackboneAccessPoints db'). \<exists>ap \<in> set (BackboneAccessPoints db).
          id' ap = id' ap' \<and> interiorsite ap = interiorsite ap' \<and>
          (lifecycle ap' = Some LC_ready \<longrightarrow> lifecycle ap = Some LC_ready \<or> backed db (id' ap))"
    and R: "\<forall>cr \<in> set (CertificateRequests db'). cr \<in> set (CertificateRequests db) \<or>
          (case resolve_target cr of
             Inl err \<Rightarrow> True
           | Inr t \<Rightarrow> ref_table t = T_BackboneAccessPoints \<longrightarrow> backed db (ref_id t))"
  shows "backbones_first db'"
proof -
  have A': "\<forall>ap' \<in> set (BackboneAccessPoints db'). \<exists>ap \<in> set (BackboneAccessPoints db).
          id' ap = id' ap' \<and> interiorsite ap = interiorsite ap'"
    using A by blast
  have keep: "backed db' i" if "backed db i" for i
    using that B S A' by (rule backed_step)
  have pk: "primary_keys db'"
    using inv by (simp add: backbones_first_def primary_keys_def bb_ids site_ids ap_ids)
  have acc: "access_after_backbone db'"
    unfolding access_after_backbone_def
  proof (intro ballI impI)
    fix ap' s' bb'
    assume in': "ap' \<in> set (BackboneAccessPoints db')" "s' \<in> set (InteriorSites db')"
      "bb' \<in> set (Backbones db')"
      and j: "lifecycle ap' = Some LC_ready \<and> interiorsite ap' = Some (id' s') \<and>
        backbone s' = Some (id' bb')"
    obtain ap where ap: "ap \<in> set (BackboneAccessPoints db)" "id' ap = id' ap'"
        "interiorsite ap = interiorsite ap'"
        "lifecycle ap = Some LC_ready \<or> backed db (id' ap)"
      using A in'(1) j by blast
    obtain s where s: "s \<in> set (InteriorSites db)" "id' s = id' s'" "backbone s = backbone s'"
      using S in'(2) by blast
    obtain bb where bb: "bb \<in> set (Backbones db)" "id' bb = id' bb'"
        "lifecycle bb = Some LC_ready \<longrightarrow> lifecycle bb' = Some LC_ready"
      using B in'(3) by blast
    have joined: "interiorsite ap = Some (id' s) \<and> backbone s = Some (id' bb)"
      using ap s bb j by simp
    have "lifecycle bb = Some LC_ready"
      using ap(4)
    proof
      assume "lifecycle ap = Some LC_ready"
      then show ?thesis
        using inv ap(1) s(1) bb(1) joined
        unfolding backbones_first_def access_after_backbone_def by blast
    next
      assume "backed db (id' ap)"
      then show ?thesis
        using ap(1) s(1) bb(1) joined unfolding backed_def by blast
    qed
    then show "lifecycle bb' = Some LC_ready"
      using bb(3) by simp
  qed
  have req: "requests_after_backbone db'"
    unfolding requests_after_backbone_def
  proof (intro ballI)
    fix cr
    assume cr: "cr \<in> set (CertificateRequests db')"
    show "case resolve_target cr of
            Inl err \<Rightarrow> True
          | Inr t \<Rightarrow> ref_table t = T_BackboneAccessPoints \<longrightarrow> backed db' (ref_id t)"
    proof (cases "resolve_target cr")
      case (Inl err)
      then show ?thesis by simp
    next
      case (Inr t)
      have "ref_table t = T_BackboneAccessPoints \<longrightarrow> backed db (ref_id t)"
        using R [rule_format, OF cr] inv Inr
        unfolding backbones_first_def requests_after_backbone_def
        by (auto split: sum.splits)
      then show ?thesis
        using Inr keep by simp
    qed
  qed
  show ?thesis
    using pk acc req by (simp add: backbones_first_def)
qed

lemma backbones_first_request:
  assumes inv: "backbones_first db"
    and tables: "Backbones db' = Backbones db" "InteriorSites db' = InteriorSites db"
      "BackboneAccessPoints db' = BackboneAccessPoints db"
    and reqs: "CertificateRequests db' = CertificateRequests db @ [cr]"
    and other: "case resolve_target cr of
                  Inl err \<Rightarrow> True | Inr t \<Rightarrow> ref_table t \<noteq> T_BackboneAccessPoints"
  shows "backbones_first db'"
proof (rule backbones_first_step [OF inv])
  show "\<forall>cr \<in> set (CertificateRequests db'). cr \<in> set (CertificateRequests db) \<or>
          (case resolve_target cr of
             Inl err \<Rightarrow> True
           | Inr t \<Rightarrow> ref_table t = T_BackboneAccessPoints \<longrightarrow> backed db (ref_id t))"
    using other by (auto simp add: reqs split: sum.splits)
qed (auto simp add: tables)

lemma blank_request_target:
  "resolve_target ((blank_request i ty c r h)\<lparr>managementcontroller := x\<rparr>) = Inr t \<Longrightarrow>
     ref_table t = T_ManagementControllers"
  "resolve_target ((blank_request i ty c r h)\<lparr>cr_backbone := x\<rparr>) = Inr t \<Longrightarrow>
     ref_table t = T_Backbones"
  "resolve_target ((blank_request i ty c r h)\<lparr>issuer := y, cr_interiorsite := x\<rparr>) = Inr t \<Longrightarrow>
     ref_table t = T_InteriorSites"
  "resolve_target ((blank_request i ty c r h)\<lparr>issuer := y, applicationnetwork := x\<rparr>) = Inr t \<Longrightarrow>
     ref_table t = T_ApplicationNetworks"
  "resolve_target ((blank_request i ty c r h)\<lparr>issuer := y, networkcredential := x\<rparr>) = Inr t \<Longrightarrow>
     ref_table t = T_NetworkCredentials"
  "resolve_target ((blank_request i ty c r h)\<lparr>issuer := y, cr_invitation := x\<rparr>) = Inr t \<Longrightarrow>
     ref_table t = T_MemberInvitations"
  "resolve_target ((blank_request i ty c r h)\<lparr>issuer := y, cr_site := x\<rparr>) = Inr t \<Longrightarrow>
     ref_table t = T_MemberSites"
  by (auto simp add: resolve_target_def blank_request_def present_def new_target_def
      split: if_splits)

lemma blank_request_access:
  "resolve_target ((blank_request i ty c r h)\<lparr>issuer := y, cr_hostname := z,
      cr_accesspoint := Some a\<rparr>) = Inr t \<Longrightarrow>
     ref_table t = T_BackboneAccessPoints \<and> ref_id t = a"
  by (auto simp add: resolve_target_def blank_request_def present_def new_target_def
      split: if_splits)

lemma request_not_access:
  "(\<And>t. resolve_target cr = Inr t \<Longrightarrow> ref_table t \<noteq> T_BackboneAccessPoints) \<Longrightarrow>
   (case resolve_target cr of Inl err \<Rightarrow> True | Inr t \<Rightarrow> ref_table t \<noteq> T_BackboneAccessPoints)"
  by (simp split: sum.split)

lemma reconciler_other_tables:
  assumes "k \<notin> {K_Backbones, K_InteriorSites, K_AccessPoints}"
  shows "fst (reconciler k e db) = db \<or>
     (Backbones (fst (reconciler k e db)) = Backbones db
      \<and> InteriorSites (fst (reconciler k e db)) = InteriorSites db
      \<and> BackboneAccessPoints (fst (reconciler k e db)) = BackboneAccessPoints db
      \<and> (\<exists>cr. CertificateRequests (fst (reconciler k e db)) = CertificateRequests db @ [cr]
            \<and> (case resolve_target cr of
                  Inl err \<Rightarrow> True | Inr t \<Rightarrow> ref_table t \<noteq> T_BackboneAccessPoints)))"
proof (cases k)
  case K_ManagementControllers
  show ?thesis
    unfolding K_ManagementControllers
    by (auto simp add: processNewManagementControllers_def transaction_def
        processNewManagementControllers_try_def Let_def insert_CertificateRequest_def
        split: option.splits list.splits intro!: request_not_access dest: blank_request_target)
next
  case K_Networks
  show ?thesis
    unfolding K_Networks
    by (auto simp add: processNewNetworks_def transaction_def
        processNewNetworks_try_def Let_def insert_CertificateRequest_def
        split: option.splits list.splits intro!: request_not_access dest: blank_request_target)
next
  case K_Invitations
  show ?thesis
    unfolding K_Invitations
    by (auto simp add: processNewInvitations_def transaction_def
        processNewInvitations_try_def Let_def insert_CertificateRequest_def
        split: option.splits list.splits intro!: request_not_access dest: blank_request_target)
next
  case K_MemberSites
  show ?thesis
    unfolding K_MemberSites
    by (auto simp add: processNewMemberSites_def transaction_def
        processNewMemberSites_try_def Let_def insert_CertificateRequest_def
        split: option.splits list.splits intro!: request_not_access dest: blank_request_target)
next
  case K_NetworkCredentials
  show ?thesis
    unfolding K_NetworkCredentials
    by (auto simp add: processNewNetworkCredentials_def transaction_def
        processNewNetworkCredentials_try_def Let_def insert_CertificateRequest_def
        split: option.splits list.splits intro!: request_not_access dest: blank_request_target)
qed (use assms in simp_all)

lemma set_lifecycle_row:
  "x' \<in> set (set_lifecycle lc i rows) \<Longrightarrow>
   \<exists>x \<in> set rows. x' = (if id' x = i then x\<lparr>lifecycle := Some lc\<rparr> else x)"
  by (auto simp add: set_lifecycle_def)

lemma map_id_set_lifecycle: "map id' (set_lifecycle lc i rows) = map id' rows"
  by (simp add: set_lifecycle_def)

lemma take_1_member: "take 1 xs = [x] \<Longrightarrow> x \<in> set xs"
  by (cases xs) auto

lemma processNewBackbones_backbones_first:
  assumes inv: "backbones_first db"
  shows "backbones_first (fst (processNewBackbones e db))"
proof (cases "\<exists>r. env_fault e = None \<and> select_new_Backbones db = [r]")
  case False
  then have "fst (processNewBackbones e db) = db"
    by (auto simp add: processNewBackbones_def transaction_def processNewBackbones_try_def
        split: option.splits list.splits)
  then show ?thesis
    using inv by simp
next
  case True
  then obtain r where r: "env_fault e = None" "select_new_Backbones db = [r]"
    by blast
  define cr where "cr = (blank_request (env_new_id e) CR_backboneCA (Some (env_now e))
      (Some (env_now e)) (hours_of (IntervalMilliseconds (backbonecaexpiration (env_config e)))))
      \<lparr>cr_backbone := Some (id' r)\<rparr>"
  define db' where "db' = (insert_CertificateRequest cr db)
      \<lparr>Backbones := set_lifecycle LC_skx_cr_created (id' r) (Backbones db)\<rparr>"
  have res: "fst (processNewBackbones e db) = db'"
    by (simp add: processNewBackbones_def transaction_def processNewBackbones_try_def r Let_def
        db'_def cr_def insert_CertificateRequest_def)
  have row: "r \<in> set (Backbones db)" "lifecycle r = Some LC_new"
    using take_1_member [of "[r \<leftarrow> Backbones db. lifecycle r = Some LC_new]" r] r(2)
    by (simp_all add: select_new_Backbones_def)
  have pk: "distinct (map id' (Backbones db))"
    using inv by (simp add: backbones_first_def primary_keys_def)
  have "backbones_first db'"
  proof (rule backbones_first_step [OF inv])
    show "map id' (Backbones db') = map id' (Backbones db)"
      by (simp add: db'_def map_id_set_lifecycle)
    show "map id' (InteriorSites db') = map id' (InteriorSites db)"
      by (simp add: db'_def insert_CertificateRequest_def)
    show "map id' (BackboneAccessPoints db') = map id' (BackboneAccessPoints db)"
      by (simp add: db'_def insert_CertificateRequest_def)
    show "\<forall>bb' \<in> set (Backbones db'). \<exists>bb \<in> set (Backbones db). id' bb = id' bb' \<and>
          (lifecycle bb = Some LC_ready \<longrightarrow> lifecycle bb' = Some LC_ready)"
    proof
      fix bb'
      assume "bb' \<in> set (Backbones db')"
      then obtain bb where bb: "bb \<in> set (Backbones db)"
          "bb' = (if id' bb = id' r then bb\<lparr>lifecycle := Some LC_skx_cr_created\<rparr> else bb)"
        using set_lifecycle_row [of bb' LC_skx_cr_created "id' r" "Backbones db"]
        by (auto simp add: db'_def)
      have "id' bb = id' r \<Longrightarrow> bb = r"
        using primary_key_row [OF pk bb(1) row(1)] by simp
      then have "lifecycle bb = Some LC_ready \<longrightarrow> lifecycle bb' = Some LC_ready"
        using bb(2) row(2) by auto
      moreover have "id' bb = id' bb'"
        using bb(2) by simp
      ultimately show "\<exists>bb \<in> set (Backbones db). id' bb = id' bb' \<and>
          (lifecycle bb = Some LC_ready \<longrightarrow> lifecycle bb' = Some LC_ready)"
        using bb(1) by blast
    qed
    show "\<forall>s' \<in> set (InteriorSites db'). \<exists>s \<in> set (InteriorSites db).
          id' s = id' s' \<and> backbone s = backbone s'"
      by (auto simp add: db'_def insert_CertificateRequest_def)
    show "\<forall>ap' \<in> set (BackboneAccessPoints db'). \<exists>ap \<in> set (BackboneAccessPoints db).
          id' ap = id' ap' \<and> interiorsite ap = interiorsite ap' \<and>
          (lifecycle ap' = Some LC_ready \<longrightarrow> lifecycle ap = Some LC_ready \<or> backed db (id' ap))"
      by (auto simp add: db'_def insert_CertificateRequest_def)
    show "\<forall>cr \<in> set (CertificateRequests db'). cr \<in> set (CertificateRequests db) \<or>
          (case resolve_target cr of
             Inl err \<Rightarrow> True
           | Inr t \<Rightarrow> ref_table t = T_BackboneAccessPoints \<longrightarrow> backed db (ref_id t))"
      by (auto simp add: db'_def insert_CertificateRequest_def cr_def
          split: sum.splits dest: blank_request_target)
  qed
  then show ?thesis
    by (simp add: res)
qed

lemma processNewInteriorSites_backbones_first:
  assumes inv: "backbones_first db"
  shows "backbones_first (fst (processNewInteriorSites e db))"
proof (cases "\<exists>r bbca. env_fault e = None \<and> select_new_InteriorSites db = [(r, bbca)]")
  case False
  then have "fst (processNewInteriorSites e db) = db"
    by (auto simp add: processNewInteriorSites_def transaction_def processNewInteriorSites_try_def
        split: option.splits list.splits)
  then show ?thesis
    using inv by simp
next
  case True
  then obtain r bbca where r: "env_fault e = None" "select_new_InteriorSites db = [(r, bbca)]"
    by blast
  define cr where "cr = (blank_request (env_new_id e) CR_interiorRouter (Some (env_now e))
      (Some (env_now e)) (hours_of (IntervalMilliseconds (defaultcertexpiration (env_config e)))))
      \<lparr>issuer := bbca, cr_interiorsite := Some (id' r)\<rparr>"
  define db' where "db' = (insert_CertificateRequest cr db)
      \<lparr>InteriorSites := set_lifecycle LC_skx_cr_created (id' r) (InteriorSites db)\<rparr>"
  have res: "fst (processNewInteriorSites e db) = db'"
    by (simp add: processNewInteriorSites_def transaction_def processNewInteriorSites_try_def r
        Let_def db'_def cr_def insert_CertificateRequest_def)
  have "backbones_first db'"
  proof (rule backbones_first_step [OF inv])
    show "map id' (Backbones db') = map id' (Backbones db)"
      by (simp add: db'_def insert_CertificateRequest_def)
    show "map id' (InteriorSites db') = map id' (InteriorSites db)"
      by (simp add: db'_def map_id_set_lifecycle)
    show "map id' (BackboneAccessPoints db') = map id' (BackboneAccessPoints db)"
      by (simp add: db'_def insert_CertificateRequest_def)
    show "\<forall>bb' \<in> set (Backbones db'). \<exists>bb \<in> set (Backbones db). id' bb = id' bb' \<and>
          (lifecycle bb = Some LC_ready \<longrightarrow> lifecycle bb' = Some LC_ready)"
      by (auto simp add: db'_def insert_CertificateRequest_def)
    show "\<forall>s' \<in> set (InteriorSites db'). \<exists>s \<in> set (InteriorSites db).
          id' s = id' s' \<and> backbone s = backbone s'"
    proof
      fix s'
      assume "s' \<in> set (InteriorSites db')"
      then obtain s where s: "s \<in> set (InteriorSites db)"
          "s' = (if id' s = id' r then s\<lparr>lifecycle := Some LC_skx_cr_created\<rparr> else s)"
        using set_lifecycle_row [of s' LC_skx_cr_created "id' r" "InteriorSites db"]
        by (auto simp add: db'_def)
      have "id' s = id' s' \<and> backbone s = backbone s'"
        using s(2) by simp
      then show "\<exists>s \<in> set (InteriorSites db). id' s = id' s' \<and> backbone s = backbone s'"
        using s(1) by blast
    qed
    show "\<forall>ap' \<in> set (BackboneAccessPoints db'). \<exists>ap \<in> set (BackboneAccessPoints db).
          id' ap = id' ap' \<and> interiorsite ap = interiorsite ap' \<and>
          (lifecycle ap' = Some LC_ready \<longrightarrow> lifecycle ap = Some LC_ready \<or> backed db (id' ap))"
      by (auto simp add: db'_def insert_CertificateRequest_def)
    show "\<forall>cr \<in> set (CertificateRequests db'). cr \<in> set (CertificateRequests db) \<or>
          (case resolve_target cr of
             Inl err \<Rightarrow> True
           | Inr t \<Rightarrow> ref_table t = T_BackboneAccessPoints \<longrightarrow> backed db (ref_id t))"
      by (auto simp add: db'_def insert_CertificateRequest_def cr_def
          split: sum.splits dest: blank_request_target)
  qed
  then show ?thesis
    by (simp add: res)
qed

lemma select_new_AccessPoints_row:
  assumes "select_new_AccessPoints db = [(r, bbca)]"
  shows "r \<in> set (BackboneAccessPoints db) \<and> lifecycle r = Some LC_new \<and>
    (\<exists>s \<in> set (InteriorSites db). \<exists>bb \<in> set (Backbones db).
       interiorsite r = Some (id' s) \<and> backbone s = Some (id' bb) \<and>
       lifecycle bb = Some LC_ready)"
proof -
  have "(r, bbca) \<in> set [(ap, certificate bb). ap \<leftarrow> BackboneAccessPoints db,
      s \<leftarrow> InteriorSites db, bb \<leftarrow> Backbones db,
      interiorsite ap = Some (id' s), backbone s = Some (id' bb),
      lifecycle ap = Some LC_new \<and> lifecycle bb = Some LC_ready]"
    using assms unfolding select_new_AccessPoints_def by (rule take_1_member)
  then show ?thesis
    by (auto split: if_splits)
qed

lemma processNewAccessPoints_backbones_first:
  assumes inv: "backbones_first db"
  shows "backbones_first (fst (processNewAccessPoints e db))"
proof (cases "\<exists>r bbca. env_fault e = None \<and> select_new_AccessPoints db = [(r, bbca)]")
  case False
  then have "fst (processNewAccessPoints e db) = db"
    by (auto simp add: processNewAccessPoints_def transaction_def processNewAccessPoints_try_def
        split: option.splits list.splits)
  then show ?thesis
    using inv by simp
next
  case True
  then obtain r bbca where r: "env_fault e = None" "select_new_AccessPoints db = [(r, bbca)]"
    by blast
  define cr where "cr = (blank_request (env_new_id e) CR_accessPoint (Some (env_now e))
      (Some (env_now e)) (hours_of (IntervalMilliseconds (defaultcaexpiration (env_config e)))))
      \<lparr>issuer := bbca, cr_hostname := hostname r, cr_accesspoint := Some (id' r)\<rparr>"
  define db' where "db' = (insert_CertificateRequest cr db)
      \<lparr>BackboneAccessPoints := set_lifecycle LC_skx_cr_created (id' r) (BackboneAccessPoints db)\<rparr>"
  have res: "fst (processNewAccessPoints e db) = db'"
    by (simp add: processNewAccessPoints_def transaction_def processNewAccessPoints_try_def r
        Let_def db'_def cr_def insert_CertificateRequest_def)
  obtain s0 bb0 where row: "r \<in> set (BackboneAccessPoints db)"
      "s0 \<in> set (InteriorSites db)" "bb0 \<in> set (Backbones db)"
      "interiorsite r = Some (id' s0)" "backbone s0 = Some (id' bb0)"
      "lifecycle bb0 = Some LC_ready"
    using select_new_AccessPoints_row [OF r(2)] by blast
  have pk: "distinct (map id' (Backbones db))" "distinct (map id' (InteriorSites db))"
      "distinct (map id' (BackboneAccessPoints db))"
    using inv by (simp_all add: backbones_first_def primary_keys_def)
  have backed: "backed db (id' r)"
    unfolding backed_def
  proof (intro ballI impI)
    fix ap s bb
    assume m: "ap \<in> set (BackboneAccessPoints db)" "s \<in> set (InteriorSites db)"
      "bb \<in> set (Backbones db)"
      and j: "id' ap = id' r \<and> interiorsite ap = Some (id' s) \<and> backbone s = Some (id' bb)"
    have "ap = r"
      using primary_key_row [OF pk(3) m(1) row(1)] j by simp
    then have "s = s0"
      using primary_key_row [OF pk(2) m(2) row(2)] j row(4) by simp
    then have "bb = bb0"
      using primary_key_row [OF pk(1) m(3) row(3)] j row(5) by simp
    then show "lifecycle bb = Some LC_ready"
      using row(6) by simp
  qed
  have "backbones_first db'"
  proof (rule backbones_first_step [OF inv])
    show "map id' (Backbones db') = map id' (Backbones db)"
      by (simp add: db'_def insert_CertificateRequest_def)
    show "map id' (InteriorSites db') = map id' (InteriorSites db)"
      by (simp add: db'_def insert_CertificateRequest_def)
    show "map id' (BackboneAccessPoints db') = map id' (BackboneAccessPoints db)"
      by (simp add: db'_def map_id_set_lifecycle)
    show "\<forall>bb' \<in> set (Backbones db'). \<exists>bb \<in> set (Backbones db). id' bb = id' bb' \<and>
          (lifecycle bb = Some LC_ready \<longrightarrow> lifecycle bb' = Some LC_ready)"
      by (auto simp add: db'_def insert_CertificateRequest_def)
    show "\<forall>s' \<in> set (InteriorSites db'). \<exists>s \<in> set (InteriorSites db).
          id' s = id' s' \<and> backbone s = backbone s'"
      by (auto simp add: db'_def insert_CertificateRequest_def)
    show "\<forall>ap' \<in> set (BackboneAccessPoints db'). \<exists>ap \<in> set (BackboneAccessPoints db).
          id' ap = id' ap' \<and> interiorsite ap = interiorsite ap' \<and>
          (lifecycle ap' = Some LC_ready \<longrightarrow> lifecycle ap = Some LC_ready \<or> backed db (id' ap))"
    proof
      fix ap'
      assume "ap' \<in> set (BackboneAccessPoints db')"
      then obtain ap where ap: "ap \<in> set (BackboneAccessPoints db)"
          "ap' = (if id' ap = id' r then ap\<lparr>lifecycle := Some LC_skx_cr_created\<rparr> else ap)"
        using set_lifecycle_row [of ap' LC_skx_cr_created "id' r" "BackboneAccessPoints db"]
        by (auto simp add: db'_def)
      have "id' ap = id' ap' \<and> interiorsite ap = interiorsite ap' \<and>
          (lifecycle ap' = Some LC_ready \<longrightarrow> lifecycle ap = Some LC_ready \<or> backed db (id' ap))"
        using ap(2) by (auto split: if_splits)
      then show "\<exists>ap \<in> set (BackboneAccessPoints db).
          id' ap = id' ap' \<and> interiorsite ap = interiorsite ap' \<and>
          (lifecycle ap' = Some LC_ready \<longrightarrow> lifecycle ap = Some LC_ready \<or> backed db (id' ap))"
        using ap(1) by blast
    qed
    show "\<forall>cr \<in> set (CertificateRequests db'). cr \<in> set (CertificateRequests db) \<or>
          (case resolve_target cr of
             Inl err \<Rightarrow> True
           | Inr t \<Rightarrow> ref_table t = T_BackboneAccessPoints \<longrightarrow> backed db (ref_id t))"
      using backed
      by (auto simp add: db'_def insert_CertificateRequest_def cr_def
          split: sum.splits dest: blank_request_access)
  qed
  then show ?thesis
    by (simp add: res)
qed

lemma reconciler_backbones_first:
  assumes inv: "backbones_first db"
  shows "backbones_first (fst (reconciler k e db))"
proof (cases "k \<in> {K_Backbones, K_InteriorSites, K_AccessPoints}")
  case True
  then show ?thesis
    using processNewBackbones_backbones_first [OF inv]
      processNewInteriorSites_backbones_first [OF inv]
      processNewAccessPoints_backbones_first [OF inv]
    by auto
next
  case False
  then consider "fst (reconciler k e db) = db"
    | cr where "Backbones (fst (reconciler k e db)) = Backbones db"
        "InteriorSites (fst (reconciler k e db)) = InteriorSites db"
        "BackboneAccessPoints (fst (reconciler k e db)) = BackboneAccessPoints db"
        "CertificateRequests (fst (reconciler k e db)) = CertificateRequests db @ [cr]"
        "case resolve_target cr of
           Inl err \<Rightarrow> True | Inr t \<Rightarrow> ref_table t \<noteq> T_BackboneAccessPoints"
    using reconciler_other_tables [of k e db] by blast
  then show ?thesis
  proof cases
    case 1
    then show ?thesis using inv by simp
  next
    case 2
    then show ?thesis by (rule backbones_first_request [OF inv])
  qed
qed

lemma set_ready_row:
  "x' \<in> set (set_ready c i rows) \<Longrightarrow>
   \<exists>x \<in> set rows.
     x' = (if id' x = i then x\<lparr>certificate := Some c, lifecycle := Some LC_ready\<rparr> else x)"
  by (auto simp add: set_ready_def)

lemma map_id_set_ready: "map id' (set_ready c i rows) = map id' rows"
  by (simp add: set_ready_def)

lemma backbones_first_sites:
  assumes inv: "backbones_first db"
    and tables: "Backbones db' = Backbones db"
      "BackboneAccessPoints db' = BackboneAccessPoints db"
      "CertificateRequests db' = CertificateRequests db"
    and sites: "map (\<lambda>s. (id' s, backbone s)) (InteriorSites db') =
      map (\<lambda>s. (id' s, backbone s)) (InteriorSites db)"
  shows "backbones_first db'"
proof (rule backbones_first_step [OF inv])
  have "map fst (map (\<lambda>s. (id' s, backbone s)) (InteriorSites db')) =
      map fst (map (\<lambda>s. (id' s, backbone s)) (InteriorSites db))"
    by (simp only: sites)
  then show "map id' (InteriorSites db') = map id' (InteriorSites db)"
    by (simp add: comp_def)
  show "\<forall>s' \<in> set (InteriorSites db'). \<exists>s \<in> set (InteriorSites db).
          id' s = id' s' \<and> backbone s = backbone s'"
  proof
    fix s'
    assume "s' \<in> set (InteriorSites db')"
    then have "(id' s', backbone s') \<in> set (map (\<lambda>s. (id' s, backbone s)) (InteriorSites db'))"
      by auto
    then have "(id' s', backbone s') \<in> set (map (\<lambda>s. (id' s, backbone s)) (InteriorSites db))"
      by (simp only: sites)
    then show "\<exists>s \<in> set (InteriorSites db). id' s = id' s' \<and> backbone s = backbone s'"
      by auto
  qed
qed (auto simp add: tables)

lemma evaluateSingleSite_TX_links:
  "Backbones (fst (evaluateSingleSite_TX db s)) = Backbones db
   \<and> BackboneAccessPoints (fst (evaluateSingleSite_TX db s)) = BackboneAccessPoints db
   \<and> CertificateRequests (fst (evaluateSingleSite_TX db s)) = CertificateRequests db
   \<and> map (\<lambda>s. (id' s, backbone s)) (InteriorSites (fst (evaluateSingleSite_TX db s))) =
       map (\<lambda>s. (id' s, backbone s)) (InteriorSites db)"
  by (simp add: evaluateSingleSite_TX_def update_DeploymentState_def Let_def)

lemma SiteLifecycleChanged_TX_backbones_first:
  assumes inv: "backbones_first db"
  shows "backbones_first (fst (SiteLifecycleChanged_TX db i LC_ready))"
  using SiteLifecycleChanged_TX_ready [of db i]
proof
  assume "fst (SiteLifecycleChanged_TX db i LC_ready) = db"
  then show ?thesis using inv by simp
next
  assume "\<exists>s. fst (SiteLifecycleChanged_TX db i LC_ready) = fst (evaluateSingleSite_TX db s)"
  then obtain s where "fst (SiteLifecycleChanged_TX db i LC_ready) = fst (evaluateSingleSite_TX db s)"
    by blast
  then show ?thesis
    using backbones_first_sites [OF inv, of "fst (evaluateSingleSite_TX db s)"]
      evaluateSingleSite_TX_links [of db s]
    by simp
qed

lemma certified_backbones_first:
  assumes inv: "backbones_first db"
    and request: "cert_request \<in> set (CertificateRequests db)"
    and owner: "resolve_target cert_request = Inr t"
  shows "backbones_first (delete_CertificateRequest dblink
     (update_Certificate (ref_table t) dblink (ref_id t) (insert_TlsCertificate c db)))"
    (is "backbones_first ?db'")
proof (rule backbones_first_step [OF inv])
  have bbs: "Backbones ?db' =
      (if ref_table t = T_Backbones then set_ready dblink (ref_id t) (Backbones db)
       else Backbones db)"
    by (cases "ref_table t")
      (simp_all add: delete_CertificateRequest_def insert_TlsCertificate_def)
  have sites: "InteriorSites ?db' =
      (if ref_table t = T_InteriorSites then set_ready dblink (ref_id t) (InteriorSites db)
       else InteriorSites db)"
    by (cases "ref_table t")
      (simp_all add: delete_CertificateRequest_def insert_TlsCertificate_def)
  have aps: "BackboneAccessPoints ?db' =
      (if ref_table t = T_BackboneAccessPoints
       then set_ready dblink (ref_id t) (BackboneAccessPoints db)
       else BackboneAccessPoints db)"
    by (cases "ref_table t")
      (simp_all add: delete_CertificateRequest_def insert_TlsCertificate_def)
  have reqs: "CertificateRequests ?db' = [r \<leftarrow> CertificateRequests db. id' r \<noteq> dblink]"
    by (cases "ref_table t")
      (simp_all add: delete_CertificateRequest_def insert_TlsCertificate_def)
  show "map id' (Backbones ?db') = map id' (Backbones db)"
    by (simp add: bbs map_id_set_ready)
  show "map id' (InteriorSites ?db') = map id' (InteriorSites db)"
    by (simp add: sites map_id_set_ready)
  show "map id' (BackboneAccessPoints ?db') = map id' (BackboneAccessPoints db)"
    by (simp add: aps map_id_set_ready)
  show "\<forall>bb' \<in> set (Backbones ?db'). \<exists>bb \<in> set (Backbones db). id' bb = id' bb' \<and>
          (lifecycle bb = Some LC_ready \<longrightarrow> lifecycle bb' = Some LC_ready)"
  proof
    fix bb'
    assume "bb' \<in> set (Backbones ?db')"
    then obtain bb where bb: "bb \<in> set (Backbones db)"
        "bb' = bb \<or> bb' = bb\<lparr>certificate := Some dblink, lifecycle := Some LC_ready\<rparr>"
      using set_ready_row [of bb' dblink "ref_id t" "Backbones db"]
      unfolding bbs by (auto split: if_splits)
    have "id' bb = id' bb' \<and> (lifecycle bb = Some LC_ready \<longrightarrow> lifecycle bb' = Some LC_ready)"
      using bb(2) by auto
    then show "\<exists>bb \<in> set (Backbones db). id' bb = id' bb' \<and>
          (lifecycle bb = Some LC_ready \<longrightarrow> lifecycle bb' = Some LC_ready)"
      using bb(1) by blast
  qed
  show "\<forall>s' \<in> set (InteriorSites ?db'). \<exists>s \<in> set (InteriorSites db).
          id' s = id' s' \<and> backbone s = backbone s'"
  proof
    fix s'
    assume "s' \<in> set (InteriorSites ?db')"
    then obtain s where s: "s \<in> set (InteriorSites db)"
        "s' = s \<or> s' = s\<lparr>certificate := Some dblink, lifecycle := Some LC_ready\<rparr>"
      using set_ready_row [of s' dblink "ref_id t" "InteriorSites db"]
      unfolding sites by (auto split: if_splits)
    have "id' s = id' s' \<and> backbone s = backbone s'"
      using s(2) by auto
    then show "\<exists>s \<in> set (InteriorSites db). id' s = id' s' \<and> backbone s = backbone s'"
      using s(1) by blast
  qed
  show "\<forall>ap' \<in> set (BackboneAccessPoints ?db'). \<exists>ap \<in> set (BackboneAccessPoints db).
          id' ap = id' ap' \<and> interiorsite ap = interiorsite ap' \<and>
          (lifecycle ap' = Some LC_ready \<longrightarrow> lifecycle ap = Some LC_ready \<or> backed db (id' ap))"
  proof
    fix ap'
    assume "ap' \<in> set (BackboneAccessPoints ?db')"
    then obtain ap where ap: "ap \<in> set (BackboneAccessPoints db)"
        "ap' = ap \<or> (ref_table t = T_BackboneAccessPoints \<and> id' ap = ref_id t \<and>
           ap' = ap\<lparr>certificate := Some dblink, lifecycle := Some LC_ready\<rparr>)"
      using set_ready_row [of ap' dblink "ref_id t" "BackboneAccessPoints db"]
      unfolding aps by (auto split: if_splits)
    have "ref_table t = T_BackboneAccessPoints \<Longrightarrow> backed db (ref_id t)"
      using inv request owner
      unfolding backbones_first_def requests_after_backbone_def by fastforce
    then have "id' ap = id' ap' \<and> interiorsite ap = interiorsite ap' \<and>
        (lifecycle ap' = Some LC_ready \<longrightarrow> lifecycle ap = Some LC_ready \<or> backed db (id' ap))"
      using ap(2) by auto
    then show "\<exists>ap \<in> set (BackboneAccessPoints db).
          id' ap = id' ap' \<and> interiorsite ap = interiorsite ap' \<and>
          (lifecycle ap' = Some LC_ready \<longrightarrow> lifecycle ap = Some LC_ready \<or> backed db (id' ap))"
      using ap(1) by blast
  qed
  show "\<forall>cr \<in> set (CertificateRequests ?db'). cr \<in> set (CertificateRequests db) \<or>
          (case resolve_target cr of
             Inl err \<Rightarrow> True
           | Inr t \<Rightarrow> ref_table t = T_BackboneAccessPoints \<longrightarrow> backed db (ref_id t))"
    by (simp add: reqs)
qed

lemma finalize_backbones_first:
  assumes inv: "backbones_first db"
    and request: "cert_request \<in> set (CertificateRequests db)"
    and fin: "finalize e dblink s cert_request db = (Inr (db', t), evs)"
  shows "backbones_first db'"
proof -
  obtain c where t: "resolve_target cert_request = Inr t"
    and db': "db' =
      (if alertSiteCertChanged t
       then fst (SiteLifecycleChanged_TX
         (delete_CertificateRequest dblink
           (update_Certificate (ref_table t) dblink (ref_id t) (insert_TlsCertificate c db)))
         (ref_id t) LC_ready)
       else delete_CertificateRequest dblink
           (update_Certificate (ref_table t) dblink (ref_id t) (insert_TlsCertificate c db)))"
    using fin
    by (auto simp add: finalize_def Let_def
        split: sum.splits option.splits list.splits if_splits)
  show ?thesis
    unfolding db'
    using certified_backbones_first [OF inv request t, of dblink c]
      SiteLifecycleChanged_TX_backbones_first
    by simp
qed

lemma secretAdded_backbones_first:
  assumes inv: "backbones_first db"
  shows "backbones_first (fst (secretAdded e dblink s db))"
proof (cases "\<exists>cert_request. [r \<leftarrow> CertificateRequests db. id' r = dblink] = [cert_request]")
  case False
  then have "fst (secretAdded e dblink s db) = db"
    by (auto simp add: secretAdded_def split: list.splits)
  then show ?thesis
    using inv by simp
next
  case True
  then obtain cert_request where
    rows: "[r \<leftarrow> CertificateRequests db. id' r = dblink] = [cert_request]"
    by blast
  have request: "cert_request \<in> set (CertificateRequests db)"
    using arg_cong [OF rows, of set] by auto
  obtain res evs where fin: "finalize e dblink s cert_request db = (res, evs)"
    by (cases "finalize e dblink s cert_request db")
  show ?thesis
  proof (cases res)
    case (Inl err)
    then show ?thesis
      using inv by (simp add: secretAdded_def rows fin)
  next
    case (Inr committed)
    obtain db' t where committed: "committed = (db', t)"
      by (cases committed)
    have "backbones_first db'"
      using finalize_backbones_first [OF inv request] fin Inr committed by simp
    moreover have "fst (secretAdded e dblink s db) = db'"
      by (simp add: secretAdded_def rows fin Inr committed split: prod.split option.split)
    ultimately show ?thesis
      by simp
  qed
qed

lemma onSecretWatch_backbones_first:
  assumes inv: "backbones_first db"
  shows "backbones_first (fst (onSecretWatch e action s db))"
  using inv secretAdded_backbones_first [OF inv]
  by (simp add: onSecretWatch_def split: option.split)

lemma backbones_first_access:
  "backbones_first db \<Longrightarrow> access_after_backbone db"
  by (simp add: backbones_first_def)

text \<open>
  C8.  In a state of the database in which every ready access point belongs to a ready
  backbone (the states the program reaches), the query of a reconcile cycle returns
  exactly the access points that are ready and of kind \<^verbatim>\<open>manage\<close> and whose backbone is
  ready, each with its backbone.  One row is kept per backbone.  When the transaction
  and the handlers do not raise, the cycle leaves a session for exactly the backbones of
  the result, has opened one for each backbone that had none, has closed the session of
  each backbone that is no longer in the result, and comes back after 30 seconds.
\<close>

theorem backbone_links_reconcile:
  assumes "access_after_backbone db"
    and "link_fault e = None" "\<forall>ev. raises e ev = None" "distinct (map fst conns)"
  shows "set (select_manage_access db) =
           {(ap, b). ap \<in> set (BackboneAccessPoints db) \<and> lifecycle ap = Some LC_ready \<and>
              kind ap = Some AP_manage \<and>
              (\<exists>s \<in> set (InteriorSites db). \<exists>bb \<in> set (Backbones db).
                 interiorsite ap = Some (id' s) \<and> backbone s = Some (id' bb) \<and>
                 lifecycle bb = Some LC_ready \<and> b = id' bb)}
       \<and> distinct (map fst (collect_db_rows [] (select_manage_access db)))
       \<and> (\<forall>(b, r) \<in> set (collect_db_rows [] (select_manage_access db)).
             (r, b) \<in> set (select_manage_access db))
       \<and> fst ` set (collect_db_rows [] (select_manage_access db)) =
           snd ` set (select_manage_access db)
       \<and> (case reconcileBackboneConnections e db conns of
             (conns', evs, delay) \<Rightarrow>
               set (map fst conns') = snd ` set (select_manage_access db)
             \<and> set (opened evs) = snd ` set (select_manage_access db) - fst ` set conns
             \<and> set (closed evs) = fst ` set conns - snd ` set (select_manage_access db)
             \<and> delay = 30000)"
proof -
  have rows: "distinct (map fst (collect_db_rows [] (select_manage_access db)))
       \<and> (\<forall>(b, r) \<in> set (collect_db_rows [] (select_manage_access db)).
             (r, b) \<in> set (select_manage_access db))"
    using collect_db_rows_sound [of "[]" "set (select_manage_access db)" "select_manage_access db"]
    by simp
  have keys: "fst ` set (collect_db_rows [] (select_manage_access db)) =
      snd ` set (select_manage_access db)"
    using keys_collect_db_rows [of "[]" "select_manage_access db"] by simp
  obtain conns' evs where r:
    "reconcileBackboneConnections e db conns = (conns', evs, 30000)"
    "set (map fst conns') = snd ` set (select_manage_access db)"
    "set (opened evs) = snd ` set (select_manage_access db) - fst ` set conns"
    "set (closed evs) = fst ` set conns - snd ` set (select_manage_access db)"
    using reconcile_quiet [OF assms(2-4), of db] by (elim exE conjE) (rule that, assumption+)
  show ?thesis
    using rows keys r
    by (simp only: select_manage_access_ready [OF assms(1), symmetric] prod.case) simp
qed

text \<open>
  The state \<open>links_db\<close> is reached from \<open>fresh_links_db\<close> by the access-point loop and the
  arrival of the secret: the access point \<open>ap2\<close> is ready, under the ready backbone
  \<open>bb2\<close>.  The cycle opens a session to \<open>bb2\<close> and closes the one to \<open>bb9\<close>.
\<close>

theorem backbone_links_reconcile_witness:
  "access_after_backbone links_db
   \<and> select_manage_access links_db = [(manage_ap, ''bb2'')]
   \<and> set (map fst (fst (reconcileBackboneConnections quiet_env links_db old_connections))) = {''bb2''}
   \<and> set (opened (fst (snd (reconcileBackboneConnections quiet_env links_db old_connections)))) = {''bb2''}
   \<and> set (closed (fst (snd (reconcileBackboneConnections quiet_env links_db old_connections)))) = {''bb9''}
   \<and> snd (snd (reconcileBackboneConnections quiet_env links_db old_connections)) = 30000"
proof -
  have "backbones_first fresh_links_db"
    by (simp add: backbones_first_def primary_keys_def access_after_backbone_def
        requests_after_backbone_def fresh_links_db_def empty_db_def)
  then have "backbones_first requested_links_db"
    unfolding requested_links_db_def by (rule processNewAccessPoints_backbones_first)
  then have "backbones_first links_db"
    unfolding links_db_def by (rule onSecretWatch_backbones_first)
  then have inv: "access_after_backbone links_db"
    by (rule backbones_first_access)
  have q: "link_fault quiet_env = None" "\<forall>ev. raises quiet_env ev = None"
      "distinct (map fst old_connections)"
    by (simp_all add: quiet_env_def old_connections_def)
  have rows: "select_manage_access links_db = [(manage_ap, ''bb2'')]"
    by code_simp
  show ?thesis
    using backbone_links_reconcile [OF inv q] inv
    by (auto simp: rows old_connections_def split: prod.splits)
qed

section \<open>State synchronisation\<close>

lemma true_keys_absent:
  "key \<notin> fst ` set m \<Longrightarrow>
   filter (\<lambda>k. k \<noteq> key) (map fst (filter snd m)) = map fst (filter snd m)"
  by (induction m) auto

lemma true_keys_update:
  "distinct (map fst m) \<Longrightarrow>
   map fst (filter snd (AList.update key False m)) =
     filter (\<lambda>k. k \<noteq> key) (map fst (filter snd m))"
  by (induction m) (auto simp add: true_keys_absent)

lemma true_keys_mark:
  "distinct (map fst m) \<Longrightarrow>
   map fst (filter snd (foldl (\<lambda>m (key, h). AList.update key False m) m hs)) =
     filter (\<lambda>k. k \<notin> fst ` set hs) (map fst (filter snd m))"
proof (induction hs arbitrary: m)
  case Nil
  show ?case by simp
next
  case (Cons x hs)
  obtain key h where x: "x = (key, h)" by (cases x)
  have "distinct (map fst (AList.update key False m))"
    using Cons.prems by (simp add: distinct_update)
  then show ?case
    unfolding x using Cons.IH [of "AList.update key False m"] Cons.prems
    by (simp add: true_keys_update)
qed

lemma all_true:
  "distinct ks \<Longrightarrow> set ks \<inter> fst ` set m = {} \<Longrightarrow>
   foldl (\<lambda>m key. AList.update key True m) m ks = m @ map (\<lambda>k. (k, True)) ks"
proof (induction ks arbitrary: m)
  case Nil
  show ?case by simp
next
  case (Cons k ks)
  have k: "k \<notin> fst ` set m" using Cons.prems by auto
  have "AList.update k True m = m @ [(k, True)]"
    using k by (induction m) auto
  moreover have "set ks \<inter> fst ` set (m @ [(k, True)]) = {}"
    using Cons.prems by auto
  ultimately show ?case
    using Cons.IH [of "m @ [(k, True)]"] Cons.prems by simp
qed

lemma toDeleteStateKeys_true:
  assumes "distinct (map fst remote)"
  shows "map fst (filter snd (toDeleteStateKeys remote hs)) =
    filter (\<lambda>k. k \<notin> fst ` set hs) (map fst remote)"
proof -
  have "foldl (\<lambda>m key. AList.update key True m) [] (map fst remote) =
      map (\<lambda>k. (k, True)) (map fst remote)"
    using all_true [of "map fst remote" "[]"] assms by simp
  moreover have "distinct (map fst (map (\<lambda>k. (k, True)) (map fst remote)))"
    using assms by (simp add: comp_def)
  ultimately show ?thesis
    by (simp add: toDeleteStateKeys_def true_keys_mark filter_map comp_def)
qed

lemma toRequestStateKeys_filter:
  "toRequestStateKeys remote hs = map fst (filter (\<lambda>(k, h). js_neq h (map_of remote k)) hs)"
  unfolding toRequestStateKeys_def by (induction hs) auto

lemma delete_states_fold:
  "delete_states e p entries (remote, evs) =
     (foldl (\<lambda>r k. if onStateChange e p k None JNull = None then AList.delete k r else r) remote
        (map fst (filter snd entries)),
      evs @ concat (map (spec_deletion e p) (map fst (filter snd entries))))"
proof (induction entries arbitrary: remote evs)
  case Nil
  show ?case by simp
next
  case (Cons x entries)
  obtain key v where x: "x = (key, v)" by (cases x)
  show ?case
    unfolding x by (simp add: Cons spec_deletion_def split: option.split)
qed

lemma map_of_deleted:
  "map_of (foldl (\<lambda>r k. if ok k then AList.delete k r else r) remote ks) key =
     (if key \<in> set ks \<and> ok key then None else map_of remote key)"
  by (induction ks arbitrary: remote) (simp_all add: delete_conv')

lemma distinct_deleted:
  "distinct (map fst remote) \<Longrightarrow>
   distinct (map fst (foldl (\<lambda>r k. if ok k then AList.delete k r else r) remote ks))"
  by (induction ks arbitrary: remote) (simp_all add: distinct_delete)

lemma request_states_fold:
  "request_states e p dest ks (remote, evs) =
     (foldl (spec_pull_state e p dest) remote ks, evs @ concat (map (spec_pull e p dest) ks))"
proof (induction ks arbitrary: remote evs)
  case Nil
  show ?case by simp
next
  case (Cons k ks)
  show ?case
    by (simp add: Cons spec_pull_def spec_pull_state_def pulled_def split: sum.split option.split)
qed

lemma map_of_spec_pull_state:
  "map_of (spec_pull_state e p dest r k) key =
     (if key = k then
        (case pulled e p dest k of
           None \<Rightarrow> map_of r key
         | Some body \<Rightarrow>
             if onStateChange e p k (rsp_hash body) (rsp_data body) = None
             then Some (rsp_hash body) else map_of r key)
      else map_of r key)"
  by (simp add: spec_pull_state_def update_conv' split: option.split)

lemma map_of_pulled:
  "map_of (foldl (spec_pull_state e p dest) remote ks) key =
     (if key \<in> set ks then
        (case pulled e p dest key of
           None \<Rightarrow> map_of remote key
         | Some body \<Rightarrow>
             if onStateChange e p key (rsp_hash body) (rsp_data body) = None
             then Some (rsp_hash body) else map_of remote key)
      else map_of remote key)"
proof (induction ks arbitrary: remote)
  case Nil
  show ?case by simp
next
  case (Cons k ks)
  show ?case
    by (simp add: Cons map_of_spec_pull_state split: option.split)
qed

lemma distinct_pulled:
  "distinct (map fst remote) \<Longrightarrow> distinct (map fst (foldl (spec_pull_state e p dest) remote ks))"
  by (induction ks arbitrary: remote) (simp_all add: spec_pull_state_def distinct_update split: option.split)

lemma requested_iff:
  assumes "distinct (map fst hs)"
  shows "key \<in> set (toRequestStateKeys remote hs) \<longleftrightarrow>
    (case map_of hs key of None \<Rightarrow> False | Some h \<Rightarrow> js_neq h (map_of remote key))"
proof -
  have "key \<in> set (toRequestStateKeys remote hs) \<longleftrightarrow>
      (\<exists>h. (key, h) \<in> set hs \<and> js_neq h (map_of remote key))"
    by (force simp add: toRequestStateKeys_filter)
  also have "\<dots> \<longleftrightarrow> (\<exists>h. map_of hs key = Some h \<and> js_neq h (map_of remote key))"
    using assms by (auto dest: map_of_SomeD)
  finally show ?thesis
    by (simp split: option.split)
qed

text \<open>
  C3.  Let the heartbeat come from a tracked peer whose remote state is a hash state,
  carry a hashset, and arrive on a connection that is registered; let \<open>onPing\<close> return.
  Then \<open>onHeartbeat\<close> returns, and after \<open>onPing\<close> it does the following, in this order.
  (a) For each key of the remote state that is not in the hashset it calls
  \<open>onStateChange (peerId, key, null, null)\<close> and, if that call returns, then deletes the
  key from the remote state.  (b) For each key of the hashset whose hash is \<^verbatim>\<open>!=\<close> the
  tracked one it sends a \<open>GET\<close> to the address of the peer and, if the reply has status
  200, calls \<open>onStateChange (peerId, key, hash, data)\<close> and, if that call returns, then
  sets the tracked hash of the key; the hash handed over and stored is \<^verbatim>\<open>body.hash\<close>, the
  hash of the reply, not the one the heartbeat advertised.  In the state that
  \<open>onHeartbeat\<close> leaves, the entry of the peer in \<open>peers\<close> is the one it had with this
  remote state: a deleted key is not tracked any more, a pulled key is tracked with the
  hash of the reply, and a key whose call or request failed, or whose reply was not 200,
  keeps the hash it had, as does every other key.  The other peers and the connections
  are as before.
\<close>

theorem onHeartbeat_reconciles:
  assumes known: "peers st peerId = Some p"
    and tracked: "remoteState p = Some remote"
    and ping: "onPing e peerId = None"
    and conn: "connKey \<in> set (connections st)"
    and remote_keys: "distinct (map fst remote)"
    and hashset_keys: "distinct (map fst hs)"
  shows "\<exists>st' remote'.
      onHeartbeat e connKey pclass peerId (Some hs) sender_address st =
        (None, st',
         EV_onPing peerId
           # concat (map (spec_deletion e peerId)
               (filter (\<lambda>k. k \<notin> fst ` set hs) (map fst remote)))
           @ concat (map (spec_pull e peerId (address p))
               (map fst (filter (\<lambda>(k, h). js_neq h (map_of remote k)) hs))))
    \<and> peers st' peerId = Some (p\<lparr>remoteState := Some remote'\<rparr>)
    \<and> (\<forall>other. other \<noteq> peerId \<longrightarrow> peers st' other = peers st other)
    \<and> connections st' = connections st
    \<and> distinct (map fst remote')
    \<and> (\<forall>key. map_of remote' key = spec_remoteState e peerId (address p) remote hs key)
    \<and> (\<forall>key. key \<in> fst ` set remote \<and> key \<notin> fst ` set hs \<longrightarrow>
          map_of remote' key =
            (if onStateChange e peerId key None JNull = None then None else map_of remote key))
    \<and> (\<forall>key h body. (key, h) \<in> set hs \<and> js_neq h (map_of remote key) \<and>
          Request e key (address p) = Inr body \<and> rsp_statusCode body = 200 \<and>
          onStateChange e peerId key (rsp_hash body) (rsp_data body) = None \<longrightarrow>
          map_of remote' key = Some (rsp_hash body))
    \<and> (\<forall>key h. (key, h) \<in> set hs \<and>
          (case Request e key (address p) of
             Inl err \<Rightarrow> True
           | Inr body \<Rightarrow> rsp_statusCode body \<noteq> 200 \<or>
               onStateChange e peerId key (rsp_hash body) (rsp_data body) \<noteq> None) \<longrightarrow>
          map_of remote' key = map_of remote key)"
proof -
  define ok where "ok = (\<lambda>k. onStateChange e peerId k None JNull = None)"
  define deletions where "deletions = filter (\<lambda>k. k \<notin> fst ` set hs) (map fst remote)"
  define remote1 where
    "remote1 = foldl (\<lambda>r k. if ok k then AList.delete k r else r) remote deletions"
  define remote2 where
    "remote2 = foldl (spec_pull_state e peerId (address p)) remote1 (toRequestStateKeys remote hs)"
  define st0 where "st0 = st\<lparr>initialBeacon := False\<rparr>"
  define st2 where "st2 = set_remoteState peerId p remote2 st0"
  have greeted: "greet e connKey pclass peerId sender_address (st\<lparr>initialBeacon := False\<rparr>) =
      (None, st0, [EV_onPing peerId])"
    by (simp add: greet_def known ping st0_def)
  have known0: "peers st0 peerId = Some p" and conn0: "connKey \<in> set (connections st0)"
    by (simp_all add: st0_def known conn)
  have deleted: "delete_states e peerId (toDeleteStateKeys remote hs) (remote, [EV_onPing peerId]) =
      (remote1, [EV_onPing peerId] @ concat (map (spec_deletion e peerId) deletions))"
    unfolding delete_states_fold toDeleteStateKeys_true [OF remote_keys]
    by (simp add: remote1_def deletions_def ok_def)
  have requested: "request_states e peerId (address p) (toRequestStateKeys remote hs)
        (remote1, [EV_onPing peerId] @ concat (map (spec_deletion e peerId) deletions)) =
      (remote2, ([EV_onPing peerId] @ concat (map (spec_deletion e peerId) deletions))
         @ concat (map (spec_pull e peerId (address p)) (toRequestStateKeys remote hs)))"
    unfolding request_states_fold by (simp add: remote2_def)
  have run: "onHeartbeat e connKey pclass peerId (Some hs) sender_address st =
        (None, st2,
         EV_onPing peerId
           # concat (map (spec_deletion e peerId) deletions)
           @ concat (map (spec_pull e peerId (address p)) (toRequestStateKeys remote hs)))"
    unfolding onHeartbeat_def greeted
    by (simp add: known0 tracked conn0 deleted requested st2_def del: append.simps)
  have stored: "peers st2 peerId = Some (p\<lparr>remoteState := Some remote2\<rparr>)"
    by (simp add: st2_def set_remoteState_def)
  have others: "peers st2 other = peers st other" if "other \<noteq> peerId" for other
    using that by (simp add: st2_def set_remoteState_def st0_def)
  have conns: "connections st2 = connections st"
    by (simp add: st2_def set_remoteState_def st0_def)
  have d: "distinct (map fst remote2)"
    unfolding remote2_def remote1_def
    by (intro distinct_pulled distinct_deleted remote_keys)
  have m1: "map_of remote1 key = (if key \<in> set deletions \<and> ok key then None else map_of remote key)"
    for key
    unfolding remote1_def by (rule map_of_deleted)
  have in_hs: "key \<in> fst ` set hs \<longleftrightarrow> map_of hs key \<noteq> None" for key
    by (simp add: map_of_eq_None_iff)
  have m2: "map_of remote2 key = spec_remoteState e peerId (address p) remote hs key" for key
  proof (cases "map_of hs key")
    case None
    then have "key \<notin> set (toRequestStateKeys remote hs)"
      by (simp add: requested_iff [OF hashset_keys])
    moreover have "key \<in> set deletions \<longleftrightarrow> key \<in> fst ` set remote"
      using None by (auto simp add: deletions_def in_hs)
    ultimately show ?thesis
      unfolding remote2_def
      by (simp add: map_of_pulled m1 spec_remoteState_def None ok_def)
  next
    case (Some h)
    then have "key \<notin> set deletions"
      by (simp add: deletions_def in_hs)
    then have "map_of remote1 key = map_of remote key"
      by (simp add: m1)
    then show ?thesis
      unfolding remote2_def
      by (simp add: map_of_pulled spec_remoteState_def Some requested_iff [OF hashset_keys]
          split: option.split)
  qed
  have entry: "map_of hs key = Some h" if "(key, h) \<in> set hs" for key h
    using that hashset_keys by simp
  have gone: "map_of remote2 key =
      (if onStateChange e peerId key None JNull = None then None else map_of remote key)"
    if "key \<in> fst ` set remote \<and> key \<notin> fst ` set hs" for key
    using that by (simp add: m2 spec_remoteState_def in_hs)
  have pulled_ok: "map_of remote2 key = Some (rsp_hash body)"
    if "(key, h) \<in> set hs \<and> js_neq h (map_of remote key) \<and>
          Request e key (address p) = Inr body \<and> rsp_statusCode body = 200 \<and>
          onStateChange e peerId key (rsp_hash body) (rsp_data body) = None" for key h body
    using that entry [of key h] by (simp add: m2 spec_remoteState_def pulled_def)
  have kept: "map_of remote2 key = map_of remote key"
    if "(key, h) \<in> set hs \<and>
          (case Request e key (address p) of
             Inl err \<Rightarrow> True
           | Inr body \<Rightarrow> rsp_statusCode body \<noteq> 200 \<or>
               onStateChange e peerId key (rsp_hash body) (rsp_data body) \<noteq> None)" for key h
    using that entry [of key h]
    by (auto simp add: m2 spec_remoteState_def pulled_def split: sum.splits)
  show ?thesis
  proof (intro exI conjI allI impI)
    show "onHeartbeat e connKey pclass peerId (Some hs) sender_address st =
        (None, st2,
         EV_onPing peerId
           # concat (map (spec_deletion e peerId)
               (filter (\<lambda>k. k \<notin> fst ` set hs) (map fst remote)))
           @ concat (map (spec_pull e peerId (address p))
               (map fst (filter (\<lambda>(k, h). js_neq h (map_of remote k)) hs))))"
      using run by (simp only: deletions_def toRequestStateKeys_filter)
    show "peers st2 peerId = Some (p\<lparr>remoteState := Some remote2\<rparr>)" by (rule stored)
    show "peers st2 other = peers st other" if "other \<noteq> peerId" for other
      using that by (rule others)
    show "connections st2 = connections st" by (rule conns)
    show "distinct (map fst remote2)" by (rule d)
    show "map_of remote2 key = spec_remoteState e peerId (address p) remote hs key" for key
      by (rule m2)
    show "map_of remote2 key =
        (if onStateChange e peerId key None JNull = None then None else map_of remote key)"
      if "key \<in> fst ` set remote \<and> key \<notin> fst ` set hs" for key
      using that by (rule gone)
    show "map_of remote2 key = Some (rsp_hash body)"
      if "(key, h) \<in> set hs \<and> js_neq h (map_of remote key) \<and>
          Request e key (address p) = Inr body \<and> rsp_statusCode body = 200 \<and>
          onStateChange e peerId key (rsp_hash body) (rsp_data body) = None" for key h body
      using that by (rule pulled_ok)
    show "map_of remote2 key = map_of remote key"
      if "(key, h) \<in> set hs \<and>
          (case Request e key (address p) of
             Inl err \<Rightarrow> True
           | Inr body \<Rightarrow> rsp_statusCode body \<noteq> 200 \<or>
               onStateChange e peerId key (rsp_hash body) (rsp_data body) \<noteq> None)" for key h
      using that by (rule kept)
  qed
qed

theorem onHeartbeat_reconciles_witness:
  "(\<exists>st' remote'.
      onHeartbeat answering_env ''bb1'' ''backbone'' ''s1'' (Some [(''link-L1'', Some ''H1'')])
          ''amq.s1'' sync_s1 =
        (None, st',
         [EV_onPing ''s1'',
          EV_onStateChange ''s1'' ''link-L0'' None JNull, EV_delete_remoteState ''s1'' ''link-L0'',
          EV_GetState ''link-L1'' ''amq.s1'',
          EV_onStateChange ''s1'' ''link-L1'' (Some ''H1'') link_data,
          EV_set_remoteState ''s1'' ''link-L1'' (Some ''H1'')])
    \<and> peers st' ''s1'' = Some (peer_s1\<lparr>remoteState := Some remote'\<rparr>)
    \<and> map_of remote' ''link-L1'' = Some (Some ''H1'')
    \<and> map_of remote' ''link-L0'' = None)
   \<and> map_option remoteState
        (peers (fst (snd (onHeartbeat answering_env ''bb1'' ''backbone'' ''s1''
           (Some [(''link-L1'', Some ''H1'')]) ''amq.s1'' sync_s1))) ''s1'') =
      Some (Some [(''link-L1'', Some ''H1'')])"
proof -
  define remote where "remote = [(''link-L1'', Some ''H0''), (''link-L0'', Some ''G0'')]"
  define hs :: hash_state where "hs = [(''link-L1'', Some ''H1'')]"
  have known: "peers sync_s1 ''s1'' = Some peer_s1"
    by (simp add: sync_s1_def)
  have tracked: "remoteState peer_s1 = Some remote"
    by (simp add: peer_s1_def remote_def)
  have ping: "onPing answering_env ''s1'' = None"
    by (simp add: answering_env_def)
  have conn: "''bb1'' \<in> set (connections sync_s1)"
    by (simp add: sync_s1_def)
  have remote_keys: "distinct (map fst remote)"
    by (simp add: remote_def)
  have hashset_keys: "distinct (map fst hs)"
    by (simp add: hs_def)
  have deletions: "filter (\<lambda>k. k \<notin> fst ` set hs) (map fst remote) = [''link-L0'']"
    by (simp add: hs_def remote_def)
  have pulls: "map fst (filter (\<lambda>(k, h). js_neq h (map_of remote k)) hs) = [''link-L1'']"
    by (simp add: hs_def remote_def js_neq_def)
  have trace: "concat (map (spec_deletion answering_env ''s1'') [''link-L0''])
      @ concat (map (spec_pull answering_env ''s1'' (address peer_s1)) [''link-L1'']) =
      [EV_onStateChange ''s1'' ''link-L0'' None JNull, EV_delete_remoteState ''s1'' ''link-L0'',
       EV_GetState ''link-L1'' ''amq.s1'',
       EV_onStateChange ''s1'' ''link-L1'' (Some ''H1'') link_data,
       EV_set_remoteState ''s1'' ''link-L1'' (Some ''H1'')]"
    by (simp add: spec_deletion_def spec_pull_def pulled_def answering_env_def peer_s1_def)
  have after: "spec_remoteState answering_env ''s1'' (address peer_s1) remote hs ''link-L1'' =
      Some (Some ''H1'')"
    "spec_remoteState answering_env ''s1'' (address peer_s1) remote hs ''link-L0'' = None"
    by (simp_all add: spec_remoteState_def pulled_def answering_env_def peer_s1_def remote_def
        hs_def js_neq_def)
  from onHeartbeat_reconciles [OF known tracked ping conn remote_keys hashset_keys,
      of "''backbone''" "''amq.s1''"]
  obtain st' remote' where r:
    "onHeartbeat answering_env ''bb1'' ''backbone'' ''s1'' (Some hs) ''amq.s1'' sync_s1 =
        (None, st',
         EV_onPing ''s1''
           # concat (map (spec_deletion answering_env ''s1'')
               (filter (\<lambda>k. k \<notin> fst ` set hs) (map fst remote)))
           @ concat (map (spec_pull answering_env ''s1'' (address peer_s1))
               (map fst (filter (\<lambda>(k, h). js_neq h (map_of remote k)) hs))))"
    "peers st' ''s1'' = Some (peer_s1\<lparr>remoteState := Some remote'\<rparr>)"
    "\<forall>key. map_of remote' key =
       spec_remoteState answering_env ''s1'' (address peer_s1) remote hs key"
    by (elim exE conjE) (rule that, assumption+)
  have first: "\<exists>st' remote'.
      onHeartbeat answering_env ''bb1'' ''backbone'' ''s1'' (Some [(''link-L1'', Some ''H1'')])
          ''amq.s1'' sync_s1 =
        (None, st',
         [EV_onPing ''s1'',
          EV_onStateChange ''s1'' ''link-L0'' None JNull, EV_delete_remoteState ''s1'' ''link-L0'',
          EV_GetState ''link-L1'' ''amq.s1'',
          EV_onStateChange ''s1'' ''link-L1'' (Some ''H1'') link_data,
          EV_set_remoteState ''s1'' ''link-L1'' (Some ''H1'')])
    \<and> peers st' ''s1'' = Some (peer_s1\<lparr>remoteState := Some remote'\<rparr>)
    \<and> map_of remote' ''link-L1'' = Some (Some ''H1'')
    \<and> map_of remote' ''link-L0'' = None"
  proof (intro exI conjI)
    show "onHeartbeat answering_env ''bb1'' ''backbone'' ''s1'' (Some [(''link-L1'', Some ''H1'')])
          ''amq.s1'' sync_s1 =
        (None, st',
         [EV_onPing ''s1'',
          EV_onStateChange ''s1'' ''link-L0'' None JNull, EV_delete_remoteState ''s1'' ''link-L0'',
          EV_GetState ''link-L1'' ''amq.s1'',
          EV_onStateChange ''s1'' ''link-L1'' (Some ''H1'') link_data,
          EV_set_remoteState ''s1'' ''link-L1'' (Some ''H1'')])"
      using r(1) unfolding deletions pulls trace by (simp only: hs_def)
    show "peers st' ''s1'' = Some (peer_s1\<lparr>remoteState := Some remote'\<rparr>)"
      by (rule r(2))
    show "map_of remote' ''link-L1'' = Some (Some ''H1'')"
      using r(3) [rule_format, of "''link-L1''"] by (simp only: after)
    show "map_of remote' ''link-L0'' = None"
      using r(3) [rule_format, of "''link-L0''"] by (simp only: after)
  qed
  have second: "map_option remoteState
        (peers (fst (snd (onHeartbeat answering_env ''bb1'' ''backbone'' ''s1''
           (Some [(''link-L1'', Some ''H1'')]) ''amq.s1'' sync_s1))) ''s1'') =
      Some (Some [(''link-L1'', Some ''H1'')])"
    by code_simp
  show ?thesis
    using first second by (rule conjI)
qed

text \<open>
  The hash that is stored is the one of the reply.  When the state of the peer has
  changed again before the request is answered, the reply carries \<^verbatim>\<open>"H2"\<close> although
  the heartbeat advertised \<^verbatim>\<open>"H1"\<close>, and \<^verbatim>\<open>"H2"\<close> is what \<open>onStateChange\<close> receives and
  what is tracked afterwards.  When the reply is not a 200, or the request is rejected,
  the tracked hash stays \<^verbatim>\<open>"H0"\<close>.
\<close>

lemma onHeartbeat_reply_hash:
  "(case onHeartbeat (answering_env\<lparr>Request := \<lambda>key dest. Inr \<lparr>rsp_statusCode = 200,
        rsp_statusDescription = ''OK'', rsp_hash = Some ''H2'', rsp_data = link_data\<rparr>\<rparr>)
      ''bb1'' ''backbone'' ''s1'' (Some [(''link-L1'', Some ''H1'')]) ''amq.s1'' sync_s1 of
      (r, st', evs) \<Rightarrow> (r, map_option remoteState (peers st' ''s1''), evs)) =
     (None, Some (Some [(''link-L1'', Some ''H2'')]),
      [EV_onPing ''s1'',
       EV_onStateChange ''s1'' ''link-L0'' None JNull, EV_delete_remoteState ''s1'' ''link-L0'',
       EV_GetState ''link-L1'' ''amq.s1'',
       EV_onStateChange ''s1'' ''link-L1'' (Some ''H2'') link_data,
       EV_set_remoteState ''s1'' ''link-L1'' (Some ''H2'')])"
  by code_simp

lemma onHeartbeat_reply_not_200:
  "(case onHeartbeat (answering_env\<lparr>Request := \<lambda>key dest. Inr \<lparr>rsp_statusCode = 404,
        rsp_statusDescription = ''Not Found'', rsp_hash = None, rsp_data = JNull\<rparr>\<rparr>)
      ''bb1'' ''backbone'' ''s1'' (Some [(''link-L1'', Some ''H1'')]) ''amq.s1'' sync_s1 of
      (r, st', evs) \<Rightarrow> (r, map_option remoteState (peers st' ''s1''), evs)) =
     (None, Some (Some [(''link-L1'', Some ''H0'')]),
      [EV_onPing ''s1'',
       EV_onStateChange ''s1'' ''link-L0'' None JNull, EV_delete_remoteState ''s1'' ''link-L0'',
       EV_GetState ''link-L1'' ''amq.s1''])"
  by code_simp

lemma onHeartbeat_request_rejected:
  "(case onHeartbeat (answering_env\<lparr>Request := \<lambda>key dest. Inl (Error ''AMQP request/response timeout'')\<rparr>)
      ''bb1'' ''backbone'' ''s1'' (Some [(''link-L1'', Some ''H1'')]) ''amq.s1'' sync_s1 of
      (r, st', evs) \<Rightarrow> (r, map_option remoteState (peers st' ''s1''), evs)) =
     (None, Some (Some [(''link-L1'', Some ''H0'')]),
      [EV_onPing ''s1'',
       EV_onStateChange ''s1'' ''link-L0'' None JNull, EV_delete_remoteState ''s1'' ''link-L0'',
       EV_GetState ''link-L1'' ''amq.s1''])"
  by code_simp

end
